theory Spec2Isabelle
  imports Complex_Main "HOL-Library.AList" "HOL-Library.Sublist"
begin

section \<open>Runtime values, errors and strings\<close>

text \<open>
  The library is TypeScript. A thrown exception is the left summand of a result
  \<open>js_error + 'a\<close>; the payload of \<open>Error\<close> is the message of \<^verbatim>\<open>new Error(msg)\<close>,
  \<open>TypeError\<close> is the runtime's own error for a method call on \<^verbatim>\<open>undefined\<close>,
  \<open>QueryParseError\<close> carries message and status, \<open>ZodError\<close> is what a failed
  \<^verbatim>\<open>schema.parse\<close> throws (its issue list is not modelled).

  A string is the list of the UTF-8 bytes of the JavaScript string, so a character
  outside ASCII is two or three bytes, none of them an ASCII byte.
\<close>

datatype js_error = Error string | TypeError string | QueryParseError string nat | ZodError

datatype jsnum = NaN | PosInfinity | NegInfinity | Finite real

datatype js_value =
    JUndefined
  | JNull
  | JBool bool
  | JNum jsnum
  | JStr string
  | JArr "js_value list"
  | JObj "(string \<times> js_value) list"
  | JBuffer string

type_synonym js_object = "(string \<times> js_value) list"
type_synonym StringRecord = "(string \<times> string) list"

text \<open>
  Functions of the JavaScript runtime that the library calls and that are not part of
  the repository: \<^verbatim>\<open>Number(s)\<close>, \<^verbatim>\<open>JSON.parse(s)\<close> (\<open>None\<close> when it throws) and
  \<^verbatim>\<open>Buffer.from(s, 'base64')\<close>. Every function below that needs one takes the record.
\<close>

record js_runtime =
  Number :: "string \<Rightarrow> jsnum"
  JSON_parse :: "string \<Rightarrow> js_value option"
  Buffer_from_base64 :: "string \<Rightarrow> string"

definition isNaN :: "jsnum \<Rightarrow> bool" where
  "isNaN n = (n = NaN)"

definition isFinite :: "jsnum \<Rightarrow> bool" where
  "isFinite n = (case n of Finite r \<Rightarrow> True | _ \<Rightarrow> False)"

definition toUpperCase_char :: "char \<Rightarrow> char" where
  "toUpperCase_char c =
     (case map_of (zip ''abcdefghijklmnopqrstuvwxyz'' ''ABCDEFGHIJKLMNOPQRSTUVWXYZ'') c of
        Some u \<Rightarrow> u | None \<Rightarrow> c)"

definition toLowerCase_char :: "char \<Rightarrow> char" where
  "toLowerCase_char c =
     (case map_of (zip ''ABCDEFGHIJKLMNOPQRSTUVWXYZ'' ''abcdefghijklmnopqrstuvwxyz'') c of
        Some l \<Rightarrow> l | None \<Rightarrow> c)"

text \<open>
  \<^verbatim>\<open>String.prototype.toUpperCase\<close> and \<^verbatim>\<open>toLowerCase\<close>, as far as ASCII text can see them.
  Besides the letters a-z, the characters whose upper case consists of ASCII letters are
  the long s (U+017F), the dotless i (U+0131), the sharp s (U+00DF, to \<^verbatim>\<open>SS\<close>) and the
  ligatures U+FB00 to U+FB06; besides A-Z, the only character whose lower case is ASCII
  is the Kelvin sign (U+212A). The tables give their UTF-8 bytes. For every other
  character outside ASCII the upper and the lower case contain a character outside
  ASCII; its bytes are kept, so the result equals a given ASCII string exactly when the
  JavaScript result does.
\<close>

definition upper_special :: "(string \<times> string) list" where
  "upper_special =
     [([CHR 0xC5, CHR 0xBF], ''S''),
      ([CHR 0xC4, CHR 0xB1], ''I''),
      ([CHR 0xC3, CHR 0x9F], ''SS''),
      ([CHR 0xEF, CHR 0xAC, CHR 0x80], ''FF''),
      ([CHR 0xEF, CHR 0xAC, CHR 0x81], ''FI''),
      ([CHR 0xEF, CHR 0xAC, CHR 0x82], ''FL''),
      ([CHR 0xEF, CHR 0xAC, CHR 0x83], ''FFI''),
      ([CHR 0xEF, CHR 0xAC, CHR 0x84], ''FFL''),
      ([CHR 0xEF, CHR 0xAC, CHR 0x85], ''ST''),
      ([CHR 0xEF, CHR 0xAC, CHR 0x86], ''ST'')]"

definition lower_special :: "(string \<times> string) list" where
  "lower_special = [([CHR 0xE2, CHR 0x84, CHR 0xAA], ''k'')]"

fun lookup_prefix :: "(string \<times> string) list \<Rightarrow> string \<Rightarrow> (string \<times> nat) option" where
  "lookup_prefix [] s = None"
| "lookup_prefix (kr # t) s =
     (if fst kr \<noteq> [] \<and> take (length (fst kr)) s = fst kr
      then Some (snd kr, length (fst kr) - 1)
      else lookup_prefix t s)"

fun case_map :: "(string \<times> string) list \<Rightarrow> (char \<Rightarrow> char) \<Rightarrow> string \<Rightarrow> string" where
  "case_map t f [] = []"
| "case_map t f (c # cs) =
     (case lookup_prefix t (c # cs) of
        None \<Rightarrow> f c # case_map t f cs
      | Some rn \<Rightarrow> fst rn @ case_map t f (drop (snd rn) cs))"

definition toUpperCase :: "string \<Rightarrow> string" where
  "toUpperCase s = case_map upper_special toUpperCase_char s"

definition toLowerCase :: "string \<Rightarrow> string" where
  "toLowerCase s = case_map lower_special toLowerCase_char s"

text \<open>A string is falsy exactly when it is absent or empty.\<close>

definition truthy :: "string option \<Rightarrow> bool" where
  "truthy s = (case s of None \<Rightarrow> False | Some t \<Rightarrow> t \<noteq> [])"

section \<open>Key-condition compiler (utils/query-request/comparator.ts)\<close>

record DynamoQueryRequest =
  pKey :: string
  pKeyType :: string
  pKeyProp :: string
  sKey :: "string option"
  sKeyType :: "string option"
  sKeyProp :: "string option"
  skValue2 :: "string option"
  skValue2Type :: "string option"
  skComparator :: "string option"
  indexName :: "string option"
  limit :: "int option"
  lastEvaluatedKey :: "js_object option"
  sorting :: "string option"

definition getOperatorSymbolByKey :: "string \<Rightarrow> js_error + string" where
  "getOperatorSymbolByKey operation =
     (let u = toUpperCase operation in
      if u = ''BETWEEN'' then Inr ''BETWEEN''
      else if u = ''BEGINS_WITH'' then Inr ''BEGINS_WITH''
      else if u = ''GREATER_THAN'' \<or> u = ''>'' then Inr ''>''
      else if u = ''LESS_THAN'' \<or> u = ''<'' then Inr ''<''
      else if u = ''GREATER_THAN_OR_EQUAL'' \<or> u = ''>='' then Inr ''>=''
      else if u = ''LESS_THAN_OR_EQUAL'' \<or> u = ''<='' then Inr ''<=''
      else if u = ''EQUAL'' \<or> u = ''='' then Inr ''=''
      else Inl (Error (''Invalid operation key: '' @ operation)))"

definition createKeyConditionExpression :: "DynamoQueryRequest \<Rightarrow> js_error + string" where
  "createKeyConditionExpression queryRequest =
     (let keyConditionExpression = ''#pk = :pk'' in
      if \<not> truthy (sKey queryRequest) then Inr keyConditionExpression
      else
        (case getOperatorSymbolByKey
                (case skComparator queryRequest of None \<Rightarrow> ''='' | Some c \<Rightarrow> c) of
           Inl e \<Rightarrow> Inl e
         | Inr symb \<Rightarrow>
             if symb = ''<'' then Inr (keyConditionExpression @ '' AND #sk < :sk'')
             else if symb = ''>'' then Inr (keyConditionExpression @ '' AND #sk > :sk'')
             else if symb = ''<='' then Inr (keyConditionExpression @ '' AND #sk <= :sk'')
             else if symb = ''>='' then Inr (keyConditionExpression @ '' AND #sk >= :sk'')
             else if symb = ''BEGINS_WITH'' then
               (if \<not> truthy (sKey queryRequest)
                then Inl (Error ''BEGINS_WITH operation requires sortKey.'')
                else Inr (keyConditionExpression @ '' AND begins_with(#sk, :skValue2)''))
             else if symb = ''BETWEEN'' then
               (if \<not> truthy (sKey queryRequest) \<or> \<not> truthy (skValue2 queryRequest)
                then Inl (Error ''BETWEEN operation requires both sk and skValue2.'')
                else Inr (keyConditionExpression @ '' AND #sk BETWEEN :sk AND :skValue2''))
             else Inr (keyConditionExpression @ '' AND #sk = :sk'')))"

text \<open>
  The spellings that \<open>getOperatorSymbolByKey\<close> recognises, after upper-casing.
\<close>

definition recognized_spellings :: "string list" where
  "recognized_spellings =
     [''BETWEEN'', ''BEGINS_WITH'', ''GREATER_THAN'', ''>'', ''LESS_THAN'', ''<'',
      ''GREATER_THAN_OR_EQUAL'', ''>='', ''LESS_THAN_OR_EQUAL'', ''<='', ''EQUAL'', ''='']"

definition sample_request :: DynamoQueryRequest where
  "sample_request =
     \<lparr> pKey = ''folder-1'', pKeyType = ''S'', pKeyProp = ''folderId'',
       sKey = Some ''doc'', sKeyType = Some ''S'', sKeyProp = Some ''fileName'',
       skValue2 = None, skValue2Type = None, skComparator = Some ''BEGINS_WITH'',
       indexName = None, limit = None, lastEvaluatedKey = None, sorting = None \<rparr>"

section \<open>String helpers\<close>

text \<open>
  White space as \<^verbatim>\<open>String.prototype.trim\<close> and the class \<^verbatim>\<open>\s\<close> of regular expressions
  have it: the ASCII characters TAB, LF, VT, FF, CR and SP, and U+00A0, U+1680,
  U+2000 to U+200A, U+2028, U+2029, U+202F, U+205F, U+3000 and U+FEFF, each by its
  UTF-8 bytes. \<open>drop_seqs\<close> removes leading members of a table as long as there are any;
  \<open>trim\<close> removes white space at both ends.
\<close>

definition white_space :: "string list" where
  "white_space =
     [[CHR 0x09], [CHR 0x0A], [CHR 0x0B], [CHR 0x0C], [CHR 0x0D], [CHR 0x20],
      [CHR 0xC2, CHR 0xA0],
      [CHR 0xE1, CHR 0x9A, CHR 0x80],
      [CHR 0xE2, CHR 0x80, CHR 0x80], [CHR 0xE2, CHR 0x80, CHR 0x81],
      [CHR 0xE2, CHR 0x80, CHR 0x82], [CHR 0xE2, CHR 0x80, CHR 0x83],
      [CHR 0xE2, CHR 0x80, CHR 0x84], [CHR 0xE2, CHR 0x80, CHR 0x85],
      [CHR 0xE2, CHR 0x80, CHR 0x86], [CHR 0xE2, CHR 0x80, CHR 0x87],
      [CHR 0xE2, CHR 0x80, CHR 0x88], [CHR 0xE2, CHR 0x80, CHR 0x89],
      [CHR 0xE2, CHR 0x80, CHR 0x8A],
      [CHR 0xE2, CHR 0x80, CHR 0xA8], [CHR 0xE2, CHR 0x80, CHR 0xA9],
      [CHR 0xE2, CHR 0x80, CHR 0xAF],
      [CHR 0xE2, CHR 0x81, CHR 0x9F],
      [CHR 0xE3, CHR 0x80, CHR 0x80],
      [CHR 0xEF, CHR 0xBB, CHR 0xBF]]"

fun prefix_len :: "string list \<Rightarrow> string \<Rightarrow> nat" where
  "prefix_len [] s = 0"
| "prefix_len (k # ks) s =
     (if k \<noteq> [] \<and> take (length k) s = k then length k else prefix_len ks s)"

fun drop_seqs :: "string list \<Rightarrow> string \<Rightarrow> string" where
  "drop_seqs ks [] = []"
| "drop_seqs ks (c # cs) =
     (if prefix_len ks (c # cs) = 0 then c # cs
      else drop_seqs ks (drop (prefix_len ks (c # cs) - 1) cs))"

definition skip_white_space :: "string \<Rightarrow> string" where
  "skip_white_space s = drop_seqs white_space s"

definition starts_with_white_space :: "string \<Rightarrow> bool" where
  "starts_with_white_space s = (0 < prefix_len white_space s)"

definition trim :: "string \<Rightarrow> string" where
  "trim s = rev (drop_seqs (map rev white_space) (rev (skip_white_space s)))"

text \<open>\<^verbatim>\<open>s.split(sep)\<close> for a one-character separator: the empty string gives one empty piece.\<close>

fun split_on :: "char \<Rightarrow> string \<Rightarrow> string list" where
  "split_on sep [] = [[]]"
| "split_on sep (c # cs) =
     (if c = sep then [] # split_on sep cs
      else (case split_on sep cs of [] \<Rightarrow> [[c]] | w # ws \<Rightarrow> (c # w) # ws))"

fun join :: "string \<Rightarrow> string list \<Rightarrow> string" where
  "join sep [] = []"
| "join sep [x] = x"
| "join sep (x # y # ys) = x @ sep @ join sep (y # ys)"

definition startsWith :: "string \<Rightarrow> char \<Rightarrow> bool" where
  "startsWith s c = (case s of [] \<Rightarrow> False | d # _ \<Rightarrow> d = c)"

text \<open>
  A plain object is an association list in property order. Assignment \<^verbatim>\<open>o[k] = v\<close> is
  \<open>AList.update\<close> (a new key goes last, an existing key keeps its place); the spread
  \<^verbatim>\<open>{...a, ...b}\<close> assigns the properties of \<open>b\<close> in order onto \<open>a\<close>.
\<close>

definition obj_assign :: "('k \<times> 'v) list \<Rightarrow> ('k \<times> 'v) list \<Rightarrow> ('k \<times> 'v) list" where
  "obj_assign a b = foldl (\<lambda>acc kv. AList.update (fst kv) (snd kv) acc) a b"

definition or_empty :: "('k \<times> 'v) list option \<Rightarrow> ('k \<times> 'v) list" where
  "or_empty m = (case m of None \<Rightarrow> [] | Some x \<Rightarrow> x)"

section \<open>Key value coercion (parseDynamoKeyValue)\<close>

definition parseDynamoKeyValue :: "js_runtime \<Rightarrow> string \<Rightarrow> string \<Rightarrow> js_error + js_value" where
  "parseDynamoKeyValue rt key keyType =
     (if keyType = ''S'' then Inr (JStr key)
      else if keyType = ''N'' then Inr (JNum (Number rt key))
      else if keyType = ''BOOL'' then Inr (JBool (toLowerCase key = ''true''))
      else if keyType = ''NULL'' then Inr JNull
      else if keyType = ''M'' then
        (case JSON_parse rt key of
           None \<Rightarrow> Inl (Error ''Invalid JSON format for partitionKeyType M (Map)'')
         | Some v \<Rightarrow> Inr v)
      else if keyType = ''L'' then
        (case JSON_parse rt key of
           None \<Rightarrow> Inl (Error ''Invalid JSON format for partitionKeyType L (List)'')
         | Some v \<Rightarrow> Inr v)
      else if keyType = ''SS'' then
        Inr (JArr (map (\<lambda>item. JStr (trim item)) (split_on CHR '','' key)))
      else if keyType = ''NS'' then
        Inr (JArr (map JNum (filter (\<lambda>num. \<not> isNaN num)
                     (map (\<lambda>item. Number rt (trim item)) (split_on CHR '','' key)))))
      else if keyType = ''BS'' then
        Inr (JArr (map (\<lambda>item. JBuffer (Buffer_from_base64 rt (trim item)))
                     (split_on CHR '','' key)))
      else Inl (Error (''Unsupported partitionKeyType: '' @ keyType)))"

section \<open>Projection aliasing and name extraction\<close>

text \<open>
  The keyword table \<^verbatim>\<open>RESERVED_KEYWORDS_SET\<close> (reserved-keywords-data) is not among the
  sources, so the functions that read it take it as the parameter \<open>RESERVED\<close>,
  the list of its members.
\<close>

definition replaceReservedKeywordsFromProjection :: "string list \<Rightarrow> string \<Rightarrow> string" where
  "replaceReservedKeywordsFromProjection RESERVED projection =
     join '', ''
       (map (\<lambda>item. let trimmed = trim item in
                     if trimmed = [] then trimmed
                     else if toLowerCase trimmed \<in> set RESERVED then ''#'' @ trimmed
                     else trimmed)
            (split_on CHR '','' projection))"

definition extractExpAttributeNamesFromExpression :: "string \<Rightarrow> StringRecord" where
  "extractExpAttributeNamesFromExpression expression =
     foldl (\<lambda>result raw. let attr = trim raw in
                          if startsWith attr CHR ''#'' then AList.update attr (tl attr) result
                          else result)
           [] (split_on CHR '','' expression)"

section \<open>Query command builder (buildQueryCommandInput)\<close>

record CustomQueryCommandInput =
  qi_tableName :: string
  qi_queryRequest :: DynamoQueryRequest
  qi_keyConditionExpression :: "string option"
  qi_filterExpression :: "string option"
  qi_expressionAttributeNames :: "StringRecord option"
  qi_expressionAttributeValues :: "js_object option"
  qi_extraExpAttributeNames :: "StringRecord option"
  qi_extraExpAttributeValues :: "js_object option"
  qi_projectionExpression :: "string option"
  qi_scanIndexForward :: "bool option"
  qi_returnConsumedCapacity :: "string option"

record QueryCommandInput =
  qc_TableName :: string
  qc_IndexName :: "string option"
  qc_KeyConditionExpression :: string
  qc_FilterExpression :: "string option"
  qc_ExpressionAttributeNames :: StringRecord
  qc_ExpressionAttributeValues :: js_object
  qc_ProjectionExpression :: "string option"
  qc_ScanIndexForward :: "bool option"
  qc_ReturnConsumedCapacity :: "string option"
  qc_ExclusiveStartKey :: "js_object option"
  qc_Limit :: "int option"

text \<open>
  The property \<^verbatim>\<open>...(s && { k: parse(s, t) })\<close> of an object literal: nothing when \<open>s\<close>
  is absent or empty, otherwise one property, or the error of the coercion.
\<close>

definition spread_key :: "js_runtime \<Rightarrow> string \<Rightarrow> string option \<Rightarrow> string \<Rightarrow> js_error + js_object" where
  "spread_key rt k s t =
     (case s of
        None \<Rightarrow> Inr []
      | Some v \<Rightarrow>
          if v = [] then Inr []
          else (case parseDynamoKeyValue rt v t of Inl e \<Rightarrow> Inl e | Inr x \<Rightarrow> Inr [(k, x)]))"

definition buildQueryCommandInput ::
  "js_runtime \<Rightarrow> string list \<Rightarrow> CustomQueryCommandInput \<Rightarrow> js_error + QueryCommandInput" where
  "buildQueryCommandInput rt RESERVED input =
     (let queryRequest = qi_queryRequest input in
      case createKeyConditionExpression queryRequest of
        Inl e \<Rightarrow> Inl e
      | Inr KeyConditionExpression \<Rightarrow>
          let ProjectionExpression =
                (case qi_projectionExpression input of
                   None \<Rightarrow> None
                 | Some p \<Rightarrow> if p = [] then None
                            else Some (replaceReservedKeywordsFromProjection RESERVED p));
              ExpressionAttributeNames =
                obj_assign
                  (obj_assign
                     (obj_assign [(''#pk'', pKeyProp queryRequest)]
                        (case sKeyProp queryRequest of
                           None \<Rightarrow> []
                         | Some p \<Rightarrow> if p = [] then [] else [(''#sk'', p)]))
                     (case ProjectionExpression of
                        None \<Rightarrow> []
                      | Some p \<Rightarrow> if p = [] then []
                                 else extractExpAttributeNamesFromExpression p))
                  (or_empty (qi_extraExpAttributeNames input));
              sKeyType' = (case sKeyType queryRequest of None \<Rightarrow> ''S'' | Some t \<Rightarrow> t)
          in
          (case parseDynamoKeyValue rt (pKey queryRequest) (pKeyType queryRequest) of
             Inl e \<Rightarrow> Inl e
           | Inr pk \<Rightarrow>
          (case spread_key rt '':sk'' (sKey queryRequest) sKeyType' of
             Inl e \<Rightarrow> Inl e
           | Inr sk \<Rightarrow>
          (case spread_key rt '':skValue2'' (skValue2 queryRequest) sKeyType' of
             Inl e \<Rightarrow> Inl e
           | Inr sk2 \<Rightarrow>
               Inr \<lparr> qc_TableName = qi_tableName input,
                     qc_IndexName = indexName queryRequest,
                     qc_KeyConditionExpression = KeyConditionExpression,
                     qc_FilterExpression = qi_filterExpression input,
                     qc_ExpressionAttributeNames = ExpressionAttributeNames,
                     qc_ExpressionAttributeValues =
                       obj_assign (obj_assign (obj_assign [('':pk'', pk)] sk) sk2)
                         (or_empty (qi_extraExpAttributeValues input)),
                     qc_ProjectionExpression = ProjectionExpression,
                     qc_ScanIndexForward =
                       (case sorting queryRequest of
                          None \<Rightarrow> qi_scanIndexForward input
                        | Some s \<Rightarrow> Some (toUpperCase s = ''ASC'')),
                     qc_ReturnConsumedCapacity = qi_returnConsumedCapacity input,
                     qc_ExclusiveStartKey = lastEvaluatedKey queryRequest,
                     qc_Limit = limit queryRequest \<rparr>))))"

text \<open>
  What \<^verbatim>\<open>dynamoQueryRequestSch\<close> accepts, stated on the parsed request (strings already
  trimmed by the preprocessors, \<^verbatim>\<open>limit\<close> already a number): the field checks of the
  object schema and the cross-field rules of its \<^verbatim>\<open>superRefine\<close>.
\<close>

definition opt_in :: "string option \<Rightarrow> string list \<Rightarrow> bool" where
  "opt_in x xs = (case x of None \<Rightarrow> True | Some v \<Rightarrow> v \<in> set xs)"

definition dynamoKeyAttrTypeSch :: "string list" where
  "dynamoKeyAttrTypeSch = [''S'', ''N'', ''B'']"

definition dynamoComparatorSch :: "string list" where
  "dynamoComparatorSch = [''='', ''<'', ''<='', ''>'', ''>='', ''BETWEEN'', ''BEGINS_WITH'']"

definition dynamoQueryRequestSch_accepts :: "DynamoQueryRequest \<Rightarrow> bool" where
  "dynamoQueryRequestSch_accepts data =
     (pKey data \<noteq> [] \<and> pKeyType data \<in> set dynamoKeyAttrTypeSch \<and> pKeyProp data \<noteq> []
      \<and> opt_in (sKeyType data) dynamoKeyAttrTypeSch
      \<and> opt_in (skValue2Type data) dynamoKeyAttrTypeSch
      \<and> opt_in (skComparator data) dynamoComparatorSch
      \<and> (case limit data of None \<Rightarrow> True | Some n \<Rightarrow> 0 < n)
      \<and> opt_in (sorting data) [''ASC'', ''DESC'']
      \<and> (if truthy (skComparator data)
         then truthy (sKey data) \<and> truthy (sKeyProp data) \<and> truthy (sKeyType data)
              \<and> (if skComparator data = Some ''BETWEEN''
                 then truthy (skValue2 data) \<and> truthy (skValue2Type data)
                 else \<not> (truthy (skValue2 data) \<or> truthy (skValue2Type data)))
         else \<not> (truthy (sKey data) \<or> truthy (sKeyProp data) \<or> truthy (sKeyType data)
                 \<or> truthy (skValue2 data) \<or> truthy (skValue2Type data))))"

definition sample_query_input :: CustomQueryCommandInput where
  "sample_query_input =
     \<lparr> qi_tableName = ''Files'', qi_queryRequest = sample_request,
       qi_keyConditionExpression = None, qi_filterExpression = None,
       qi_expressionAttributeNames = None, qi_expressionAttributeValues = None,
       qi_extraExpAttributeNames = None, qi_extraExpAttributeValues = None,
       qi_projectionExpression = None, qi_scanIndexForward = None,
       qi_returnConsumedCapacity = None \<rparr>"

section \<open>Filter compiler (generateDynamoFilterAttributes)\<close>

datatype DynamoFilterValueType = T_S | T_N | T_BOOL | T_NULL | T_SS | T_NS

datatype DynamoFilterCondition =
    EQUAL_TO | NOT_EQUAL_TO | LESS_THAN | LESS_THAN_OR_EQUAL_TO | GREATER_THAN
  | GREATER_THAN_OR_EQUAL_TO | EXISTS | NOT_EXISTS | BEGINS_WITH | CONTAINS | NOT_CONTAINS
  | BETWEEN

record DynamoFilter =
  f_name :: string
  f_type :: DynamoFilterValueType
  f_condition :: DynamoFilterCondition
  f_value :: "string option"
  f_value2 :: "string option"
  f_values :: "string list option"

record GeneratedDynamoFilterAttributes =
  filterExpression :: string
  expressionAttributeNames :: StringRecord
  expressionAttributeValues :: js_object

text \<open>The text of a type tag and of a condition inside a template literal.\<close>

fun type_str :: "DynamoFilterValueType \<Rightarrow> string" where
  "type_str T_S = ''S''"
| "type_str T_N = ''N''"
| "type_str T_BOOL = ''BOOL''"
| "type_str T_NULL = ''NULL''"
| "type_str T_SS = ''SS''"
| "type_str T_NS = ''NS''"

fun condition_str :: "DynamoFilterCondition \<Rightarrow> string" where
  "condition_str EQUAL_TO = ''EQUAL_TO''"
| "condition_str NOT_EQUAL_TO = ''NOT_EQUAL_TO''"
| "condition_str LESS_THAN = ''LESS_THAN''"
| "condition_str LESS_THAN_OR_EQUAL_TO = ''LESS_THAN_OR_EQUAL_TO''"
| "condition_str GREATER_THAN = ''GREATER_THAN''"
| "condition_str GREATER_THAN_OR_EQUAL_TO = ''GREATER_THAN_OR_EQUAL_TO''"
| "condition_str EXISTS = ''EXISTS''"
| "condition_str NOT_EXISTS = ''NOT_EXISTS''"
| "condition_str BEGINS_WITH = ''BEGINS_WITH''"
| "condition_str CONTAINS = ''CONTAINS''"
| "condition_str NOT_CONTAINS = ''NOT_CONTAINS''"
| "condition_str BETWEEN = ''BETWEEN''"

text \<open>Decimal text of an array index, as a template literal prints it.\<close>

definition digit_char :: "nat \<Rightarrow> char" where
  "digit_char d = ''0123456789'' ! d"

function show_nat :: "nat \<Rightarrow> string" where
  "show_nat n =
     (if n < 10 then [digit_char n] else show_nat (n div 10) @ [digit_char (n mod 10)])"
  by pat_completeness auto
termination
  by (relation "measure id") auto

declare show_nat.simps [simp del]

text \<open>The decimal text determines the number.\<close>

lemma digit_char_inj:
  assumes "a < 10" "b < 10" "digit_char a = digit_char b"
  shows "a = b"
proof -
  have A: "a \<in> {0,1,2,3,4,5,6,7,8,9}" using assms(1) by auto
  have B: "b \<in> {0,1,2,3,4,5,6,7,8,9}" using assms(2) by auto
  show ?thesis using A B assms(3) by (auto simp: digit_char_def)
qed

lemma show_nat_nonempty: "show_nat n \<noteq> []"
  by (subst show_nat.simps) simp

lemma show_nat_inj: "show_nat n = show_nat m \<Longrightarrow> n = m"
proof (induction n arbitrary: m rule: show_nat.induct)
  case (1 n)
  show ?case
  proof (cases "n < 10")
    case True
    note n10 = this
    show ?thesis
    proof (cases "m < 10")
      case True
      with n10 1(2) show ?thesis
        by (subst (asm) show_nat.simps, subst (asm) (2) show_nat.simps) (simp add: digit_char_inj)
    next
      case False
      with n10 1(2) show ?thesis
        using show_nat_nonempty[of "m div 10"]
        by (subst (asm) show_nat.simps, subst (asm) (2) show_nat.simps) simp
    qed
  next
    case False
    note n10 = this
    show ?thesis
    proof (cases "m < 10")
      case True
      with n10 1(2) show ?thesis
        using show_nat_nonempty[of "n div 10"]
        by (subst (asm) show_nat.simps, subst (asm) (2) show_nat.simps) simp
    next
      case False
      have e: "show_nat (n div 10) @ [digit_char (n mod 10)]
               = show_nat (m div 10) @ [digit_char (m mod 10)]"
        using 1(2) n10 False
        by (subst (asm) show_nat.simps, subst (asm) (2) show_nat.simps) simp
      then have "show_nat (n div 10) = show_nat (m div 10)"
        and d: "digit_char (n mod 10) = digit_char (m mod 10)"
        by simp_all
      then have "n div 10 = m div 10" using 1(1)[OF n10] by simp
      moreover have "n mod 10 = m mod 10" using d by (simp add: digit_char_inj)
      ultimately show ?thesis by (metis div_mult_mod_eq)
    qed
  qed
qed

definition makeNameToken :: "nat \<Rightarrow> string" where
  "makeNameToken i = ''#f'' @ show_nat i"

definition makeValueToken :: "nat \<Rightarrow> string \<Rightarrow> string" where
  "makeValueToken i sfx = '':f'' @ show_nat i @ sfx"

definition quoted :: "string \<Rightarrow> string" where
  "quoted raw = [CHR 0x22] @ raw @ [CHR 0x22]"

definition parseValueByType :: "js_runtime \<Rightarrow> DynamoFilterValueType \<Rightarrow> string \<Rightarrow> js_error + js_value" where
  "parseValueByType rt ty raw =
     (case ty of
        T_S \<Rightarrow> Inr (JStr raw)
      | T_N \<Rightarrow>
          (let n = Number rt raw in
           if \<not> isFinite n
           then Inl (Error (''Invalid numeric value '' @ quoted raw @ '' for type N''))
           else Inr (JNum n))
      | T_BOOL \<Rightarrow>
          (let normalized = toLowerCase (trim raw) in
           if normalized = ''true'' \<or> normalized = ''1'' then Inr (JBool True)
           else if normalized = ''false'' \<or> normalized = ''0'' then Inr (JBool False)
           else Inl (Error (''Invalid boolean value '' @ quoted raw @ '' for type BOOL'')))
      | T_NULL \<Rightarrow> Inr JNull
      | _ \<Rightarrow> Inr (JStr raw))"

text \<open>
  \<^verbatim>\<open>parseValueByType(filter.type, filter.value!)\<close> when \<^verbatim>\<open>filter.value\<close> is undefined: the
  non-null assertion is erased at run time, so \<^verbatim>\<open>undefined\<close> itself is coerced
  (\<^verbatim>\<open>Number(undefined)\<close> is NaN, \<^verbatim>\<open>undefined.trim()\<close> is a TypeError).
\<close>

definition parseValueByType_undefined :: "DynamoFilterValueType \<Rightarrow> js_error + js_value" where
  "parseValueByType_undefined ty =
     (case ty of
        T_S \<Rightarrow> Inr JUndefined
      | T_N \<Rightarrow> Inl (Error (''Invalid numeric value '' @ quoted ''undefined'' @ '' for type N''))
      | T_BOOL \<Rightarrow> Inl (TypeError ''Cannot read properties of undefined (reading 'trim')'')
      | T_NULL \<Rightarrow> Inr JNull
      | _ \<Rightarrow> Inr JUndefined)"

definition parseSetElement :: "js_runtime \<Rightarrow> DynamoFilterValueType \<Rightarrow> string \<Rightarrow> js_error + js_value" where
  "parseSetElement rt ty raw =
     (if ty = T_SS then Inr (JStr raw)
      else if ty = T_NS then
        (let n = Number rt raw in
         if \<not> isFinite n
         then Inl (Error (''Invalid numeric value '' @ quoted raw @ '' for type NS element''))
         else Inr (JNum n))
      else parseValueByType rt ty raw)"

definition requireValue :: "DynamoFilter \<Rightarrow> nat \<Rightarrow> js_error + string" where
  "requireValue f i =
     (case f_value f of
        None \<Rightarrow> Inl (Error (condition_str (f_condition f) @ '' requires value for filter[''
                            @ show_nat i @ '']''))
      | Some v \<Rightarrow> Inr v)"

text \<open>
  The three accumulators of the loop: the two maps and \<^verbatim>\<open>parts\<close>.
\<close>

record filter_state =
  st_names :: StringRecord
  st_values :: js_object
  st_parts :: "string list"

definition initial_state :: filter_state where
  "initial_state = \<lparr> st_names = [], st_values = [], st_parts = [] \<rparr>"

text \<open>
  The inner loop over \<^verbatim>\<open>vals[j]\<close> of the set branches of \<^verbatim>\<open>CONTAINS\<close> and
  \<^verbatim>\<open>NOT_CONTAINS\<close>: one value token and one \<^verbatim>\<open>contains(...)\<close> term per element.
\<close>

fun set_elements_loop ::
  "js_runtime \<Rightarrow> DynamoFilterValueType \<Rightarrow> nat \<Rightarrow> string list \<Rightarrow> nat \<Rightarrow> js_object \<Rightarrow> string list
     \<Rightarrow> js_error + (js_object \<times> string list)" where
  "set_elements_loop rt ty i [] j vals orParts = Inr (vals, orParts)"
| "set_elements_loop rt ty i (v # vs) j vals orParts =
     (let tok = makeValueToken i (''vs'' @ show_nat j) in
      case parseSetElement rt ty v of
        Inl e \<Rightarrow> Inl e
      | Inr x \<Rightarrow>
          set_elements_loop rt ty i vs (Suc j) (AList.update tok x vals)
            (orParts @ [''contains('' @ makeNameToken i @ '', '' @ tok @ '')'']))"

definition comparison_op :: "DynamoFilterCondition \<Rightarrow> string" where
  "comparison_op c =
     (if c = EQUAL_TO then ''=''
      else if c = NOT_EQUAL_TO then ''<>''
      else if c = LESS_THAN then ''<''
      else if c = LESS_THAN_OR_EQUAL_TO then ''<=''
      else if c = GREATER_THAN then ''>''
      else ''>='')"

text \<open>
  One iteration of the loop over \<^verbatim>\<open>filters[i]\<close>. The condition type has exactly the
  twelve members of the schema's enum, so the \<^verbatim>\<open>default\<close> guard of the switch has no
  case here.
\<close>

definition filter_step :: "js_runtime \<Rightarrow> nat \<Rightarrow> DynamoFilter \<Rightarrow> filter_state \<Rightarrow> js_error + filter_state" where
  "filter_step rt i flt st0 =
     (let nameToken = makeNameToken i;
          st = st0\<lparr>st_names := AList.update nameToken (f_name flt) (st_names st0)\<rparr>;
          push = (\<lambda>vals part. Inr (st\<lparr>st_values := vals, st_parts := st_parts st @ [part]\<rparr>));
          is_set = (f_type flt = T_SS \<or> f_type flt = T_NS)
      in
      case f_condition flt of
        EXISTS \<Rightarrow> push (st_values st) (''(attribute_exists('' @ nameToken @ ''))'')
      | NOT_EXISTS \<Rightarrow> push (st_values st) (''(attribute_not_exists('' @ nameToken @ ''))'')
      | BEGINS_WITH \<Rightarrow>
          if f_type flt \<noteq> T_S
          then Inl (Error (''BEGINS_WITH is only valid for type S (filter['' @ show_nat i
                           @ ''] has type '' @ type_str (f_type flt) @ '')''))
          else
            (case requireValue flt i of
               Inl e \<Rightarrow> Inl e
             | Inr raw \<Rightarrow>
                 (case parseValueByType rt (f_type flt) raw of
                    Inl e \<Rightarrow> Inl e
                  | Inr x \<Rightarrow>
                      push (AList.update (makeValueToken i ''v'') x (st_values st))
                        (''begins_with('' @ nameToken @ '', '' @ makeValueToken i ''v'' @ '')'')))
      | CONTAINS \<Rightarrow>
          if is_set then
            (case f_values flt of
               None \<Rightarrow> Inl (Error (''CONTAINS with '' @ type_str (f_type flt)
                          @ '' requires values[] (non-empty) for filter['' @ show_nat i @ '']''))
             | Some vals \<Rightarrow>
                 if vals = []
                 then Inl (Error (''CONTAINS with '' @ type_str (f_type flt)
                          @ '' requires values[] (non-empty) for filter['' @ show_nat i @ '']''))
                 else
                   (case set_elements_loop rt (f_type flt) i vals 0 (st_values st) [] of
                      Inl e \<Rightarrow> Inl e
                    | Inr (values', orParts) \<Rightarrow>
                        push values'
                          (''('' @ (if length orParts = 1 then hd orParts
                                    else ''('' @ join '' OR '' orParts @ '')'') @ '')'')))
          else
            (case (case f_value flt of
                     None \<Rightarrow> parseValueByType_undefined (f_type flt)
                   | Some raw \<Rightarrow> parseValueByType rt (f_type flt) raw) of
               Inl e \<Rightarrow> Inl e
             | Inr x \<Rightarrow>
                 push (AList.update (makeValueToken i ''v'') x (st_values st))
                   (''(contains('' @ nameToken @ '', '' @ makeValueToken i ''v'' @ ''))''))
      | NOT_CONTAINS \<Rightarrow>
          if is_set then
            (case f_values flt of
               None \<Rightarrow> Inl (Error (''NOT_CONTAINS with '' @ type_str (f_type flt)
                          @ '' requires values[] (non-empty) for filter['' @ show_nat i @ '']''))
             | Some vals \<Rightarrow>
                 if vals = []
                 then Inl (Error (''NOT_CONTAINS with '' @ type_str (f_type flt)
                          @ '' requires values[] (non-empty) for filter['' @ show_nat i @ '']''))
                 else
                   (case set_elements_loop rt (f_type flt) i vals 0 (st_values st) [] of
                      Inl e \<Rightarrow> Inl e
                    | Inr (values', orParts) \<Rightarrow>
                        push values' (''(NOT ('' @ join '' OR '' orParts @ ''))'')))
          else
            (case requireValue flt i of
               Inl e \<Rightarrow> Inl e
             | Inr raw \<Rightarrow>
                 (case parseValueByType rt (f_type flt) raw of
                    Inl e \<Rightarrow> Inl e
                  | Inr x \<Rightarrow>
                      push (AList.update (makeValueToken i ''v'') x (st_values st))
                        (''NOT contains('' @ nameToken @ '', '' @ makeValueToken i ''v'' @ '')'')))
      | BETWEEN \<Rightarrow>
          (case (f_value flt, f_value2 flt) of
             (Some raw1, Some raw2) \<Rightarrow>
               if f_type flt = T_SS \<or> f_type flt = T_NS \<or> f_type flt = T_BOOL
                  \<or> f_type flt = T_NULL
               then Inl (Error (''BETWEEN is not valid for type '' @ type_str (f_type flt)
                                @ '' (filter['' @ show_nat i @ ''])''))
               else
                 (let v1 = makeValueToken i ''v''; v2 = makeValueToken i ''v2'' in
                  case parseValueByType rt (f_type flt) raw1 of
                    Inl e \<Rightarrow> Inl e
                  | Inr x1 \<Rightarrow>
                      (case parseValueByType rt (f_type flt) raw2 of
                         Inl e \<Rightarrow> Inl e
                       | Inr x2 \<Rightarrow>
                           push (AList.update v2 x2 (AList.update v1 x1 (st_values st)))
                             (''('' @ nameToken @ '' BETWEEN '' @ v1 @ '' AND '' @ v2 @ '')'')))
           | _ \<Rightarrow> Inl (Error (''BETWEEN requires value and value2 for filter['' @ show_nat i
                              @ '']'')))
      | _ \<Rightarrow>
          if is_set
          then Inl (Error (''Comparator '' @ quoted (condition_str (f_condition flt))
                           @ '' is not supported for '' @ type_str (f_type flt)
                           @ ''; use CONTAINS/NOT_CONTAINS''))
          else
            (let v = makeValueToken i ''v'' in
             case requireValue flt i of
               Inl e \<Rightarrow> Inl e
             | Inr raw \<Rightarrow>
                 (case parseValueByType rt (f_type flt) raw of
                    Inl e \<Rightarrow> Inl e
                  | Inr x \<Rightarrow>
                      push (AList.update v x (st_values st))
                        (''('' @ nameToken @ '' '' @ comparison_op (f_condition flt) @ '' ''
                         @ v @ '')''))))"

text \<open>The loop \<^verbatim>\<open>for (let i = 0; i < filters.length; i++)\<close>, from index \<open>i\<close> on.\<close>

fun filters_loop :: "js_runtime \<Rightarrow> nat \<Rightarrow> DynamoFilter list \<Rightarrow> filter_state \<Rightarrow> js_error + filter_state" where
  "filters_loop rt i [] st = Inr st"
| "filters_loop rt i (f # fs) st =
     (case filter_step rt i f st of
        Inl e \<Rightarrow> Inl e
      | Inr st' \<Rightarrow> filters_loop rt (Suc i) fs st')"

text \<open>
  \<open>Inr None\<close> is the result \<^verbatim>\<open>null\<close>. The \<^verbatim>\<open>catch\<close> block logs and rethrows, so it does
  not change the result.
\<close>

definition generateDynamoFilterAttributes ::
  "js_runtime \<Rightarrow> DynamoFilter list \<Rightarrow> js_error + GeneratedDynamoFilterAttributes option" where
  "generateDynamoFilterAttributes rt filters =
     (if filters = [] then Inr None
      else
        (case filters_loop rt 0 filters initial_state of
           Inl e \<Rightarrow> Inl e
         | Inr st \<Rightarrow>
             Inr (Some \<lparr> filterExpression = join '' AND '' (st_parts st),
                         expressionAttributeNames = st_names st,
                         expressionAttributeValues = st_values st \<rparr>)))"

section \<open>The per-filter fragment as the specification words it\<close>

text \<open>
  The specification (section 4.2) gives, for each condition, the text that a filter at
  index \<open>i\<close> contributes. \<open>spec_fragment\<close> follows those words, not the code; the
  theorems below compare it with what the loop pushes to \<^verbatim>\<open>parts\<close>.
\<close>

definition spec_operator :: "DynamoFilterCondition \<Rightarrow> string" where
  "spec_operator c =
     (case map_of [(EQUAL_TO, ''=''), (NOT_EQUAL_TO, ''<>''), (LESS_THAN, ''<''),
                   (LESS_THAN_OR_EQUAL_TO, ''<=''), (GREATER_THAN, ''>''),
                   (GREATER_THAN_OR_EQUAL_TO, ''>='')] c of
        Some op \<Rightarrow> op | None \<Rightarrow> [])"

definition spec_contains_terms :: "nat \<Rightarrow> nat \<Rightarrow> string list" where
  "spec_contains_terms i n =
     map (\<lambda>j. ''contains(#f'' @ show_nat i @ '', :f'' @ show_nat i @ ''vs'' @ show_nat j @ '')'')
       [0..<n]"

definition spec_fragment :: "nat \<Rightarrow> DynamoFilter \<Rightarrow> string" where
  "spec_fragment i f =
     (let name = ''#f'' @ show_nat i;
          v = '':f'' @ show_nat i @ ''v'';
          is_set = (f_type f = T_SS \<or> f_type f = T_NS);
          terms = spec_contains_terms i (length (case f_values f of None \<Rightarrow> [] | Some vs \<Rightarrow> vs))
      in
      case f_condition f of
        EXISTS \<Rightarrow> ''(attribute_exists('' @ name @ ''))''
      | NOT_EXISTS \<Rightarrow> ''(attribute_not_exists('' @ name @ ''))''
      | BEGINS_WITH \<Rightarrow> ''begins_with('' @ name @ '', '' @ v @ '')''
      | CONTAINS \<Rightarrow>
          if is_set
          then (if length terms = 1 then ''('' @ hd terms @ '')''
                else ''(('' @ join '' OR '' terms @ ''))'')
          else ''(contains('' @ name @ '', '' @ v @ ''))''
      | NOT_CONTAINS \<Rightarrow>
          if is_set then ''(NOT ('' @ join '' OR '' terms @ ''))''
          else ''NOT contains('' @ name @ '', '' @ v @ '')''
      | BETWEEN \<Rightarrow> ''('' @ name @ '' BETWEEN '' @ v @ '' AND '' @ v @ ''2)''
      | c \<Rightarrow> ''('' @ name @ '' '' @ spec_operator c @ '' '' @ v @ '')'')"

text \<open>
  A runtime for the closed examples. Its \<open>Number\<close> agrees with the ECMAScript function
  on the strings the examples pass to it: the numerals \<^verbatim>\<open>1\<close>, \<^verbatim>\<open>5\<close>, \<^verbatim>\<open>18\<close> and the
  empty string (zero), and NaN for \<^verbatim>\<open>abc\<close> and \<^verbatim>\<open>x\<close>. The examples never reach
  \<^verbatim>\<open>JSON.parse\<close> or the base64 decoder.
\<close>

definition sample_Number :: "string \<Rightarrow> jsnum" where
  "sample_Number s =
     (if s = ''1'' then Finite 1
      else if s = ''5'' then Finite 5
      else if s = ''18'' then Finite 18
      else if s = [] then Finite 0
      else NaN)"

definition sample_runtime :: js_runtime where
  "sample_runtime =
     \<lparr> Number = sample_Number, JSON_parse = (\<lambda>s. None), Buffer_from_base64 = (\<lambda>s. s) \<rparr>"

definition sample_filters :: "DynamoFilter list" where
  "sample_filters =
     [\<lparr> f_name = ''status'', f_type = T_S, f_condition = EQUAL_TO,
        f_value = Some ''active'', f_value2 = None, f_values = None \<rparr>,
      \<lparr> f_name = ''tags'', f_type = T_SS, f_condition = CONTAINS,
        f_value = None, f_value2 = None, f_values = Some [''a'', ''b''] \<rparr>,
      \<lparr> f_name = ''age'', f_type = T_N, f_condition = BETWEEN,
        f_value = Some ''1'', f_value2 = Some ''5'', f_values = None \<rparr>]"

text \<open>The six comparison conditions that share one branch of the switch.\<close>

definition comparison_conditions :: "DynamoFilterCondition list" where
  "comparison_conditions =
     [EQUAL_TO, NOT_EQUAL_TO, LESS_THAN, LESS_THAN_OR_EQUAL_TO, GREATER_THAN,
      GREATER_THAN_OR_EQUAL_TO]"

definition sample_between :: DynamoFilter where
  "sample_between =
     \<lparr> f_name = ''age'', f_type = T_N, f_condition = BETWEEN,
       f_value = Some ''1'', f_value2 = Some ''5'', f_values = None \<rparr>"

definition sample_greater :: DynamoFilter where
  "sample_greater =
     \<lparr> f_name = ''age'', f_type = T_N, f_condition = GREATER_THAN,
       f_value = Some ''18'', f_value2 = None, f_values = None \<rparr>"

definition sample_contains :: DynamoFilter where
  "sample_contains =
     \<lparr> f_name = ''tags'', f_type = T_SS, f_condition = CONTAINS,
       f_value = None, f_value2 = None, f_values = Some [''a''] \<rparr>"

section \<open>Update-expression aliasing (replaceReservedKeywordsFromUpdateExp)\<close>

text \<open>
  The source replaces every match of the regular expression
  \<^verbatim>\<open>\b(?:k1|k2|...)\b(?=\s*=)\<close>, flags \<^verbatim>\<open>gi\<close>, by \<^verbatim>\<open>#\<close> followed by the match; the
  alternatives are the members of the keyword table. The table's members are non-empty
  words of word characters, so a match starts where a maximal run of word characters
  starts and is that whole run: the leading \<^verbatim>\<open>\b\<close> excludes a start inside a run, the
  trailing \<^verbatim>\<open>\b\<close> excludes a proper prefix of it. The scan below visits the maximal
  runs from left to right, as the global replace does. Without the \<^verbatim>\<open>u\<close> flag,
  \<^verbatim>\<open>\w\<close> is the ASCII class \<^verbatim>\<open>[A-Za-z0-9_]\<close> and the \<^verbatim>\<open>i\<close> flag compares characters
  by \<open>canonicalize\<close>, which upper-cases a-z and maps no character outside ASCII to an
  ASCII one (so the long s does not match \<^verbatim>\<open>s\<close>); \<^verbatim>\<open>\s\<close> is the white space above.
\<close>

definition is_word_char :: "char \<Rightarrow> bool" where
  "is_word_char c =
     (c \<in> set ''abcdefghijklmnopqrstuvwxyzABCDEFGHIJKLMNOPQRSTUVWXYZ0123456789_'')"

definition canonicalize :: "string \<Rightarrow> string" where
  "canonicalize s = map toUpperCase_char s"

definition reserved_match :: "string list \<Rightarrow> string \<Rightarrow> bool" where
  "reserved_match RESERVED w = (canonicalize w \<in> set (map canonicalize RESERVED))"

definition followed_by_equals :: "string \<Rightarrow> bool" where
  "followed_by_equals rest = startsWith (skip_white_space rest) CHR ''=''"

function replaceReservedKeywordsFromUpdateExp :: "string list \<Rightarrow> string \<Rightarrow> string" where
  "replaceReservedKeywordsFromUpdateExp RESERVED [] = []"
| "replaceReservedKeywordsFromUpdateExp RESERVED (c # cs) =
     (if is_word_char c
      then (if reserved_match RESERVED (c # takeWhile is_word_char cs)
               \<and> followed_by_equals (dropWhile is_word_char cs)
            then ''#'' else [])
           @ c # takeWhile is_word_char cs
           @ replaceReservedKeywordsFromUpdateExp RESERVED (dropWhile is_word_char cs)
      else c # replaceReservedKeywordsFromUpdateExp RESERVED cs)"
  by pat_completeness auto
termination
  by (relation "measure (\<lambda>(R, s). length s)")
     (auto simp: length_dropWhile_le less_Suc_eq_le)

text \<open>
  Modelled from the spec: the keyword table \<^verbatim>\<open>reserved-keywords-data\<close> is not among the
  sources. These are two of its members, the ones that the doc comment of
  \<^verbatim>\<open>replaceReservedKeywordsFromUpdateExp\<close> and the repository's tests of the projection
  form show to be reserved. It is used for closed examples only; the general theorems
  hold for every table.
\<close>

definition sample_reserved :: "string list" where
  "sample_reserved = [''name'', ''size'']"

section \<open>Update command builder (buildUpdateCommandInput)\<close>

text \<open>
  The value map may hold \<^verbatim>\<open>undefined\<close> (its type is \<^verbatim>\<open>Record<string, unknown>\<close>); the
  collision test of the source is \<^verbatim>\<open>values[key] !== undefined\<close>, so a key that is absent
  and a key bound to \<^verbatim>\<open>undefined\<close> both count as free. The \<^verbatim>\<open>item\<close> is the list of its
  fields in \<^verbatim>\<open>for...in\<close> order.
\<close>

definition js_defined :: "js_value \<Rightarrow> bool" where
  "js_defined v = (v \<noteq> JUndefined)"

definition obj_get :: "js_object \<Rightarrow> string \<Rightarrow> js_value" where
  "obj_get obj k = (case map_of obj k of None \<Rightarrow> JUndefined | Some v \<Rightarrow> v)"

definition update_candidate :: "string \<Rightarrow> nat \<Rightarrow> string" where
  "update_candidate field counter = '':'' @ field @ ''_update_'' @ show_nat counter"

text \<open>
  The probing loop \<^verbatim>\<open>do { candidate = `:${field}_update_${counter++}` } while (...)\<close>
  ends: distinct counters give distinct candidates, and only finitely many keys are
  bound.
\<close>

lemma update_candidate_inj: "update_candidate field m = update_candidate field n \<Longrightarrow> m = n"
  by (simp add: update_candidate_def show_nat_inj)

lemma defined_key: "js_defined (obj_get vals k) \<Longrightarrow> k \<in> fst ` set vals"
  by (auto simp: js_defined_def obj_get_def split: option.splits dest: map_of_SomeD intro: rev_image_eqI)

definition pending_candidates :: "js_object \<Rightarrow> string \<Rightarrow> nat \<Rightarrow> string set" where
  "pending_candidates vals field counter =
     {k \<in> fst ` set vals. \<exists>m\<ge>counter. k = update_candidate field m}"

lemma pending_candidates_less:
  assumes "js_defined (obj_get vals (update_candidate field counter))"
  shows "card (pending_candidates vals field (Suc counter))
         < card (pending_candidates vals field counter)"
proof (rule psubset_card_mono)
  show "finite (pending_candidates vals field counter)"
    by (simp add: pending_candidates_def)
  have "update_candidate field counter \<in> pending_candidates vals field counter"
    using defined_key [OF assms] by (auto simp: pending_candidates_def)
  moreover have "update_candidate field counter \<notin> pending_candidates vals field (Suc counter)"
    using update_candidate_inj [of field counter] by (auto simp: pending_candidates_def)
  moreover have "pending_candidates vals field (Suc counter)
                 \<subseteq> pending_candidates vals field counter"
    by (auto simp: pending_candidates_def intro: Suc_leD)
  ultimately show "pending_candidates vals field (Suc counter)
                   \<subset> pending_candidates vals field counter"
    by blast
qed

function probe_candidate :: "js_object \<Rightarrow> string \<Rightarrow> nat \<Rightarrow> string" where
  "probe_candidate vals field counter =
     (let candidate = update_candidate field counter in
      if js_defined (obj_get vals candidate) then probe_candidate vals field (Suc counter)
      else candidate)"
  by pat_completeness auto
termination
  by (relation "measure (\<lambda>(vals, field, counter). card (pending_candidates vals field counter))")
     (auto simp: pending_candidates_less)

declare probe_candidate.simps [simp del]

definition choose_valueKey :: "js_object \<Rightarrow> string \<Rightarrow> string" where
  "choose_valueKey vals field =
     (let valueKey = '':'' @ field in
      if js_defined (obj_get vals valueKey) then probe_candidate vals field 1 else valueKey)"

fun update_fields_loop ::
  "(string \<times> js_value) list \<Rightarrow> js_object \<Rightarrow> string list \<Rightarrow> js_object \<times> string list" where
  "update_fields_loop [] vals updateParts = (vals, updateParts)"
| "update_fields_loop ((field, v) # rest) vals updateParts =
     (let valueKey = choose_valueKey vals field in
      update_fields_loop rest (AList.update valueKey v vals)
        (updateParts @ [field @ '' = '' @ valueKey]))"

text \<open>
  \<^verbatim>\<open>expression.replace(/^\s*SET\s+/i, '')\<close>: leading white space, the word SET in any
  letter case and at least one white-space character are removed; without such a
  prefix the expression is returned as it is.
\<close>

definition strip_SET :: "string \<Rightarrow> string" where
  "strip_SET expression =
     (let s = skip_white_space expression in
      if canonicalize (take 3 s) = ''SET'' \<and> starts_with_white_space (drop 3 s)
      then skip_white_space (drop 3 s) else expression)"

definition extractExpAttributeNamesFromUpdateExp :: "string \<Rightarrow> StringRecord" where
  "extractExpAttributeNamesFromUpdateExp expression =
     (let body = trim (strip_SET expression) in
      if body = [] then []
      else
        foldl (\<lambda>result assignment.
                 let leftSide = trim (case split_on CHR ''='' assignment of
                                        [] \<Rightarrow> [] | l # _ \<Rightarrow> l) in
                 if leftSide = [] \<or> \<not> startsWith leftSide CHR ''#'' then result
                 else AList.update leftSide (tl leftSide) result)
          [] (split_on CHR '','' body))"

record CustomUpdateCommandInput =
  ui_tableName :: string
  ui_key :: js_object
  ui_item :: "js_object option"
  ui_updateExpression :: "string option"
  ui_conditionExpression :: "string option"
  ui_expressionAttributeNames :: "StringRecord option"
  ui_expressionAttributeValues :: "js_object option"
  ui_extraExpAttributeNames :: "StringRecord option"
  ui_extraExpAttributeValues :: "js_object option"
  ui_returnValues :: "string option"
  ui_returnConsumedCapacity :: "string option"
  ui_returnItemCollectionMetrics :: "string option"

record UpdateCommandInput =
  uc_TableName :: string
  uc_Key :: js_object
  uc_ConditionExpression :: "string option"
  uc_ReturnValues :: string
  uc_ReturnConsumedCapacity :: "string option"
  uc_ReturnItemCollectionMetrics :: "string option"
  uc_ExpressionAttributeNames :: "StringRecord option"
  uc_ExpressionAttributeValues :: "js_object option"
  uc_UpdateExpression :: string

definition non_empty :: "('k \<times> 'v) list \<Rightarrow> ('k \<times> 'v) list option" where
  "non_empty obj = (if obj = [] then None else Some obj)"

text \<open>The caller's value map: \<^verbatim>\<open>expressionAttributeValues\<close>, then the extras on top.\<close>

definition caller_values :: "CustomUpdateCommandInput \<Rightarrow> js_object" where
  "caller_values input =
     obj_assign (obj_assign [] (or_empty (ui_expressionAttributeValues input)))
       (or_empty (ui_extraExpAttributeValues input))"

definition caller_names :: "CustomUpdateCommandInput \<Rightarrow> StringRecord" where
  "caller_names input =
     obj_assign (obj_assign [] (or_empty (ui_expressionAttributeNames input)))
       (or_empty (ui_extraExpAttributeNames input))"

definition buildUpdateCommandInput ::
  "string list \<Rightarrow> CustomUpdateCommandInput \<Rightarrow> js_error + UpdateCommandInput" where
  "buildUpdateCommandInput RESERVED input =
     (let commandInput =
            \<lparr> uc_TableName = ui_tableName input,
              uc_Key = ui_key input,
              uc_ConditionExpression = ui_conditionExpression input,
              uc_ReturnValues = (case ui_returnValues input of None \<Rightarrow> ''NONE'' | Some r \<Rightarrow> r),
              uc_ReturnConsumedCapacity = ui_returnConsumedCapacity input,
              uc_ReturnItemCollectionMetrics = ui_returnItemCollectionMetrics input,
              uc_ExpressionAttributeNames = None,
              uc_ExpressionAttributeValues = None,
              uc_UpdateExpression = [] \<rparr>;
          names = caller_names input;
          vals = caller_values input
      in
      if truthy (ui_updateExpression input) then
        Inr (commandInput\<lparr> uc_ExpressionAttributeNames := non_empty names,
                            uc_ExpressionAttributeValues := non_empty vals,
                            uc_UpdateExpression :=
                              (case ui_updateExpression input of None \<Rightarrow> [] | Some e \<Rightarrow> e) \<rparr>)
      else
        (case ui_item input of
           None \<Rightarrow> Inl (Error ''Either updateExpression or item with at least one field must be provided.'')
         | Some item \<Rightarrow>
             if item = []
             then Inl (Error ''Either updateExpression or item with at least one field must be provided.'')
             else
               (let (vals', updateParts) = update_fields_loop item vals [];
                    rawExpression = ''SET '' @ join '', '' updateParts;
                    updateExpression = replaceReservedKeywordsFromUpdateExp RESERVED rawExpression;
                    autoNames = extractExpAttributeNamesFromUpdateExp updateExpression;
                    names' = foldl (\<lambda>ns kv. if fst kv \<in> fst ` set ns then ns
                                             else AList.update (fst kv) (snd kv) ns)
                               names autoNames
                in
                Inr (commandInput\<lparr> uc_ExpressionAttributeNames := non_empty names',
                                    uc_ExpressionAttributeValues := non_empty vals',
                                    uc_UpdateExpression := updateExpression \<rparr>))))"

definition sample_update_input :: CustomUpdateCommandInput where
  "sample_update_input =
     \<lparr> ui_tableName = ''Users'', ui_key = [(''userId'', JStr ''123'')],
       ui_item = Some [(''name'', JStr ''John'')], ui_updateExpression = None,
       ui_conditionExpression = None, ui_expressionAttributeNames = None,
       ui_expressionAttributeValues = Some [('':name'', JStr ''existing'')],
       ui_extraExpAttributeNames = None, ui_extraExpAttributeValues = None,
       ui_returnValues = None, ui_returnConsumedCapacity = None,
       ui_returnItemCollectionMetrics = None \<rparr>"

section \<open>Scan command builder (buildScanCommandInput)\<close>

text \<open>
  \<^verbatim>\<open>customScanCommandInputSch\<close> and the filter schema it embeds have no preprocessors,
  so a successful \<^verbatim>\<open>parse\<close> returns the fields as they were given; a failed one throws.
  The numeric fields are integers here, which is what the schema's \<^verbatim>\<open>int()\<close> admits.
\<close>

record CustomScanCommandInput =
  si_tableName :: string
  si_indexName :: "string option"
  si_filtersAttributes :: "DynamoFilter list option"
  si_filterExpression :: "string option"
  si_projectionExpression :: "string option"
  si_expressionAttributeNames :: "StringRecord option"
  si_expressionAttributeValues :: "js_object option"
  si_extraExpAttributeNames :: "StringRecord option"
  si_extraExpAttributeValues :: "js_object option"
  si_limit :: "int option"
  si_exclusiveStartKey :: "js_object option"
  si_consistentRead :: "bool option"
  si_segment :: "int option"
  si_totalSegments :: "int option"
  si_returnConsumedCapacity :: "string option"
  si_returnItemCollectionMetrics :: "string option"

record ScanCommandInput =
  sc_TableName :: string
  sc_IndexName :: "string option"
  sc_ProjectionExpression :: "string option"
  sc_Limit :: "int option"
  sc_ExclusiveStartKey :: "js_object option"
  sc_ConsistentRead :: "bool option"
  sc_Segment :: "int option"
  sc_TotalSegments :: "int option"
  sc_ReturnConsumedCapacity :: "string option"
  sc_ReturnItemCollectionMetrics :: "string option"
  sc_FilterExpression :: "string option"
  sc_ExpressionAttributeNames :: "StringRecord option"
  sc_ExpressionAttributeValues :: "js_object option"

definition dynamoFilterSch_accepts :: "DynamoFilter \<Rightarrow> bool" where
  "dynamoFilterSch_accepts f =
     (let hasValue = (f_value f \<noteq> None);
          hasValue2 = (f_value2 f \<noteq> None);
          hasValues = (case f_values f of None \<Rightarrow> False | Some vs \<Rightarrow> vs \<noteq> [])
      in
      f_name f \<noteq> []
      \<and> (case f_values f of None \<Rightarrow> True | Some vs \<Rightarrow> vs \<noteq> [] \<and> list_all (\<lambda>v. v \<noteq> []) vs)
      \<and> (if f_condition f = EXISTS \<or> f_condition f = NOT_EXISTS
         then \<not> (hasValue \<or> hasValue2 \<or> hasValues)
         else if f_condition f = BETWEEN
         then hasValue \<and> hasValue2 \<and> \<not> hasValues
         else if f_type f = T_SS \<or> f_type f = T_NS
         then hasValues \<and> \<not> (hasValue \<or> hasValue2)
         else hasValue \<and> \<not> hasValue2 \<and> \<not> hasValues))"

definition dynamoFiltersInputSch_accepts :: "DynamoFilter list \<Rightarrow> bool" where
  "dynamoFiltersInputSch_accepts fs = (length fs \<le> 50 \<and> list_all dynamoFilterSch_accepts fs)"

definition customScanCommandInputSch_accepts :: "CustomScanCommandInput \<Rightarrow> bool" where
  "customScanCommandInputSch_accepts v =
     (let hasSeg = (si_segment v \<noteq> None); hasTot = (si_totalSegments v \<noteq> None) in
      (case si_filtersAttributes v of None \<Rightarrow> True | Some fs \<Rightarrow> dynamoFiltersInputSch_accepts fs)
      \<and> (case si_limit v of None \<Rightarrow> True | Some n \<Rightarrow> 0 < n)
      \<and> (case si_segment v of None \<Rightarrow> True | Some n \<Rightarrow> 0 \<le> n)
      \<and> (case si_totalSegments v of None \<Rightarrow> True | Some n \<Rightarrow> 0 < n)
      \<and> opt_in (si_returnConsumedCapacity v) [''INDEXES'', ''TOTAL'', ''NONE'']
      \<and> opt_in (si_returnItemCollectionMetrics v) [''SIZE'', ''NONE'']
      \<and> hasSeg = hasTot
      \<and> (case (si_segment v, si_totalSegments v) of
            (Some seg, Some tot) \<Rightarrow> \<not> tot \<le> 0 \<and> \<not> (seg < 0 \<or> tot \<le> seg)
          | _ \<Rightarrow> True)
      \<and> \<not> (truthy (si_indexName v) \<and> si_consistentRead v = Some True))"

definition customScanCommandInputSch_parse ::
  "CustomScanCommandInput \<Rightarrow> js_error + CustomScanCommandInput" where
  "customScanCommandInputSch_parse custom =
     (if customScanCommandInputSch_accepts custom then Inr custom else Inl ZodError)"

definition mergeAttr :: "('k \<times> 'v) list option \<Rightarrow> ('k \<times> 'v) list option \<Rightarrow> ('k \<times> 'v) list option" where
  "mergeAttr base extra =
     (if base = None \<and> extra = None then None
      else Some (obj_assign (obj_assign [] (or_empty base)) (or_empty extra)))"

definition isNonEmptyObject :: "('k \<times> 'v) list option \<Rightarrow> bool" where
  "isNonEmptyObject v = (case v of None \<Rightarrow> False | Some obj \<Rightarrow> obj \<noteq> [])"

definition has_filters :: "DynamoFilter list option \<Rightarrow> bool" where
  "has_filters filtersAttributes =
     (case filtersAttributes of None \<Rightarrow> False | Some fs \<Rightarrow> 0 < length fs)"

text \<open>
  The builder, with the callee \<^verbatim>\<open>generateDynamoFilterAttributes\<close> as the parameter
  \<open>generate\<close>, so that a theorem can say whether the result depends on it. The
  branches are in the order of the source.
\<close>

definition buildScanCommandInput_with ::
  "(DynamoFilter list \<Rightarrow> js_error + GeneratedDynamoFilterAttributes option)
     \<Rightarrow> CustomScanCommandInput \<Rightarrow> js_error + ScanCommandInput" where
  "buildScanCommandInput_with generate custom =
     (case customScanCommandInputSch_parse custom of
        Inl e \<Rightarrow> Inl e
      | Inr p \<Rightarrow>
          if has_filters (si_filtersAttributes p)
          then Inl (QueryParseError
                      ''Provide either filtersAttributes or filterExpression (not both).'' 400)
          else
            (let input =
                   \<lparr> sc_TableName = si_tableName p,
                     sc_IndexName = (if truthy (si_indexName p) then si_indexName p else None),
                     sc_ProjectionExpression =
                       (if truthy (si_projectionExpression p) then si_projectionExpression p
                        else None),
                     sc_Limit = (case si_limit p of
                                   None \<Rightarrow> None
                                 | Some n \<Rightarrow> if n = 0 then None else Some n),
                     sc_ExclusiveStartKey = si_exclusiveStartKey p,
                     sc_ConsistentRead = si_consistentRead p,
                     sc_Segment = (if si_segment p \<noteq> None \<and> si_totalSegments p \<noteq> None
                                   then si_segment p else None),
                     sc_TotalSegments = (if si_segment p \<noteq> None \<and> si_totalSegments p \<noteq> None
                                         then si_totalSegments p else None),
                     sc_ReturnConsumedCapacity =
                       (if truthy (si_returnConsumedCapacity p) then si_returnConsumedCapacity p
                        else None),
                     sc_ReturnItemCollectionMetrics =
                       (if truthy (si_returnItemCollectionMetrics p)
                        then si_returnItemCollectionMetrics p else None),
                     sc_FilterExpression = None,
                     sc_ExpressionAttributeNames = None,
                     sc_ExpressionAttributeValues = None \<rparr>
             in
             if has_filters (si_filtersAttributes p) then
               (case generate ((case si_filtersAttributes p of None \<Rightarrow> [] | Some fs \<Rightarrow> fs)) of
                  Inl e \<Rightarrow> Inl e
                | Inr None \<Rightarrow>
                    Inl (QueryParseError
                           ''Failed to generate filter expression from filtersAttributes.'' 400)
                | Inr (Some generated) \<Rightarrow>
                    if filterExpression generated = []
                    then Inl (QueryParseError ''Generated filterExpression is empty.'' 400)
                    else Inr (input\<lparr>
                           sc_FilterExpression := Some (filterExpression generated),
                           sc_ExpressionAttributeNames :=
                             mergeAttr (Some (expressionAttributeNames generated))
                               (si_extraExpAttributeNames p),
                           sc_ExpressionAttributeValues :=
                             mergeAttr (Some (expressionAttributeValues generated))
                               (si_extraExpAttributeValues p) \<rparr>))
             else if truthy (si_filterExpression p) then
               (let manualFilterExpression =
                      (case si_filterExpression p of None \<Rightarrow> [] | Some e \<Rightarrow> e);
                    needsNames = (CHR ''#'' \<in> set manualFilterExpression);
                    needsValues = (CHR '':'' \<in> set manualFilterExpression);
                    mergedNames = mergeAttr (si_expressionAttributeNames p)
                                    (si_extraExpAttributeNames p);
                    mergedValues = mergeAttr (si_expressionAttributeValues p)
                                     (si_extraExpAttributeValues p)
                in
                if needsNames \<and> \<not> isNonEmptyObject mergedNames
                then Inl (QueryParseError
                  ''filterExpression contains name placeholders (#) but ExpressionAttributeNames is missing.''
                  400)
                else if needsValues \<and> \<not> isNonEmptyObject mergedValues
                then Inl (QueryParseError
                  ''filterExpression contains value placeholders (:) but ExpressionAttributeValues is missing.''
                  400)
                else Inr (input\<lparr> sc_FilterExpression := Some manualFilterExpression,
                                  sc_ExpressionAttributeNames := mergedNames,
                                  sc_ExpressionAttributeValues := mergedValues \<rparr>))
             else
               (let names = mergeAttr (si_expressionAttributeNames p)
                              (si_extraExpAttributeNames p);
                    vals = mergeAttr (si_expressionAttributeValues p)
                             (si_extraExpAttributeValues p)
                in
                Inr (input\<lparr> sc_ExpressionAttributeNames :=
                                  (if names = Some [] then None else names),
                                sc_ExpressionAttributeValues :=
                                  (if vals = Some [] then None else vals) \<rparr>))))"

definition buildScanCommandInput ::
  "js_runtime \<Rightarrow> CustomScanCommandInput \<Rightarrow> js_error + ScanCommandInput" where
  "buildScanCommandInput rt custom =
     buildScanCommandInput_with (generateDynamoFilterAttributes rt) custom"


definition sample_scan_input :: CustomScanCommandInput where
  "sample_scan_input =
     \<lparr> si_tableName = ''Users'', si_indexName = None,
       si_filtersAttributes = Some [\<lparr> f_name = ''status'', f_type = T_S, f_condition = EQUAL_TO,
                                     f_value = Some ''active'', f_value2 = None, f_values = None \<rparr>],
       si_filterExpression = None, si_projectionExpression = None,
       si_expressionAttributeNames = None, si_expressionAttributeValues = None,
       si_extraExpAttributeNames = None, si_extraExpAttributeValues = None,
       si_limit = None, si_exclusiveStartKey = None, si_consistentRead = None,
       si_segment = None, si_totalSegments = None, si_returnConsumedCapacity = None,
       si_returnItemCollectionMetrics = None \<rparr>"

section \<open>Properties of the key-condition compiler\<close>

lemma getOperatorSymbolByKey_unrecognized:
  assumes "toUpperCase c \<notin> set recognized_spellings"
  shows "getOperatorSymbolByKey c = Inl (Error (''Invalid operation key: '' @ c))"
  using assms by (simp add: getOperatorSymbolByKey_def recognized_spellings_def Let_def)

lemma getOperatorSymbolByKey_equal:
  assumes "toUpperCase c = ''EQUAL'' \<or> toUpperCase c = ''=''"
  shows "getOperatorSymbolByKey c = Inr ''=''"
  using assms by (auto simp add: getOperatorSymbolByKey_def Let_def)

text \<open>
  \<^verbatim>\<open>toUpperCase\<close> maps the long s (U+017F) to \<^verbatim>\<open>S\<close>, so a spelling with a long s in place
  of an \<^verbatim>\<open>s\<close> is a recognised spelling.
\<close>

lemma long_s_spelling_recognized:
  "toUpperCase (''LE'' @ [CHR 0xC5, CHR 0xBF] @ ''S_THAN'') = ''LESS_THAN''
   \<and> createKeyConditionExpression
        (sample_request\<lparr>skComparator := Some (''LE'' @ [CHR 0xC5, CHR 0xBF] @ ''S_THAN'')\<rparr>)
      = Inr ''#pk = :pk AND #sk < :sk''"
  by (simp add: createKeyConditionExpression_def getOperatorSymbolByKey_def sample_request_def
      truthy_def toUpperCase_def upper_special_def toUpperCase_char_def)

text \<open>
  Claim C1, as stated: with a sort key present and a comparator spelling that is not
  recognised, the compiler appends \<^verbatim>\<open> AND #sk = :sk\<close> and raises nothing.
  The code does not do that: at comparator \<^verbatim>\<open>FOO\<close> it throws
  \<^verbatim>\<open>Invalid operation key: FOO\<close>.
\<close>

theorem C1_counterexample:
  "toUpperCase ''FOO'' \<notin> set recognized_spellings \<and>
   truthy (sKey (sample_request\<lparr>skComparator := Some ''FOO''\<rparr>)) \<and>
   createKeyConditionExpression (sample_request\<lparr>skComparator := Some ''FOO''\<rparr>)
     = Inl (Error ''Invalid operation key: FOO'') \<and>
   createKeyConditionExpression (sample_request\<lparr>skComparator := Some ''FOO''\<rparr>)
     \<noteq> Inr ''#pk = :pk AND #sk = :sk''"
  by (simp add: createKeyConditionExpression_def getOperatorSymbolByKey_def sample_request_def
      truthy_def recognized_spellings_def toUpperCase_def upper_special_def toUpperCase_char_def)

text \<open>
  Claim C1, amended: with a sort key present, an unrecognised comparator spelling makes
  the compiler fail with \<^verbatim>\<open>Invalid operation key: <spelling>\<close>; the equality clause
  \<^verbatim>\<open> AND #sk = :sk\<close> is appended when the comparator is absent or is spelled
  \<^verbatim>\<open>=\<close> or \<^verbatim>\<open>EQUAL\<close> in any letter case.
\<close>

theorem C1_unrecognized_comparator_fails:
  assumes "truthy (sKey q)"
  shows "(\<forall>c. skComparator q = Some c \<and> toUpperCase c \<notin> set recognized_spellings
            \<longrightarrow> createKeyConditionExpression q = Inl (Error (''Invalid operation key: '' @ c)))
       \<and> (skComparator q = None
            \<or> (\<exists>c. skComparator q = Some c \<and> (toUpperCase c = ''EQUAL'' \<or> toUpperCase c = ''=''))
            \<longrightarrow> createKeyConditionExpression q = Inr ''#pk = :pk AND #sk = :sk'')"
proof (intro conjI allI impI)
  fix c
  assume "skComparator q = Some c \<and> toUpperCase c \<notin> set recognized_spellings"
  then show "createKeyConditionExpression q = Inl (Error (''Invalid operation key: '' @ c))"
    using assms getOperatorSymbolByKey_unrecognized [of c]
    by (simp add: createKeyConditionExpression_def)
next
  assume h: "skComparator q = None
     \<or> (\<exists>c. skComparator q = Some c \<and> (toUpperCase c = ''EQUAL'' \<or> toUpperCase c = ''=''))"
  have eq: "getOperatorSymbolByKey ''='' = Inr ''=''"
    by (simp add: getOperatorSymbolByKey_def toUpperCase_def upper_special_def toUpperCase_char_def)
  from h show "createKeyConditionExpression q = Inr ''#pk = :pk AND #sk = :sk''"
  proof
    assume "skComparator q = None"
    then show ?thesis using assms eq by (simp add: createKeyConditionExpression_def)
  next
    assume "\<exists>c. skComparator q = Some c \<and> (toUpperCase c = ''EQUAL'' \<or> toUpperCase c = ''='')"
    then obtain c where c: "skComparator q = Some c"
      and u: "toUpperCase c = ''EQUAL'' \<or> toUpperCase c = ''=''" by blast
    show ?thesis using assms c getOperatorSymbolByKey_equal [OF u]
      by (simp add: createKeyConditionExpression_def)
  qed
qed

theorem C1_unrecognized_comparator_fails_witness:
  "truthy (sKey (sample_request\<lparr>skComparator := Some ''foo''\<rparr>)) \<and>
   toUpperCase ''foo'' \<notin> set recognized_spellings \<and>
   createKeyConditionExpression (sample_request\<lparr>skComparator := Some ''foo''\<rparr>)
     = Inl (Error ''Invalid operation key: foo'') \<and>
   truthy (sKey (sample_request\<lparr>skComparator := Some ''Equal''\<rparr>)) \<and>
   toUpperCase ''Equal'' = ''EQUAL'' \<and>
   createKeyConditionExpression (sample_request\<lparr>skComparator := Some ''Equal''\<rparr>)
     = Inr ''#pk = :pk AND #sk = :sk''"
proof -
  have t1: "truthy (sKey (sample_request\<lparr>skComparator := Some ''foo''\<rparr>))"
    by (simp add: sample_request_def truthy_def)
  have t2: "truthy (sKey (sample_request\<lparr>skComparator := Some ''Equal''\<rparr>))"
    by (simp add: sample_request_def truthy_def)
  have u1: "toUpperCase ''foo'' \<notin> set recognized_spellings"
    by (simp add: recognized_spellings_def toUpperCase_def upper_special_def toUpperCase_char_def)
  have u2: "toUpperCase ''Equal'' = ''EQUAL''"
    by (simp add: toUpperCase_def upper_special_def toUpperCase_char_def)
  show ?thesis
    using C1_unrecognized_comparator_fails [OF t1] C1_unrecognized_comparator_fails [OF t2]
      t1 t2 u1 u2
    by simp
qed


section \<open>Properties of the query command builder\<close>

lemma spread_key_keys:
  assumes "spread_key rt k s t = Inr kv"
  shows "kv = [] \<or> (\<exists>x. kv = [(k, x)])"
  using assms by (auto simp: spread_key_def split: option.splits if_splits sum.splits)

lemma keys_obj_assign:
  "fst ` set (obj_assign a b) = fst ` set a \<union> fst ` set b"
  unfolding obj_assign_def
  by (induction b arbitrary: a) (auto simp: dom_update)

text \<open>
  Claim C2 says that for every validated query request with comparator
  \<^verbatim>\<open>BEGINS_WITH\<close> the builder yields the key condition
  \<^verbatim>\<open>#pk = :pk AND begins_with(#sk, :skValue2)\<close> and a value map that has \<^verbatim>\<open>:skValue2\<close>
  and has no \<^verbatim>\<open>:sk\<close>. Evaluated at a request that the schema accepts (sort key
  \<^verbatim>\<open>doc\<close>, no second value, as the schema demands for every comparator other than
  \<^verbatim>\<open>BETWEEN\<close>), the builder yields that key condition together with the value map
  \<^verbatim>\<open>{':pk': 'folder-1', ':sk': 'doc'}\<close>: the token the expression uses is unbound and
  \<^verbatim>\<open>:sk\<close> is bound.
\<close>

theorem C2_begins_with_value_map_at_valid_request:
  "dynamoQueryRequestSch_accepts sample_request \<and>
   skComparator sample_request = Some ''BEGINS_WITH'' \<and>
   (\<exists>cmd. buildQueryCommandInput rt RESERVED sample_query_input = Inr cmd \<and>
      qc_KeyConditionExpression cmd = ''#pk = :pk AND begins_with(#sk, :skValue2)'' \<and>
      qc_ExpressionAttributeValues cmd = [('':pk'', JStr ''folder-1''), ('':sk'', JStr ''doc'')] \<and>
      map_of (qc_ExpressionAttributeValues cmd) '':skValue2'' = None \<and>
      map_of (qc_ExpressionAttributeValues cmd) '':sk'' = Some (JStr ''doc''))"
proof -
  have a: "dynamoQueryRequestSch_accepts sample_request"
    by (simp add: dynamoQueryRequestSch_accepts_def sample_request_def opt_in_def truthy_def
        dynamoKeyAttrTypeSch_def dynamoComparatorSch_def)
  have k: "createKeyConditionExpression sample_request
           = Inr ''#pk = :pk AND begins_with(#sk, :skValue2)''"
    by (simp add: createKeyConditionExpression_def getOperatorSymbolByKey_def sample_request_def
        truthy_def toUpperCase_def upper_special_def toUpperCase_char_def)
  have b: "buildQueryCommandInput rt RESERVED sample_query_input = Inr
     \<lparr> qc_TableName = ''Files'', qc_IndexName = None,
       qc_KeyConditionExpression = ''#pk = :pk AND begins_with(#sk, :skValue2)'',
       qc_FilterExpression = None,
       qc_ExpressionAttributeNames = [(''#pk'', ''folderId''), (''#sk'', ''fileName'')],
       qc_ExpressionAttributeValues = [('':pk'', JStr ''folder-1''), ('':sk'', JStr ''doc'')],
       qc_ProjectionExpression = None, qc_ScanIndexForward = None,
       qc_ReturnConsumedCapacity = None, qc_ExclusiveStartKey = None, qc_Limit = None \<rparr>"
    unfolding buildQueryCommandInput_def
    by (simp add: sample_query_input_def k)
       (simp add: sample_query_input_def sample_request_def spread_key_def
          parseDynamoKeyValue_def obj_assign_def or_empty_def)
  show ?thesis using a b by (simp add: sample_request_def)
qed

text \<open>
  The same holds at every request the schema accepts: whenever the builder returns a
  command for comparator \<^verbatim>\<open>BEGINS_WITH\<close>, the value map has the key \<^verbatim>\<open>:sk\<close>, and it
  has the key \<^verbatim>\<open>:skValue2\<close> only if the caller's extra values have it.
\<close>

lemma buildQuery_begins_with_values:
  assumes acc: "dynamoQueryRequestSch_accepts (qi_queryRequest input)"
    and cmp: "skComparator (qi_queryRequest input) = Some ''BEGINS_WITH''"
    and ok: "buildQueryCommandInput rt RESERVED input = Inr cmd"
  shows "qc_KeyConditionExpression cmd = ''#pk = :pk AND begins_with(#sk, :skValue2)''"
    and "'':sk'' \<in> fst ` set (qc_ExpressionAttributeValues cmd)"
    and "'':skValue2'' \<in> fst ` set (qc_ExpressionAttributeValues cmd)
         \<longleftrightarrow> '':skValue2'' \<in> fst ` set (or_empty (qi_extraExpAttributeValues input))"
proof -
  let ?q = "qi_queryRequest input"
  have sk: "truthy (sKey ?q)" and nsk2: "\<not> truthy (skValue2 ?q)"
    using acc cmp by (auto simp: dynamoQueryRequestSch_accepts_def truthy_def)
  have k: "createKeyConditionExpression ?q = Inr ''#pk = :pk AND begins_with(#sk, :skValue2)''"
    using sk cmp
    by (simp add: createKeyConditionExpression_def getOperatorSymbolByKey_def
        toUpperCase_def upper_special_def toUpperCase_char_def)
  obtain s where s: "sKey ?q = Some s" "s \<noteq> []"
    using sk by (auto simp: truthy_def split: option.splits)
  have sp2: "spread_key rt '':skValue2'' (skValue2 ?q) t = Inr []" for t
    using nsk2 by (auto simp: spread_key_def truthy_def split: option.splits)
  from ok obtain pk x where
      pk: "parseDynamoKeyValue rt (pKey ?q) (pKeyType ?q) = Inr pk"
    and x: "spread_key rt '':sk'' (sKey ?q)
              (case sKeyType ?q of None \<Rightarrow> ''S'' | Some t \<Rightarrow> t) = Inr x"
    and vals: "qc_ExpressionAttributeValues cmd
               = obj_assign (obj_assign (obj_assign [('':pk'', pk)] x) [])
                   (or_empty (qi_extraExpAttributeValues input))"
    and kc: "qc_KeyConditionExpression cmd = ''#pk = :pk AND begins_with(#sk, :skValue2)''"
    unfolding buildQueryCommandInput_def
    by (auto simp: k sp2 Let_def split: sum.splits)
  from x s obtain v where xv: "x = [('':sk'', v)]"
    by (auto simp: spread_key_def split: sum.splits)
  show "qc_KeyConditionExpression cmd = ''#pk = :pk AND begins_with(#sk, :skValue2)''"
    by (rule kc)
  show "'':sk'' \<in> fst ` set (qc_ExpressionAttributeValues cmd)"
    by (simp add: vals xv keys_obj_assign)
  show "'':skValue2'' \<in> fst ` set (qc_ExpressionAttributeValues cmd)
         \<longleftrightarrow> '':skValue2'' \<in> fst ` set (or_empty (qi_extraExpAttributeValues input))"
    by (simp add: vals xv keys_obj_assign)
qed

section \<open>Properties of the filter compiler\<close>

lemma set_elements_loop_parts:
  assumes "set_elements_loop rt ty i vs j vals orParts = Inr (vals', orParts')"
  shows "orParts' = orParts @
           map (\<lambda>k. ''contains(#f'' @ show_nat i @ '', :f'' @ show_nat i @ ''vs'' @ show_nat k @ '')'')
             [j..<j + length vs]"
  using assms
proof (induction vs arbitrary: j vals orParts)
  case Nil
  then show ?case by simp
next
  case (Cons v vs)
  from Cons.prems obtain x where
    step: "set_elements_loop rt ty i vs (Suc j)
             (AList.update (makeValueToken i (''vs'' @ show_nat j)) x vals)
             (orParts @ [''contains('' @ makeNameToken i @ '', '' @ makeValueToken i (''vs'' @ show_nat j) @ '')''])
           = Inr (vals', orParts')"
    by (auto simp: Let_def split: sum.splits)
  have "[j..<j + length (v # vs)] = j # [Suc j..<Suc j + length vs]"
    by (subst upt_rec) simp
  then show ?case
    using Cons.IH [OF step] by (simp add: makeNameToken_def makeValueToken_def)
qed

lemma set_elements_loop_terms:
  assumes "set_elements_loop rt ty i vs 0 vals [] = Inr (vals', orParts')"
  shows "orParts' = spec_contains_terms i (length vs)"
  using set_elements_loop_parts [OF assms] by (simp add: spec_contains_terms_def)

lemma filter_step_names:
  assumes "filter_step rt i f st = Inr st'"
  shows "st_names st' = AList.update (makeNameToken i) (f_name f) (st_names st)"
  using assms unfolding filter_step_def Let_def
  by (cases "f_condition f")
     (auto split: sum.splits option.splits if_splits prod.splits)

lemma filter_step_parts:
  assumes "filter_step rt i f st = Inr st'"
  shows "st_parts st' = st_parts st @ [spec_fragment i f]"
proof (cases "f_condition f")
  case CONTAINS
  then show ?thesis using assms unfolding filter_step_def Let_def spec_fragment_def
    by (auto simp: makeNameToken_def makeValueToken_def
             dest!: set_elements_loop_terms
             split: sum.splits option.splits if_splits prod.splits)
next
  case NOT_CONTAINS
  then show ?thesis using assms unfolding filter_step_def Let_def spec_fragment_def
    by (auto simp: makeNameToken_def makeValueToken_def
             dest!: set_elements_loop_terms
             split: sum.splits option.splits if_splits prod.splits)
qed (use assms in \<open>auto simp: filter_step_def Let_def spec_fragment_def makeNameToken_def
      makeValueToken_def spec_operator_def comparison_op_def
      split: sum.splits option.splits if_splits prod.splits\<close>)


lemma makeNameToken_inj: "makeNameToken a = makeNameToken b \<Longrightarrow> a = b"
  by (simp add: makeNameToken_def show_nat_inj)

lemma update_new_key:
  assumes "k \<notin> fst ` set al"
  shows "AList.update k v al = al @ [(k, v)]"
  using assms by (induction al) auto

lemma filters_loop_append:
  "filters_loop rt i (pre @ post) st =
     (case filters_loop rt i pre st of
        Inl e \<Rightarrow> Inl e
      | Inr st' \<Rightarrow> filters_loop rt (i + length pre) post st')"
  by (induction pre arbitrary: i st) (auto split: sum.splits)

lemma filters_loop_parts:
  assumes "filters_loop rt i fs st = Inr st'"
  shows "st_parts st' = st_parts st @ map (\<lambda>(k, f). spec_fragment k f) (List.enumerate i fs)"
  using assms
proof (induction fs arbitrary: i st)
  case Nil
  then show ?case by simp
next
  case (Cons f fs)
  from Cons.prems obtain st1 where
    s1: "filter_step rt i f st = Inr st1" and s2: "filters_loop rt (Suc i) fs st1 = Inr st'"
    by (auto split: sum.splits)
  show ?case
    using Cons.IH [OF s2] filter_step_parts [OF s1] by simp
qed

lemma filters_loop_names:
  assumes "filters_loop rt i fs st = Inr st'"
    and "\<forall>k\<ge>i. makeNameToken k \<notin> fst ` set (st_names st)"
  shows "st_names st' = st_names st @ map (\<lambda>(k, f). (makeNameToken k, f_name f)) (List.enumerate i fs)"
  using assms
proof (induction fs arbitrary: i st)
  case Nil
  then show ?case by simp
next
  case (Cons f fs)
  from Cons.prems(1) obtain st1 where
    s1: "filter_step rt i f st = Inr st1" and s2: "filters_loop rt (Suc i) fs st1 = Inr st'"
    by (auto split: sum.splits)
  have n1: "st_names st1 = st_names st @ [(makeNameToken i, f_name f)]"
    using filter_step_names [OF s1] Cons.prems(2) by (simp add: update_new_key)
  have fresh: "\<forall>k\<ge>Suc i. makeNameToken k \<notin> fst ` set (st_names st1)"
  proof (intro allI impI)
    fix k assume k: "Suc i \<le> k"
    then have "makeNameToken k \<noteq> makeNameToken i"
      using makeNameToken_inj [of k i] by auto
    then show "makeNameToken k \<notin> fst ` set (st_names st1)"
      using Cons.prems(2) k by (auto simp: n1)
  qed
  show ?case
    using Cons.IH [OF s2 fresh] n1 by simp
qed

text \<open>
  Claim C3: whenever a non-empty list of \<open>n\<close> filters compiles, the filter expression is
  the \<open>n\<close> per-filter fragments, in input order, joined with \<^verbatim>\<open> AND \<close>, and the name
  map is exactly \<^verbatim>\<open>#f0\<close>, ..., \<^verbatim>\<open>#f{n-1}\<close> in that order, each bound to the attribute name
  of the filter at that index.
\<close>

theorem C3_filter_set_expression_and_names:
  assumes "generateDynamoFilterAttributes rt filters = Inr (Some r)"
  shows "filters \<noteq> []
       \<and> filterExpression r
           = join '' AND '' (map (\<lambda>(i, f). spec_fragment i f) (List.enumerate 0 filters))
       \<and> length (map (\<lambda>(i, f). spec_fragment i f) (List.enumerate 0 filters)) = length filters
       \<and> expressionAttributeNames r
           = map (\<lambda>(i, f). (''#f'' @ show_nat i, f_name f)) (List.enumerate 0 filters)"
proof -
  from assms have ne: "filters \<noteq> []"
    by (auto simp: generateDynamoFilterAttributes_def split: if_splits)
  from assms ne obtain st where
    loop: "filters_loop rt 0 filters initial_state = Inr st"
    and r: "r = \<lparr> filterExpression = join '' AND '' (st_parts st),
                  expressionAttributeNames = st_names st,
                  expressionAttributeValues = st_values st \<rparr>"
    by (auto simp: generateDynamoFilterAttributes_def split: sum.splits)
  have p: "st_parts st = map (\<lambda>(k, f). spec_fragment k f) (List.enumerate 0 filters)"
    using filters_loop_parts [OF loop] by (simp add: initial_state_def)
  have n: "st_names st = map (\<lambda>(k, f). (makeNameToken k, f_name f)) (List.enumerate 0 filters)"
    using filters_loop_names [OF loop] by (simp add: initial_state_def)
  have m: "(\<lambda>(k, f). (makeNameToken k, f_name f)) = (\<lambda>(i, f). (''#f'' @ show_nat i, f_name f))"
    by (simp add: makeNameToken_def)
  show ?thesis using ne p n by (simp add: r m)
qed

theorem C3_filter_set_expression_and_names_witness:
  "(\<exists>r. generateDynamoFilterAttributes sample_runtime sample_filters = Inr (Some r)
      \<and> sample_filters \<noteq> []
      \<and> filterExpression r
          = ''(#f0 = :f0v) AND ((contains(#f1, :f1vs0) OR contains(#f1, :f1vs1))) AND (#f2 BETWEEN :f2v AND :f2v2)''
      \<and> length (map (\<lambda>(i, f). spec_fragment i f) (List.enumerate 0 sample_filters)) = 3
      \<and> expressionAttributeNames r = [(''#f0'', ''status''), (''#f1'', ''tags''), (''#f2'', ''age'')])"
proof -
  have g: "generateDynamoFilterAttributes sample_runtime sample_filters = Inr (Some
     \<lparr> filterExpression =
         ''(#f0 = :f0v) AND ((contains(#f1, :f1vs0) OR contains(#f1, :f1vs1))) AND (#f2 BETWEEN :f2v AND :f2v2)'',
       expressionAttributeNames = [(''#f0'', ''status''), (''#f1'', ''tags''), (''#f2'', ''age'')],
       expressionAttributeValues =
         [('':f0v'', JStr ''active''), ('':f1vs0'', JStr ''a''), ('':f1vs1'', JStr ''b''),
          ('':f2v'', JNum (Finite 1)), ('':f2v2'', JNum (Finite 5))] \<rparr>)"
    by (simp add: generateDynamoFilterAttributes_def sample_filters_def initial_state_def
        filter_step_def requireValue_def parseValueByType_def parseSetElement_def
        makeNameToken_def makeValueToken_def show_nat.simps digit_char_def comparison_op_def
        sample_runtime_def sample_Number_def isFinite_def)
  show ?thesis
    using C3_filter_set_expression_and_names [OF g] g
    by (simp add: sample_filters_def)
qed

lemma generate_abort:
  assumes pre: "filters_loop rt 0 pre initial_state = Inr st"
    and step: "filter_step rt (length pre) f st = Inl e"
  shows "generateDynamoFilterAttributes rt (pre @ f # post) = Inl e"
  using pre step
  by (simp add: generateDynamoFilterAttributes_def filters_loop_append)

lemma generate_single:
  "generateDynamoFilterAttributes rt [f] =
     (case filter_step rt 0 f initial_state of
        Inl e \<Rightarrow> Inl e
      | Inr st \<Rightarrow> Inr (Some \<lparr> filterExpression = join '' AND '' (st_parts st),
                                expressionAttributeNames = st_names st,
                                expressionAttributeValues = st_values st \<rparr>))"
  by (simp add: generateDynamoFilterAttributes_def split: sum.splits)

lemma show_nat_0: "show_nat 0 = ''0''"
  by (simp add: show_nat.simps digit_char_def)

lemma show_nat_1: "show_nat (Suc 0) = ''1''"
  by (simp add: show_nat.simps digit_char_def)

lemma digit_char_not_v:
  assumes "d < 10"
  shows "digit_char d \<noteq> CHR ''v''"
proof -
  have "d \<in> {0,1,2,3,4,5,6,7,8,9}" using assms by auto
  then show ?thesis by (auto simp: digit_char_def)
qed

lemma show_nat_no_v: "CHR ''v'' \<notin> set (show_nat n)"
proof (induction n rule: show_nat.induct)
  case (1 n)
  show ?case
  proof (cases "n < 10")
    case True
    then show ?thesis
      using digit_char_not_v [of n] by (subst show_nat.simps) auto
  next
    case False
    have "digit_char (n mod 10) \<noteq> CHR ''v''" by (rule digit_char_not_v) simp
    then show ?thesis
      using False "1.IH" by (subst show_nat.simps) auto
  qed
qed

lemma split_at_first:
  assumes "xs @ x # ys = xs' @ x # ys'" and "x \<notin> set xs" and "x \<notin> set xs'"
  shows "xs = xs' \<and> ys = ys'"
proof -
  have "takeWhile (\<lambda>y. y \<noteq> x) (xs @ x # ys) = xs"
    using assms(2) by (induction xs) auto
  moreover have "takeWhile (\<lambda>y. y \<noteq> x) (xs' @ x # ys') = xs'"
    using assms(3) by (induction xs') auto
  ultimately have "xs = xs'" using assms(1) by simp
  with assms(1) show ?thesis by simp
qed

lemma makeValueToken_inj:
  assumes "makeValueToken i (CHR ''v'' # a) = makeValueToken j (CHR ''v'' # b)"
  shows "i = j \<and> a = b"
proof -
  from assms have "show_nat i @ CHR ''v'' # a = show_nat j @ CHR ''v'' # b"
    by (simp add: makeValueToken_def)
  then have "show_nat i = show_nat j \<and> a = b"
    by (rule split_at_first) (rule show_nat_no_v)+
  then show ?thesis by (simp add: show_nat_inj)
qed

text \<open>
  An iteration at index \<open>j\<close> writes only value tokens of the form \<^verbatim>\<open>:f{j}v...\<close>, so a
  token of another index keeps its binding.
\<close>

lemma set_elements_loop_keeps:
  assumes "set_elements_loop rt ty j vs k vals orParts = Inr (vals', orParts')"
    and "\<forall>sfx. key \<noteq> makeValueToken j (CHR ''v'' # sfx)"
  shows "map_of vals' key = map_of vals key"
  using assms
proof (induction vs arbitrary: k vals orParts)
  case Nil
  then show ?case by simp
next
  case (Cons v vs)
  from Cons.prems(1) obtain x where
    step: "set_elements_loop rt ty j vs (Suc k)
             (AList.update (makeValueToken j (''vs'' @ show_nat k)) x vals)
             (orParts @ [''contains('' @ makeNameToken j @ '', ''
                         @ makeValueToken j (''vs'' @ show_nat k) @ '')''])
           = Inr (vals', orParts')"
    by (auto simp: Let_def split: sum.splits)
  have "key \<noteq> makeValueToken j (''vs'' @ show_nat k)"
    using Cons.prems(2) by simp
  then show ?case
    using Cons.IH [OF step Cons.prems(2)] by (simp add: update_conv')
qed

lemma filter_step_keeps:
  assumes "filter_step rt j g st = Inr st'"
    and "\<forall>sfx. key \<noteq> makeValueToken j (CHR ''v'' # sfx)"
  shows "map_of (st_values st') key = map_of (st_values st) key"
proof -
  have k1: "key \<noteq> makeValueToken j ''v''" and k2: "key \<noteq> makeValueToken j ''v2''"
    using assms(2) by simp_all
  show ?thesis
  proof (cases "f_condition g")
    case CONTAINS
    then show ?thesis
      using assms(1) k1 set_elements_loop_keeps [OF _ assms(2)]
      unfolding filter_step_def Let_def
      by (auto simp: update_conv' split: sum.splits option.splits if_splits prod.splits)
  next
    case NOT_CONTAINS
    then show ?thesis
      using assms(1) k1 set_elements_loop_keeps [OF _ assms(2)]
      unfolding filter_step_def Let_def
      by (auto simp: update_conv' split: sum.splits option.splits if_splits prod.splits)
  qed (insert assms(1) k1 k2, auto simp: filter_step_def Let_def update_conv'
        split: sum.splits option.splits if_splits prod.splits)
qed

lemma filters_loop_keeps:
  assumes "filters_loop rt j fs st = Inr st'"
    and "\<forall>m\<ge>j. \<forall>sfx. key \<noteq> makeValueToken m (CHR ''v'' # sfx)"
  shows "map_of (st_values st') key = map_of (st_values st) key"
  using assms
proof (induction fs arbitrary: j st)
  case Nil
  then show ?case by simp
next
  case (Cons g fs)
  from Cons.prems(1) obtain st1 where
    s1: "filter_step rt j g st = Inr st1" and s2: "filters_loop rt (Suc j) fs st1 = Inr st'"
    by (auto split: sum.splits)
  have a: "\<forall>sfx. key \<noteq> makeValueToken j (CHR ''v'' # sfx)" using Cons.prems(2) by simp
  have b: "\<forall>m\<ge>Suc j. \<forall>sfx. key \<noteq> makeValueToken m (CHR ''v'' # sfx)"
    using Cons.prems(2) by simp
  show ?case
    using Cons.IH [OF s2 b] filter_step_keeps [OF s1 a] by simp
qed

lemma later_tokens_differ:
  assumes "i < j"
  shows "\<forall>m\<ge>j. \<forall>sfx. makeValueToken i (CHR ''v'' # a) \<noteq> makeValueToken m (CHR ''v'' # sfx)"
  using assms makeValueToken_inj by fastforce

text \<open>
  What the compilation of \<open>pre @ f # post\<close> returns, given the state \<open>st\<close> after
  \<open>pre\<close> and the state \<open>st1\<close> after the iteration for \<open>f\<close>: the expression starts with
  the parts of \<open>st1\<close>, one part follows for each later filter, and a value token of the
  index of \<open>f\<close> is bound as in \<open>st1\<close>.
\<close>

lemma generate_after_step:
  assumes pre: "filters_loop rt 0 pre initial_state = Inr st"
    and step: "filter_step rt (length pre) f st = Inr st1"
    and gen: "generateDynamoFilterAttributes rt (pre @ f # post) = Inr (Some r)"
  shows "\<exists>rest. length rest = length post
           \<and> filterExpression r = join '' AND '' (st_parts st1 @ rest)"
    and "map_of (expressionAttributeValues r) (makeValueToken (length pre) (CHR ''v'' # a))
         = map_of (st_values st1) (makeValueToken (length pre) (CHR ''v'' # a))"
proof -
  from gen pre step obtain st2 where
    l2: "filters_loop rt (Suc (length pre)) post st1 = Inr st2"
    and r: "r = \<lparr> filterExpression = join '' AND '' (st_parts st2),
                  expressionAttributeNames = st_names st2,
                  expressionAttributeValues = st_values st2 \<rparr>"
    by (auto simp: generateDynamoFilterAttributes_def filters_loop_append split: sum.splits)
  have p: "st_parts st2 = st_parts st1
           @ map (\<lambda>(k, f). spec_fragment k f) (List.enumerate (Suc (length pre)) post)"
    by (rule filters_loop_parts [OF l2])
  show "\<exists>rest. length rest = length post
           \<and> filterExpression r = join '' AND '' (st_parts st1 @ rest)"
    by (rule exI [of _ "map (\<lambda>(k, f). spec_fragment k f)
                          (List.enumerate (Suc (length pre)) post)"])
       (simp add: r p)
  have "map_of (st_values st2) (makeValueToken (length pre) (CHR ''v'' # a))
        = map_of (st_values st1) (makeValueToken (length pre) (CHR ''v'' # a))"
    by (rule filters_loop_keeps [OF l2 later_tokens_differ]) simp
  then show "map_of (expressionAttributeValues r) (makeValueToken (length pre) (CHR ''v'' # a))
         = map_of (st_values st1) (makeValueToken (length pre) (CHR ''v'' # a))"
    by (simp add: r)
qed

lemma generate_last:
  assumes pre: "filters_loop rt 0 pre initial_state = Inr st"
    and step: "filter_step rt (length pre) f st = Inr st1"
  shows "generateDynamoFilterAttributes rt (pre @ [f])
         = Inr (Some \<lparr> filterExpression = join '' AND '' (st_parts st1),
                       expressionAttributeNames = st_names st1,
                       expressionAttributeValues = st_values st1 \<rparr>)"
  using pre step
  by (simp add: generateDynamoFilterAttributes_def filters_loop_append)

lemma filter_step_between:
  assumes "f_condition f = BETWEEN"
  shows "filter_step rt i f st =
     (case (f_value f, f_value2 f) of
        (Some raw1, Some raw2) \<Rightarrow>
          if f_type f \<in> {T_SS, T_NS, T_BOOL, T_NULL}
          then Inl (Error (''BETWEEN is not valid for type '' @ type_str (f_type f)
                           @ '' (filter['' @ show_nat i @ ''])''))
          else
            (case parseValueByType rt (f_type f) raw1 of
               Inl e \<Rightarrow> Inl e
             | Inr x1 \<Rightarrow>
                 (case parseValueByType rt (f_type f) raw2 of
                    Inl e \<Rightarrow> Inl e
                  | Inr x2 \<Rightarrow>
                      Inr (st\<lparr> st_names := AList.update (''#f'' @ show_nat i) (f_name f) (st_names st),
                               st_values := AList.update ('':f'' @ show_nat i @ ''v2'') x2
                                  (AList.update ('':f'' @ show_nat i @ ''v'') x1 (st_values st)),
                               st_parts := st_parts st @
                                 [''(#f'' @ show_nat i @ '' BETWEEN :f'' @ show_nat i
                                  @ ''v AND :f'' @ show_nat i @ ''v2)''] \<rparr>)))
      | _ \<Rightarrow> Inl (Error (''BETWEEN requires value and value2 for filter['' @ show_nat i
                         @ '']'')))"
  using assms
  by (auto simp: filter_step_def Let_def makeNameToken_def makeValueToken_def
      split: sum.splits option.splits)

text \<open>
  Claim C5, for a filter \<open>f\<close> with condition \<^verbatim>\<open>BETWEEN\<close> at index \<open>i = length pre\<close> of the
  filter list \<open>pre @ f # post\<close> (the filters before it compile to the state \<open>st\<close>):
  if \<^verbatim>\<open>value\<close> or \<^verbatim>\<open>value2\<close> is not a string, \<open>generateDynamoFilterAttributes\<close> fails
  with the missing-operand message; otherwise, if the type is SS, NS, BOOL or NULL, it
  fails with the type message; otherwise, with both operands coerced to \<open>x\<close> and \<open>x2\<close>,
  the result for \<open>pre @ [f]\<close> is exactly the result so far with the fragment
  \<^verbatim>\<open>(#f{i} BETWEEN :f{i}v AND :f{i}v2)\<close> appended, \<^verbatim>\<open>#f{i}\<close> bound to the attribute name and
  \<^verbatim>\<open>:f{i}v\<close>, \<^verbatim>\<open>:f{i}v2\<close> bound to \<open>x\<close>, \<open>x2\<close>, and every result for \<open>pre @ f # post\<close> has the
  fragment at position \<open>i\<close> of the conjunction, followed by one fragment for each later
  filter, and binds \<^verbatim>\<open>:f{i}v\<close> to \<open>x\<close> and \<^verbatim>\<open>:f{i}v2\<close> to \<open>x2\<close>. When the coercion of an
  operand fails, the compilation fails with the coercion's error.
\<close>

theorem C5_between:
  assumes cond: "f_condition f = BETWEEN"
    and pre: "filters_loop rt 0 pre initial_state = Inr st"
  shows "(f_value f = None \<or> f_value2 f = None
            \<longrightarrow> generateDynamoFilterAttributes rt (pre @ f # post)
                = Inl (Error (''BETWEEN requires value and value2 for filter[''
                              @ show_nat (length pre) @ '']'')))
       \<and> (f_value f \<noteq> None \<and> f_value2 f \<noteq> None
           \<and> f_type f \<in> {T_SS, T_NS, T_BOOL, T_NULL}
            \<longrightarrow> generateDynamoFilterAttributes rt (pre @ f # post)
                = Inl (Error (''BETWEEN is not valid for type '' @ type_str (f_type f)
                              @ '' (filter['' @ show_nat (length pre) @ ''])'')))
       \<and> (\<forall>v v2 x x2.
             f_value f = Some v \<and> f_value2 f = Some v2
             \<and> f_type f \<notin> {T_SS, T_NS, T_BOOL, T_NULL}
             \<and> parseValueByType rt (f_type f) v = Inr x
             \<and> parseValueByType rt (f_type f) v2 = Inr x2
            \<longrightarrow> generateDynamoFilterAttributes rt (pre @ [f])
                  = Inr (Some
                      \<lparr> filterExpression = join '' AND '' (st_parts st @
                          [''(#f'' @ show_nat (length pre) @ '' BETWEEN :f''
                           @ show_nat (length pre) @ ''v AND :f'' @ show_nat (length pre)
                           @ ''v2)'']),
                        expressionAttributeNames =
                          AList.update (''#f'' @ show_nat (length pre)) (f_name f) (st_names st),
                        expressionAttributeValues =
                          AList.update ('':f'' @ show_nat (length pre) @ ''v2'') x2
                            (AList.update ('':f'' @ show_nat (length pre) @ ''v'') x
                               (st_values st)) \<rparr>)
              \<and> (\<forall>r. generateDynamoFilterAttributes rt (pre @ f # post) = Inr (Some r)
                    \<longrightarrow> (\<exists>rest. length rest = length post
                           \<and> filterExpression r = join '' AND '' (st_parts st @
                               [''(#f'' @ show_nat (length pre) @ '' BETWEEN :f''
                                @ show_nat (length pre) @ ''v AND :f''
                                @ show_nat (length pre) @ ''v2)''] @ rest))
                        \<and> map_of (expressionAttributeValues r)
                             ('':f'' @ show_nat (length pre) @ ''v'') = Some x
                        \<and> map_of (expressionAttributeValues r)
                             ('':f'' @ show_nat (length pre) @ ''v2'') = Some x2))
       \<and> (\<forall>v v2 e.
             f_value f = Some v \<and> f_value2 f = Some v2
             \<and> f_type f \<notin> {T_SS, T_NS, T_BOOL, T_NULL}
             \<and> (parseValueByType rt (f_type f) v = Inl e
                 \<or> (\<exists>x. parseValueByType rt (f_type f) v = Inr x)
                    \<and> parseValueByType rt (f_type f) v2 = Inl e)
            \<longrightarrow> generateDynamoFilterAttributes rt (pre @ f # post) = Inl e)"
proof (intro conjI impI allI)
  assume "f_value f = None \<or> f_value2 f = None"
  then have "filter_step rt (length pre) f st
             = Inl (Error (''BETWEEN requires value and value2 for filter[''
                           @ show_nat (length pre) @ '']''))"
    by (auto simp: filter_step_between [OF cond] split: option.splits)
  then show "generateDynamoFilterAttributes rt (pre @ f # post)
             = Inl (Error (''BETWEEN requires value and value2 for filter[''
                           @ show_nat (length pre) @ '']''))"
    by (rule generate_abort [OF pre])
next
  assume "f_value f \<noteq> None \<and> f_value2 f \<noteq> None \<and> f_type f \<in> {T_SS, T_NS, T_BOOL, T_NULL}"
  then have "filter_step rt (length pre) f st
             = Inl (Error (''BETWEEN is not valid for type '' @ type_str (f_type f)
                           @ '' (filter['' @ show_nat (length pre) @ ''])''))"
    by (auto simp: filter_step_between [OF cond] split: option.splits)
  then show "generateDynamoFilterAttributes rt (pre @ f # post)
             = Inl (Error (''BETWEEN is not valid for type '' @ type_str (f_type f)
                           @ '' (filter['' @ show_nat (length pre) @ ''])''))"
    by (rule generate_abort [OF pre])
next
  fix v v2 x x2
  assume h: "f_value f = Some v \<and> f_value2 f = Some v2
             \<and> f_type f \<notin> {T_SS, T_NS, T_BOOL, T_NULL}
             \<and> parseValueByType rt (f_type f) v = Inr x
             \<and> parseValueByType rt (f_type f) v2 = Inr x2"
  let ?i = "show_nat (length pre)"
  let ?frag = "''(#f'' @ ?i @ '' BETWEEN :f'' @ ?i @ ''v AND :f'' @ ?i @ ''v2)''"
  let ?vals = "AList.update ('':f'' @ ?i @ ''v2'') x2
                 (AList.update ('':f'' @ ?i @ ''v'') x (st_values st))"
  let ?st1 = "st\<lparr> st_names := AList.update (''#f'' @ ?i) (f_name f) (st_names st),
                  st_values := ?vals, st_parts := st_parts st @ [?frag] \<rparr>"
  have s: "filter_step rt (length pre) f st = Inr ?st1"
    using h by (simp add: filter_step_between [OF cond])
  have ne: "'':f'' @ ?i @ ''v2'' \<noteq> '':f'' @ ?i @ ''v''" by simp
  have m1: "map_of ?vals ('':f'' @ ?i @ ''v'') = Some x"
    using ne by (simp add: update_conv')
  have m2: "map_of ?vals ('':f'' @ ?i @ ''v2'') = Some x2"
    by (simp add: update_conv')
  show "generateDynamoFilterAttributes rt (pre @ [f])
        = Inr (Some \<lparr> filterExpression = join '' AND '' (st_parts st @ [?frag]),
                      expressionAttributeNames =
                        AList.update (''#f'' @ ?i) (f_name f) (st_names st),
                      expressionAttributeValues = ?vals \<rparr>)"
    using generate_last [OF pre s] by simp
  fix r
  assume g: "generateDynamoFilterAttributes rt (pre @ f # post) = Inr (Some r)"
  from generate_after_step(1) [OF pre s g]
  show "\<exists>rest. length rest = length post
          \<and> filterExpression r = join '' AND '' (st_parts st @ [?frag] @ rest)"
    by simp
  from generate_after_step(2) [OF pre s g, of "[]"] m1
  show "map_of (expressionAttributeValues r) ('':f'' @ ?i @ ''v'') = Some x"
    by (simp add: makeValueToken_def)
  from generate_after_step(2) [OF pre s g, of "''2''"] m2
  show "map_of (expressionAttributeValues r) ('':f'' @ ?i @ ''v2'') = Some x2"
    by (simp add: makeValueToken_def)
next
  fix v v2 e
  assume h: "f_value f = Some v \<and> f_value2 f = Some v2
             \<and> f_type f \<notin> {T_SS, T_NS, T_BOOL, T_NULL}
             \<and> (parseValueByType rt (f_type f) v = Inl e
                 \<or> (\<exists>x. parseValueByType rt (f_type f) v = Inr x)
                    \<and> parseValueByType rt (f_type f) v2 = Inl e)"
  then have "filter_step rt (length pre) f st = Inl e"
    by (auto simp: filter_step_between [OF cond])
  then show "generateDynamoFilterAttributes rt (pre @ f # post) = Inl e"
    by (rule generate_abort [OF pre])
qed

lemma comparison_op_spec:
  assumes "c \<in> set comparison_conditions"
  shows "comparison_op c = spec_operator c"
  using assms by (auto simp: comparison_conditions_def comparison_op_def spec_operator_def)

lemma filter_step_comparison:
  assumes "c \<in> set comparison_conditions" and "f_condition f = c"
  shows "filter_step rt i f st =
     (if f_type f = T_SS \<or> f_type f = T_NS
      then Inl (Error (''Comparator '' @ quoted (condition_str c)
                       @ '' is not supported for '' @ type_str (f_type f)
                       @ ''; use CONTAINS/NOT_CONTAINS''))
      else
        (case requireValue f i of
           Inl e \<Rightarrow> Inl e
         | Inr raw \<Rightarrow>
             (case parseValueByType rt (f_type f) raw of
                Inl e \<Rightarrow> Inl e
              | Inr x \<Rightarrow>
                  Inr (st\<lparr> st_names := AList.update (makeNameToken i) (f_name f) (st_names st),
                           st_values := AList.update (makeValueToken i ''v'') x (st_values st),
                           st_parts := st_parts st @
                             [''('' @ makeNameToken i @ '' '' @ comparison_op c @ '' ''
                              @ makeValueToken i ''v'' @ '')''] \<rparr>))))"
  using assms
  by (auto simp: comparison_conditions_def filter_step_def Let_def split: sum.splits)

text \<open>
  Claim C6, for a filter \<open>f\<close> with one of the six comparison conditions at index
  \<open>i = length pre\<close> of the filter list \<open>pre @ f # post\<close>: for type SS or NS
  \<open>generateDynamoFilterAttributes\<close> fails with a message that ends in
  \<^verbatim>\<open>use CONTAINS/NOT_CONTAINS\<close>; otherwise a missing \<^verbatim>\<open>value\<close> fails with the
  requires-value message; with the value coerced to \<open>x\<close>, the result for \<open>pre @ [f]\<close> is
  exactly the result so far with the fragment \<^verbatim>\<open>(#f{i} {op} :f{i}v)\<close> appended, \<^verbatim>\<open>#f{i}\<close>
  bound to the attribute name and the one token \<^verbatim>\<open>:f{i}v\<close> bound to \<open>x\<close>, and every result
  for \<open>pre @ f # post\<close> has the fragment at position \<open>i\<close> of the conjunction, followed by
  one fragment for each later filter, and binds \<^verbatim>\<open>:f{i}v\<close> to \<open>x\<close>. When the coercion
  fails, the compilation fails with the coercion's error. The operator is \<^verbatim>\<open>=\<close>, \<^verbatim>\<open><>\<close>,
  \<^verbatim>\<open><\<close>, \<^verbatim>\<open><=\<close>, \<^verbatim>\<open>>\<close>, \<^verbatim>\<open>>=\<close> for the six conditions in order.
\<close>

theorem C6_comparison:
  assumes cond: "f_condition f \<in> set comparison_conditions"
    and pre: "filters_loop rt 0 pre initial_state = Inr st"
  shows "(f_type f = T_SS \<or> f_type f = T_NS
            \<longrightarrow> generateDynamoFilterAttributes rt (pre @ f # post)
                = Inl (Error (''Comparator '' @ quoted (condition_str (f_condition f))
                              @ '' is not supported for '' @ type_str (f_type f)
                              @ ''; use CONTAINS/NOT_CONTAINS'')))
       \<and> (f_type f \<noteq> T_SS \<and> f_type f \<noteq> T_NS \<and> f_value f = None
            \<longrightarrow> generateDynamoFilterAttributes rt (pre @ f # post)
                = Inl (Error (condition_str (f_condition f) @ '' requires value for filter[''
                              @ show_nat (length pre) @ '']'')))
       \<and> (\<forall>v x.
             f_type f \<noteq> T_SS \<and> f_type f \<noteq> T_NS \<and> f_value f = Some v
             \<and> parseValueByType rt (f_type f) v = Inr x
            \<longrightarrow> generateDynamoFilterAttributes rt (pre @ [f])
                  = Inr (Some
                      \<lparr> filterExpression = join '' AND '' (st_parts st @
                          [''(#f'' @ show_nat (length pre) @ '' ''
                           @ spec_operator (f_condition f)
                           @ '' :f'' @ show_nat (length pre) @ ''v)'']),
                        expressionAttributeNames =
                          AList.update (''#f'' @ show_nat (length pre)) (f_name f) (st_names st),
                        expressionAttributeValues =
                          AList.update ('':f'' @ show_nat (length pre) @ ''v'') x
                            (st_values st) \<rparr>)
              \<and> (\<forall>r. generateDynamoFilterAttributes rt (pre @ f # post) = Inr (Some r)
                    \<longrightarrow> (\<exists>rest. length rest = length post
                           \<and> filterExpression r = join '' AND '' (st_parts st @
                               [''(#f'' @ show_nat (length pre) @ '' ''
                                @ spec_operator (f_condition f)
                                @ '' :f'' @ show_nat (length pre) @ ''v)''] @ rest))
                        \<and> map_of (expressionAttributeValues r)
                             ('':f'' @ show_nat (length pre) @ ''v'') = Some x))
       \<and> (\<forall>v e.
             f_type f \<noteq> T_SS \<and> f_type f \<noteq> T_NS \<and> f_value f = Some v
             \<and> parseValueByType rt (f_type f) v = Inl e
            \<longrightarrow> generateDynamoFilterAttributes rt (pre @ f # post) = Inl e)
       \<and> spec_operator EQUAL_TO = ''='' \<and> spec_operator NOT_EQUAL_TO = ''<>''
       \<and> spec_operator LESS_THAN = ''<'' \<and> spec_operator LESS_THAN_OR_EQUAL_TO = ''<=''
       \<and> spec_operator GREATER_THAN = ''>'' \<and> spec_operator GREATER_THAN_OR_EQUAL_TO = ''>=''"
proof -
  note step = filter_step_comparison [OF cond refl, of rt "length pre" st]
  let ?i = "show_nat (length pre)"
  let ?frag = "''(#f'' @ ?i @ '' '' @ spec_operator (f_condition f) @ '' :f'' @ ?i @ ''v)''"
  have a: "f_type f = T_SS \<or> f_type f = T_NS
            \<longrightarrow> generateDynamoFilterAttributes rt (pre @ f # post)
                = Inl (Error (''Comparator '' @ quoted (condition_str (f_condition f))
                              @ '' is not supported for '' @ type_str (f_type f)
                              @ ''; use CONTAINS/NOT_CONTAINS''))"
  proof
    assume "f_type f = T_SS \<or> f_type f = T_NS"
    then have "filter_step rt (length pre) f st
               = Inl (Error (''Comparator '' @ quoted (condition_str (f_condition f))
                              @ '' is not supported for '' @ type_str (f_type f)
                              @ ''; use CONTAINS/NOT_CONTAINS''))"
      using step by simp
    then show "generateDynamoFilterAttributes rt (pre @ f # post)
                = Inl (Error (''Comparator '' @ quoted (condition_str (f_condition f))
                              @ '' is not supported for '' @ type_str (f_type f)
                              @ ''; use CONTAINS/NOT_CONTAINS''))"
      by (rule generate_abort [OF pre])
  qed
  have b: "f_type f \<noteq> T_SS \<and> f_type f \<noteq> T_NS \<and> f_value f = None
            \<longrightarrow> generateDynamoFilterAttributes rt (pre @ f # post)
                = Inl (Error (condition_str (f_condition f) @ '' requires value for filter[''
                              @ show_nat (length pre) @ '']''))"
  proof
    assume "f_type f \<noteq> T_SS \<and> f_type f \<noteq> T_NS \<and> f_value f = None"
    then have "filter_step rt (length pre) f st
               = Inl (Error (condition_str (f_condition f) @ '' requires value for filter[''
                              @ show_nat (length pre) @ '']''))"
      using step by (simp add: requireValue_def)
    then show "generateDynamoFilterAttributes rt (pre @ f # post)
                = Inl (Error (condition_str (f_condition f) @ '' requires value for filter[''
                              @ show_nat (length pre) @ '']''))"
      by (rule generate_abort [OF pre])
  qed
  have c: "\<forall>v x.
             f_type f \<noteq> T_SS \<and> f_type f \<noteq> T_NS \<and> f_value f = Some v
             \<and> parseValueByType rt (f_type f) v = Inr x
            \<longrightarrow> generateDynamoFilterAttributes rt (pre @ [f])
                  = Inr (Some
                      \<lparr> filterExpression = join '' AND '' (st_parts st @ [?frag]),
                        expressionAttributeNames =
                          AList.update (''#f'' @ ?i) (f_name f) (st_names st),
                        expressionAttributeValues =
                          AList.update ('':f'' @ ?i @ ''v'') x (st_values st) \<rparr>)
              \<and> (\<forall>r. generateDynamoFilterAttributes rt (pre @ f # post) = Inr (Some r)
                    \<longrightarrow> (\<exists>rest. length rest = length post
                           \<and> filterExpression r
                               = join '' AND '' (st_parts st @ [?frag] @ rest))
                        \<and> map_of (expressionAttributeValues r) ('':f'' @ ?i @ ''v'') = Some x)"
  proof (intro allI impI)
    fix v x
    assume h: "f_type f \<noteq> T_SS \<and> f_type f \<noteq> T_NS \<and> f_value f = Some v
               \<and> parseValueByType rt (f_type f) v = Inr x"
    let ?vals = "AList.update ('':f'' @ ?i @ ''v'') x (st_values st)"
    let ?st1 = "st\<lparr> st_names := AList.update (''#f'' @ ?i) (f_name f) (st_names st),
                    st_values := ?vals, st_parts := st_parts st @ [?frag] \<rparr>"
    have s: "filter_step rt (length pre) f st = Inr ?st1"
      using h step comparison_op_spec [OF cond]
      by (simp add: requireValue_def makeNameToken_def makeValueToken_def)
    have m: "map_of ?vals ('':f'' @ ?i @ ''v'') = Some x"
      by (simp add: update_conv')
    have one: "generateDynamoFilterAttributes rt (pre @ [f])
        = Inr (Some \<lparr> filterExpression = join '' AND '' (st_parts st @ [?frag]),
                      expressionAttributeNames =
                        AList.update (''#f'' @ ?i) (f_name f) (st_names st),
                      expressionAttributeValues = ?vals \<rparr>)"
      using generate_last [OF pre s] by simp
    have more: "\<forall>r. generateDynamoFilterAttributes rt (pre @ f # post) = Inr (Some r)
                    \<longrightarrow> (\<exists>rest. length rest = length post
                           \<and> filterExpression r
                               = join '' AND '' (st_parts st @ [?frag] @ rest))
                        \<and> map_of (expressionAttributeValues r) ('':f'' @ ?i @ ''v'') = Some x"
    proof (intro allI impI conjI)
      fix r
      assume g: "generateDynamoFilterAttributes rt (pre @ f # post) = Inr (Some r)"
      from generate_after_step(1) [OF pre s g]
      show "\<exists>rest. length rest = length post
              \<and> filterExpression r = join '' AND '' (st_parts st @ [?frag] @ rest)"
        by simp
      from generate_after_step(2) [OF pre s g, of "[]"] m
      show "map_of (expressionAttributeValues r) ('':f'' @ ?i @ ''v'') = Some x"
        by (simp add: makeValueToken_def)
    qed
    from one more
    show "generateDynamoFilterAttributes rt (pre @ [f])
                  = Inr (Some
                      \<lparr> filterExpression = join '' AND '' (st_parts st @ [?frag]),
                        expressionAttributeNames =
                          AList.update (''#f'' @ ?i) (f_name f) (st_names st),
                        expressionAttributeValues =
                          AList.update ('':f'' @ ?i @ ''v'') x (st_values st) \<rparr>)
              \<and> (\<forall>r. generateDynamoFilterAttributes rt (pre @ f # post) = Inr (Some r)
                    \<longrightarrow> (\<exists>rest. length rest = length post
                           \<and> filterExpression r
                               = join '' AND '' (st_parts st @ [?frag] @ rest))
                        \<and> map_of (expressionAttributeValues r) ('':f'' @ ?i @ ''v'') = Some x)"
      by (rule conjI)
  qed
  have e: "\<forall>v e.
             f_type f \<noteq> T_SS \<and> f_type f \<noteq> T_NS \<and> f_value f = Some v
             \<and> parseValueByType rt (f_type f) v = Inl e
            \<longrightarrow> generateDynamoFilterAttributes rt (pre @ f # post) = Inl e"
  proof (intro allI impI)
    fix v e
    assume "f_type f \<noteq> T_SS \<and> f_type f \<noteq> T_NS \<and> f_value f = Some v
             \<and> parseValueByType rt (f_type f) v = Inl e"
    then have "filter_step rt (length pre) f st = Inl e"
      using step by (simp add: requireValue_def)
    then show "generateDynamoFilterAttributes rt (pre @ f # post) = Inl e"
      by (rule generate_abort [OF pre])
  qed
  have d: "spec_operator EQUAL_TO = ''='' \<and> spec_operator NOT_EQUAL_TO = ''<>''
       \<and> spec_operator LESS_THAN = ''<'' \<and> spec_operator LESS_THAN_OR_EQUAL_TO = ''<=''
       \<and> spec_operator GREATER_THAN = ''>'' \<and> spec_operator GREATER_THAN_OR_EQUAL_TO = ''>=''"
    by (simp add: spec_operator_def)
  from a b c e d show ?thesis by (intro conjI) simp_all
qed

lemma set_elements_loop_ok:
  assumes "\<forall>v\<in>set vs. \<exists>x. parseSetElement rt ty v = Inr x"
  shows "\<exists>vals'. set_elements_loop rt ty i vs j vals orParts
           = Inr (vals', orParts @
               map (\<lambda>k. ''contains(#f'' @ show_nat i @ '', :f'' @ show_nat i @ ''vs'' @ show_nat k @ '')'')
                 [j..<j + length vs])"
  using assms
proof (induction vs arbitrary: j vals orParts)
  case Nil
  then show ?case by simp
next
  case (Cons v vs)
  from Cons.prems obtain x where x: "parseSetElement rt ty v = Inr x" by auto
  have rest: "\<forall>v\<in>set vs. \<exists>x. parseSetElement rt ty v = Inr x" using Cons.prems by simp
  have u: "[j..<j + length (v # vs)] = j # [Suc j..<Suc j + length vs]"
    by (subst upt_rec) simp
  let ?tok = "makeValueToken i (''vs'' @ show_nat j)"
  let ?part = "''contains('' @ makeNameToken i @ '', '' @ ?tok @ '')''"
  from Cons.IH [OF rest, of "Suc j" "AList.update ?tok x vals" "orParts @ [?part]"]
  obtain vals' where IH: "set_elements_loop rt ty i vs (Suc j) (AList.update ?tok x vals)
        (orParts @ [?part])
      = Inr (vals', (orParts @ [?part]) @
          map (\<lambda>k. ''contains(#f'' @ show_nat i @ '', :f'' @ show_nat i @ ''vs'' @ show_nat k @ '')'')
            [Suc j..<Suc j + length vs])"
    by blast
  have p: "?part = ''contains(#f'' @ show_nat i @ '', :f'' @ show_nat i @ ''vs'' @ show_nat j @ '')''"
    by (simp add: makeNameToken_def makeValueToken_def)
  have "set_elements_loop rt ty i (v # vs) j vals orParts
      = Inr (vals', orParts @
          map (\<lambda>k. ''contains(#f'' @ show_nat i @ '', :f'' @ show_nat i @ ''vs'' @ show_nat k @ '')'')
            [j..<j + length (v # vs)])"
    unfolding u using IH p by (simp add: x Let_def)
  then show ?case by blast
qed

lemma filter_step_contains_one:
  assumes "f_condition f = CONTAINS" "f_type f = T_SS \<or> f_type f = T_NS"
    "f_values f = Some [a]" "parseSetElement rt (f_type f) a = Inr x"
  shows "filter_step rt 0 f initial_state
         = Inr \<lparr> st_names = [(''#f0'', f_name f)], st_values = [('':f0vs0'', x)],
                 st_parts = [''(contains(#f0, :f0vs0))''] \<rparr>"
  using assms
  by (auto simp: filter_step_def Let_def initial_state_def makeNameToken_def makeValueToken_def
      show_nat_0)

lemma filter_step_contains_two:
  assumes "f_condition f = CONTAINS" "f_type f = T_SS \<or> f_type f = T_NS"
    "f_values f = Some [a, b]" "parseSetElement rt (f_type f) a = Inr x"
    "parseSetElement rt (f_type f) b = Inr y"
  shows "filter_step rt 0 f initial_state
         = Inr \<lparr> st_names = [(''#f0'', f_name f)],
                 st_values = [('':f0vs0'', x), ('':f0vs1'', y)],
                 st_parts = [''((contains(#f0, :f0vs0) OR contains(#f0, :f0vs1)))''] \<rparr>"
  using assms
  by (auto simp: filter_step_def Let_def initial_state_def makeNameToken_def makeValueToken_def
      show_nat_0 show_nat_1)

lemma filter_step_not_contains_scalar:
  assumes "f_condition f = NOT_CONTAINS" "f_type f \<noteq> T_SS" "f_type f \<noteq> T_NS"
    "f_value f = Some v" "parseValueByType rt (f_type f) v = Inr x"
  shows "filter_step rt 0 f initial_state
         = Inr \<lparr> st_names = [(''#f0'', f_name f)], st_values = [('':f0v'', x)],
                 st_parts = [''NOT contains(#f0, :f0v)''] \<rparr>"
  using assms
  by (auto simp: filter_step_def Let_def initial_state_def makeNameToken_def makeValueToken_def
      show_nat_0 requireValue_def)

lemma filter_step_not_contains_set:
  assumes "f_condition f = NOT_CONTAINS" "f_type f = T_SS \<or> f_type f = T_NS"
    "f_values f = Some vs" "vs \<noteq> []"
    "\<forall>v\<in>set vs. \<exists>x. parseSetElement rt (f_type f) v = Inr x"
  shows "\<exists>vals'. filter_step rt 0 f initial_state
         = Inr \<lparr> st_names = [(''#f0'', f_name f)], st_values = vals',
                 st_parts = [''(NOT ('' @ join '' OR ''
                    (map (\<lambda>j. ''contains(#f0, :f0vs'' @ show_nat j @ '')'') [0..<length vs])
                    @ ''))''] \<rparr>"
proof -
  from set_elements_loop_ok [OF assms(5), of 0 0 "[]" "[]"]
  obtain vals' where l: "set_elements_loop rt (f_type f) 0 vs 0 [] []
      = Inr (vals', map (\<lambda>k. ''contains(#f0, :f0vs'' @ show_nat k @ '')'') [0..<length vs])"
    by (auto simp: show_nat_0)
  show ?thesis
    using assms(1-4) l
    by (auto simp: filter_step_def Let_def initial_state_def makeNameToken_def show_nat_0)
qed

text \<open>
  Claim C4, for the filter at index 0 whose operands are coerced without error.
  \<^verbatim>\<open>CONTAINS\<close> on a set type with one element renders \<^verbatim>\<open>(contains(#f0, :f0vs0))\<close>, with
  two elements \<^verbatim>\<open>((contains(#f0, :f0vs0) OR contains(#f0, :f0vs1)))\<close>; \<^verbatim>\<open>NOT_CONTAINS\<close> on
  a scalar type renders \<^verbatim>\<open>NOT contains(#f0, :f0v)\<close> with no parentheses around it, and on
  a set type \<^verbatim>\<open>(NOT (contains(...) OR contains(...)))\<close>. Each is shown for the first loop
  iteration and for the compilation of the one-filter list.
\<close>

theorem C4_contains_rendering:
  "(f_condition f = CONTAINS \<and> (f_type f = T_SS \<or> f_type f = T_NS) \<and> f_values f = Some [a]
      \<and> parseSetElement rt (f_type f) a = Inr x
     \<longrightarrow> filter_step rt 0 f initial_state
           = Inr \<lparr> st_names = [(''#f0'', f_name f)], st_values = [('':f0vs0'', x)],
                   st_parts = [''(contains(#f0, :f0vs0))''] \<rparr>
       \<and> generateDynamoFilterAttributes rt [f]
           = Inr (Some \<lparr> filterExpression = ''(contains(#f0, :f0vs0))'',
                         expressionAttributeNames = [(''#f0'', f_name f)],
                         expressionAttributeValues = [('':f0vs0'', x)] \<rparr>))
 \<and> (f_condition f = CONTAINS \<and> (f_type f = T_SS \<or> f_type f = T_NS) \<and> f_values f = Some [a, b]
      \<and> parseSetElement rt (f_type f) a = Inr x \<and> parseSetElement rt (f_type f) b = Inr y
     \<longrightarrow> filter_step rt 0 f initial_state
           = Inr \<lparr> st_names = [(''#f0'', f_name f)],
                   st_values = [('':f0vs0'', x), ('':f0vs1'', y)],
                   st_parts = [''((contains(#f0, :f0vs0) OR contains(#f0, :f0vs1)))''] \<rparr>
       \<and> generateDynamoFilterAttributes rt [f]
           = Inr (Some \<lparr> filterExpression = ''((contains(#f0, :f0vs0) OR contains(#f0, :f0vs1)))'',
                         expressionAttributeNames = [(''#f0'', f_name f)],
                         expressionAttributeValues = [('':f0vs0'', x), ('':f0vs1'', y)] \<rparr>))
 \<and> (f_condition f = NOT_CONTAINS \<and> f_type f \<noteq> T_SS \<and> f_type f \<noteq> T_NS \<and> f_value f = Some v
      \<and> parseValueByType rt (f_type f) v = Inr x
     \<longrightarrow> filter_step rt 0 f initial_state
           = Inr \<lparr> st_names = [(''#f0'', f_name f)], st_values = [('':f0v'', x)],
                   st_parts = [''NOT contains(#f0, :f0v)''] \<rparr>
       \<and> generateDynamoFilterAttributes rt [f]
           = Inr (Some \<lparr> filterExpression = ''NOT contains(#f0, :f0v)'',
                         expressionAttributeNames = [(''#f0'', f_name f)],
                         expressionAttributeValues = [('':f0v'', x)] \<rparr>))
 \<and> (f_condition f = NOT_CONTAINS \<and> (f_type f = T_SS \<or> f_type f = T_NS) \<and> f_values f = Some vs
      \<and> vs \<noteq> [] \<and> (\<forall>e\<in>set vs. \<exists>x. parseSetElement rt (f_type f) e = Inr x)
     \<longrightarrow> (\<exists>vals'.
           filter_step rt 0 f initial_state
             = Inr \<lparr> st_names = [(''#f0'', f_name f)], st_values = vals',
                     st_parts = [''(NOT ('' @ join '' OR ''
                        (map (\<lambda>j. ''contains(#f0, :f0vs'' @ show_nat j @ '')'') [0..<length vs])
                        @ ''))''] \<rparr>
         \<and> generateDynamoFilterAttributes rt [f]
             = Inr (Some \<lparr> filterExpression = ''(NOT ('' @ join '' OR ''
                        (map (\<lambda>j. ''contains(#f0, :f0vs'' @ show_nat j @ '')'') [0..<length vs])
                        @ ''))'',
                           expressionAttributeNames = [(''#f0'', f_name f)],
                           expressionAttributeValues = vals' \<rparr>)))"
proof (intro conjI impI)
  assume h: "f_condition f = CONTAINS \<and> (f_type f = T_SS \<or> f_type f = T_NS)
      \<and> f_values f = Some [a] \<and> parseSetElement rt (f_type f) a = Inr x"
  then have s: "filter_step rt 0 f initial_state
           = Inr \<lparr> st_names = [(''#f0'', f_name f)], st_values = [('':f0vs0'', x)],
                   st_parts = [''(contains(#f0, :f0vs0))''] \<rparr>"
    using filter_step_contains_one [of f a rt x] by blast
  show "filter_step rt 0 f initial_state
           = Inr \<lparr> st_names = [(''#f0'', f_name f)], st_values = [('':f0vs0'', x)],
                   st_parts = [''(contains(#f0, :f0vs0))''] \<rparr>"
    by (rule s)
  show "generateDynamoFilterAttributes rt [f]
           = Inr (Some \<lparr> filterExpression = ''(contains(#f0, :f0vs0))'',
                         expressionAttributeNames = [(''#f0'', f_name f)],
                         expressionAttributeValues = [('':f0vs0'', x)] \<rparr>)"
    by (simp add: generate_single s)
next
  assume h: "f_condition f = CONTAINS \<and> (f_type f = T_SS \<or> f_type f = T_NS)
      \<and> f_values f = Some [a, b]
      \<and> parseSetElement rt (f_type f) a = Inr x \<and> parseSetElement rt (f_type f) b = Inr y"
  then have s: "filter_step rt 0 f initial_state
           = Inr \<lparr> st_names = [(''#f0'', f_name f)],
                   st_values = [('':f0vs0'', x), ('':f0vs1'', y)],
                   st_parts = [''((contains(#f0, :f0vs0) OR contains(#f0, :f0vs1)))''] \<rparr>"
    using filter_step_contains_two [of f a b rt x y] by blast
  show "filter_step rt 0 f initial_state
           = Inr \<lparr> st_names = [(''#f0'', f_name f)],
                   st_values = [('':f0vs0'', x), ('':f0vs1'', y)],
                   st_parts = [''((contains(#f0, :f0vs0) OR contains(#f0, :f0vs1)))''] \<rparr>"
    by (rule s)
  show "generateDynamoFilterAttributes rt [f]
           = Inr (Some \<lparr> filterExpression = ''((contains(#f0, :f0vs0) OR contains(#f0, :f0vs1)))'',
                         expressionAttributeNames = [(''#f0'', f_name f)],
                         expressionAttributeValues = [('':f0vs0'', x), ('':f0vs1'', y)] \<rparr>)"
    by (simp add: generate_single s)
next
  assume h: "f_condition f = NOT_CONTAINS \<and> f_type f \<noteq> T_SS \<and> f_type f \<noteq> T_NS
      \<and> f_value f = Some v \<and> parseValueByType rt (f_type f) v = Inr x"
  then have s: "filter_step rt 0 f initial_state
           = Inr \<lparr> st_names = [(''#f0'', f_name f)], st_values = [('':f0v'', x)],
                   st_parts = [''NOT contains(#f0, :f0v)''] \<rparr>"
    using filter_step_not_contains_scalar [of f v rt x] by blast
  show "filter_step rt 0 f initial_state
           = Inr \<lparr> st_names = [(''#f0'', f_name f)], st_values = [('':f0v'', x)],
                   st_parts = [''NOT contains(#f0, :f0v)''] \<rparr>"
    by (rule s)
  show "generateDynamoFilterAttributes rt [f]
           = Inr (Some \<lparr> filterExpression = ''NOT contains(#f0, :f0v)'',
                         expressionAttributeNames = [(''#f0'', f_name f)],
                         expressionAttributeValues = [('':f0v'', x)] \<rparr>)"
    by (simp add: generate_single s)
next
  assume h: "f_condition f = NOT_CONTAINS \<and> (f_type f = T_SS \<or> f_type f = T_NS)
      \<and> f_values f = Some vs \<and> vs \<noteq> []
      \<and> (\<forall>e\<in>set vs. \<exists>x. parseSetElement rt (f_type f) e = Inr x)"
  then obtain vals' where s: "filter_step rt 0 f initial_state
             = Inr \<lparr> st_names = [(''#f0'', f_name f)], st_values = vals',
                     st_parts = [''(NOT ('' @ join '' OR ''
                        (map (\<lambda>j. ''contains(#f0, :f0vs'' @ show_nat j @ '')'') [0..<length vs])
                        @ ''))''] \<rparr>"
    using filter_step_not_contains_set [of f vs rt] by blast
  show "\<exists>vals'.
           filter_step rt 0 f initial_state
             = Inr \<lparr> st_names = [(''#f0'', f_name f)], st_values = vals',
                     st_parts = [''(NOT ('' @ join '' OR ''
                        (map (\<lambda>j. ''contains(#f0, :f0vs'' @ show_nat j @ '')'') [0..<length vs])
                        @ ''))''] \<rparr>
         \<and> generateDynamoFilterAttributes rt [f]
             = Inr (Some \<lparr> filterExpression = ''(NOT ('' @ join '' OR ''
                        (map (\<lambda>j. ''contains(#f0, :f0vs'' @ show_nat j @ '')'') [0..<length vs])
                        @ ''))'',
                           expressionAttributeNames = [(''#f0'', f_name f)],
                           expressionAttributeValues = vals' \<rparr>)"
    by (rule exI [of _ vals']) (simp add: generate_single s)
qed


lemma set_elements_loop_fail:
  assumes "\<exists>v\<in>set vs. \<not> isFinite (Number rt v)"
  shows "set_elements_loop rt T_NS i vs j vals orParts
         = Inl (Error (''Invalid numeric value ''
                       @ quoted (hd (dropWhile (\<lambda>v. isFinite (Number rt v)) vs))
                       @ '' for type NS element''))"
  using assms
proof (induction vs arbitrary: j vals orParts)
  case Nil
  then show ?case by simp
next
  case (Cons v vs)
  show ?case
  proof (cases "isFinite (Number rt v)")
    case True
    then have "\<exists>v\<in>set vs. \<not> isFinite (Number rt v)" using Cons.prems by auto
    from Cons.IH [OF this] True show ?thesis
      by (simp add: parseSetElement_def Let_def)
  next
    case False
    then show ?thesis by (simp add: parseSetElement_def Let_def)
  qed
qed

lemma filter_step_NS_fail:
  assumes "f_condition f = CONTAINS \<or> f_condition f = NOT_CONTAINS" "f_type f = T_NS"
    "f_values f = Some vs" "\<exists>v\<in>set vs. \<not> isFinite (Number rt v)"
  shows "filter_step rt i f st
         = Inl (Error (''Invalid numeric value ''
                       @ quoted (hd (dropWhile (\<lambda>v. isFinite (Number rt v)) vs))
                       @ '' for type NS element''))"
proof -
  have ne: "vs \<noteq> []" using assms(4) by auto
  show ?thesis
    using assms(1-3) ne set_elements_loop_fail [OF assms(4)]
    by (auto simp: filter_step_def Let_def)
qed

text \<open>
  Claim C9. Coercing a raw attribute value of type NS splits it at commas, applies
  \<^verbatim>\<open>Number\<close> to each trimmed piece and keeps exactly the results that are not NaN; it
  never fails. The set-element coercion of a \<^verbatim>\<open>CONTAINS\<close> or \<^verbatim>\<open>NOT_CONTAINS\<close> filter of
  type NS accepts an element only if \<^verbatim>\<open>Number\<close> gives a finite value, and one element
  that does not parse makes the whole compilation fail with the invalid-numeric message
  naming the first such element.
\<close>

theorem C9_number_set_coercions:
  "parseDynamoKeyValue rt key ''NS''
     = Inr (JArr (map JNum (filter (\<lambda>n. \<not> isNaN n)
                    (map (\<lambda>item. Number rt (trim item)) (split_on CHR '','' key)))))
   \<and> (parseDynamoKeyValue rt key ''NS'' = Inr (JArr ns) \<longrightarrow> JNum NaN \<notin> set ns)
   \<and> (parseSetElement rt T_NS raw
        = (if isFinite (Number rt raw) then Inr (JNum (Number rt raw))
           else Inl (Error (''Invalid numeric value '' @ quoted raw @ '' for type NS element''))))
   \<and> (isNaN (Number rt raw) \<longrightarrow>
        parseSetElement rt T_NS raw
          = Inl (Error (''Invalid numeric value '' @ quoted raw @ '' for type NS element'')))
   \<and> ((f_condition f = CONTAINS \<or> f_condition f = NOT_CONTAINS) \<and> f_type f = T_NS
        \<and> f_values f = Some vs \<and> (\<exists>v\<in>set vs. \<not> isFinite (Number rt v))
        \<and> filters_loop rt 0 pre initial_state = Inr st
       \<longrightarrow> generateDynamoFilterAttributes rt (pre @ f # post)
           = Inl (Error (''Invalid numeric value ''
                         @ quoted (hd (dropWhile (\<lambda>v. isFinite (Number rt v)) vs))
                         @ '' for type NS element'')))"
proof (intro conjI allI impI)
  show k: "parseDynamoKeyValue rt key ''NS''
     = Inr (JArr (map JNum (filter (\<lambda>n. \<not> isNaN n)
                    (map (\<lambda>item. Number rt (trim item)) (split_on CHR '','' key)))))"
    by (simp add: parseDynamoKeyValue_def)
  assume "parseDynamoKeyValue rt key ''NS'' = Inr (JArr ns)"
  then show "JNum NaN \<notin> set ns"
    unfolding k by (auto simp: isNaN_def)
next
  show "parseSetElement rt T_NS raw
        = (if isFinite (Number rt raw) then Inr (JNum (Number rt raw))
           else Inl (Error (''Invalid numeric value '' @ quoted raw @ '' for type NS element'')))"
    by (simp add: parseSetElement_def Let_def)
next
  assume "isNaN (Number rt raw)"
  then show "parseSetElement rt T_NS raw
          = Inl (Error (''Invalid numeric value '' @ quoted raw @ '' for type NS element''))"
    by (simp add: parseSetElement_def Let_def isNaN_def isFinite_def)
next
  assume h: "(f_condition f = CONTAINS \<or> f_condition f = NOT_CONTAINS) \<and> f_type f = T_NS
        \<and> f_values f = Some vs \<and> (\<exists>v\<in>set vs. \<not> isFinite (Number rt v))
        \<and> filters_loop rt 0 pre initial_state = Inr st"
  then have "filter_step rt (length pre) f st
         = Inl (Error (''Invalid numeric value ''
                       @ quoted (hd (dropWhile (\<lambda>v. isFinite (Number rt v)) vs))
                       @ '' for type NS element''))"
    using filter_step_NS_fail [of f vs rt "length pre" st] by blast
  with h show "generateDynamoFilterAttributes rt (pre @ f # post)
           = Inl (Error (''Invalid numeric value ''
                         @ quoted (hd (dropWhile (\<lambda>v. isFinite (Number rt v)) vs))
                         @ '' for type NS element''))"
    using generate_abort [of rt pre st f _ post] by blast
qed

section \<open>The filter compiler at concrete filters\<close>

lemmas eval_filter =
  generateDynamoFilterAttributes_def initial_state_def filter_step_def requireValue_def
  parseValueByType_def parseSetElement_def makeNameToken_def makeValueToken_def
  show_nat.simps digit_char_def comparison_op_def sample_runtime_def sample_Number_def
  isFinite_def quoted_def

lemma sample_prefix_state:
  "filters_loop sample_runtime 0 [sample_greater] initial_state
   = Inr \<lparr> st_names = [(''#f0'', ''age'')], st_values = [('':f0v'', JNum (Finite 18))],
           st_parts = [''(#f0 > :f0v)''] \<rparr>"
  by (simp add: eval_filter sample_greater_def)

lemma sample_three_filters:
  "generateDynamoFilterAttributes sample_runtime [sample_greater, sample_between, sample_contains]
   = Inr (Some \<lparr> filterExpression
                   = ''(#f0 > :f0v) AND (#f1 BETWEEN :f1v AND :f1v2) AND (contains(#f2, :f2vs0))'',
                 expressionAttributeNames
                   = [(''#f0'', ''age''), (''#f1'', ''age''), (''#f2'', ''tags'')],
                 expressionAttributeValues
                   = [('':f0v'', JNum (Finite 18)), ('':f1v'', JNum (Finite 1)),
                      ('':f1v2'', JNum (Finite 5)), ('':f2vs0'', JStr ''a'')] \<rparr>)"
  by (simp add: eval_filter sample_greater_def sample_between_def sample_contains_def)

lemma sample_three_comparisons:
  "generateDynamoFilterAttributes sample_runtime [sample_between, sample_greater, sample_contains]
   = Inr (Some \<lparr> filterExpression
                   = ''(#f0 BETWEEN :f0v AND :f0v2) AND (#f1 > :f1v) AND (contains(#f2, :f2vs0))'',
                 expressionAttributeNames
                   = [(''#f0'', ''age''), (''#f1'', ''age''), (''#f2'', ''tags'')],
                 expressionAttributeValues
                   = [('':f0v'', JNum (Finite 1)), ('':f0v2'', JNum (Finite 5)),
                      ('':f1v'', JNum (Finite 18)), ('':f2vs0'', JStr ''a'')] \<rparr>)"
  by (simp add: eval_filter sample_greater_def sample_between_def sample_contains_def)

lemma sample_prefix_state_between:
  "filters_loop sample_runtime 0 [sample_between] initial_state
   = Inr \<lparr> st_names = [(''#f0'', ''age'')],
           st_values = [('':f0v'', JNum (Finite 1)), ('':f0v2'', JNum (Finite 5))],
           st_parts = [''(#f0 BETWEEN :f0v AND :f0v2)''] \<rparr>"
  by (simp add: eval_filter sample_between_def)

theorem C5_between_witness:
  "f_condition sample_between = BETWEEN
   \<and> filters_loop sample_runtime 0 [sample_greater] initial_state
       = Inr \<lparr> st_names = [(''#f0'', ''age'')], st_values = [('':f0v'', JNum (Finite 18))],
               st_parts = [''(#f0 > :f0v)''] \<rparr>
   \<and> generateDynamoFilterAttributes sample_runtime
        ([sample_greater] @ sample_between\<lparr>f_value2 := None\<rparr> # [sample_contains])
       = Inl (Error ''BETWEEN requires value and value2 for filter[1]'')
   \<and> generateDynamoFilterAttributes sample_runtime
        ([sample_greater] @ sample_between\<lparr>f_type := T_SS\<rparr> # [sample_contains])
       = Inl (Error ''BETWEEN is not valid for type SS (filter[1])'')
   \<and> parseValueByType sample_runtime T_N ''1'' = Inr (JNum (Finite 1))
   \<and> parseValueByType sample_runtime T_N ''5'' = Inr (JNum (Finite 5))
   \<and> generateDynamoFilterAttributes sample_runtime ([sample_greater] @ [sample_between])
       = Inr (Some \<lparr> filterExpression = ''(#f0 > :f0v) AND (#f1 BETWEEN :f1v AND :f1v2)'',
                     expressionAttributeNames = [(''#f0'', ''age''), (''#f1'', ''age'')],
                     expressionAttributeValues
                       = [('':f0v'', JNum (Finite 18)), ('':f1v'', JNum (Finite 1)),
                          ('':f1v2'', JNum (Finite 5))] \<rparr>)
   \<and> (\<exists>r. generateDynamoFilterAttributes sample_runtime
              ([sample_greater] @ sample_between # [sample_contains]) = Inr (Some r)
         \<and> (\<exists>rest. length rest = 1
               \<and> filterExpression r
                   = join '' AND '' ([''(#f0 > :f0v)'', ''(#f1 BETWEEN :f1v AND :f1v2)''] @ rest))
         \<and> map_of (expressionAttributeValues r) '':f1v'' = Some (JNum (Finite 1))
         \<and> map_of (expressionAttributeValues r) '':f1v2'' = Some (JNum (Finite 5)))
   \<and> parseValueByType sample_runtime T_N ''x''
       = Inl (Error (''Invalid numeric value '' @ quoted ''x'' @ '' for type N''))
   \<and> generateDynamoFilterAttributes sample_runtime
        ([sample_greater] @ sample_between\<lparr>f_value := Some ''x''\<rparr> # [sample_contains])
       = Inl (Error (''Invalid numeric value '' @ quoted ''x'' @ '' for type N''))"
proof -
  note pre = sample_prefix_state
  have c: "f_condition sample_between = BETWEEN"
    "f_condition (sample_between\<lparr>f_value2 := None\<rparr>) = BETWEEN"
    "f_condition (sample_between\<lparr>f_type := T_SS\<rparr>) = BETWEEN"
    "f_condition (sample_between\<lparr>f_value := Some ''x''\<rparr>) = BETWEEN"
    by (simp_all add: sample_between_def)
  have p1: "parseValueByType sample_runtime T_N ''1'' = Inr (JNum (Finite 1))"
    and p5: "parseValueByType sample_runtime T_N ''5'' = Inr (JNum (Finite 5))"
    and px: "parseValueByType sample_runtime T_N ''x''
             = Inl (Error (''Invalid numeric value '' @ quoted ''x'' @ '' for type N''))"
    by (simp_all add: parseValueByType_def sample_runtime_def sample_Number_def isFinite_def)
  have a: "generateDynamoFilterAttributes sample_runtime
             ([sample_greater] @ sample_between\<lparr>f_value2 := None\<rparr> # [sample_contains])
           = Inl (Error ''BETWEEN requires value and value2 for filter[1]'')"
    using C5_between [OF c(2) pre, where post = "[sample_contains]", THEN conjunct1]
    by (simp add: sample_between_def show_nat_1)
  have b: "generateDynamoFilterAttributes sample_runtime
             ([sample_greater] @ sample_between\<lparr>f_type := T_SS\<rparr> # [sample_contains])
           = Inl (Error ''BETWEEN is not valid for type SS (filter[1])'')"
    using C5_between [OF c(3) pre, where post = "[sample_contains]",
        THEN conjunct2, THEN conjunct1]
    by (simp add: sample_between_def show_nat_1)
  have g: "generateDynamoFilterAttributes sample_runtime
             ([sample_greater] @ sample_between # [sample_contains])
           = Inr (Some \<lparr> filterExpression
                   = ''(#f0 > :f0v) AND (#f1 BETWEEN :f1v AND :f1v2) AND (contains(#f2, :f2vs0))'',
                 expressionAttributeNames
                   = [(''#f0'', ''age''), (''#f1'', ''age''), (''#f2'', ''tags'')],
                 expressionAttributeValues
                   = [('':f0v'', JNum (Finite 18)), ('':f1v'', JNum (Finite 1)),
                      ('':f1v2'', JNum (Finite 5)), ('':f2vs0'', JStr ''a'')] \<rparr>)"
    using sample_three_filters by simp
  have h: "f_value sample_between = Some ''1'' \<and> f_value2 sample_between = Some ''5''
           \<and> f_type sample_between \<notin> {T_SS, T_NS, T_BOOL, T_NULL}
           \<and> parseValueByType sample_runtime (f_type sample_between) ''1'' = Inr (JNum (Finite 1))
           \<and> parseValueByType sample_runtime (f_type sample_between) ''5'' = Inr (JNum (Finite 5))"
    using p1 p5 by (simp add: sample_between_def)
  note d = C5_between [OF c(1) pre, where post = "[sample_contains]",
      THEN conjunct2, THEN conjunct2, THEN conjunct1, THEN spec, THEN spec, THEN spec, THEN spec,
      THEN mp, OF h]
  have d1: "generateDynamoFilterAttributes sample_runtime ([sample_greater] @ [sample_between])
       = Inr (Some \<lparr> filterExpression = ''(#f0 > :f0v) AND (#f1 BETWEEN :f1v AND :f1v2)'',
                     expressionAttributeNames = [(''#f0'', ''age''), (''#f1'', ''age'')],
                     expressionAttributeValues
                       = [('':f0v'', JNum (Finite 18)), ('':f1v'', JNum (Finite 1)),
                          ('':f1v2'', JNum (Finite 5))] \<rparr>)"
    using d [THEN conjunct1] by (simp add: sample_between_def show_nat_1)
  have d2: "\<exists>r. generateDynamoFilterAttributes sample_runtime
              ([sample_greater] @ sample_between # [sample_contains]) = Inr (Some r)
         \<and> (\<exists>rest. length rest = 1
               \<and> filterExpression r
                   = join '' AND '' ([''(#f0 > :f0v)'', ''(#f1 BETWEEN :f1v AND :f1v2)''] @ rest))
         \<and> map_of (expressionAttributeValues r) '':f1v'' = Some (JNum (Finite 1))
         \<and> map_of (expressionAttributeValues r) '':f1v2'' = Some (JNum (Finite 5))"
    using d [THEN conjunct2, THEN spec, THEN mp, OF g] g
    by (simp add: show_nat_1)
  have hx: "f_value (sample_between\<lparr>f_value := Some ''x''\<rparr>) = Some ''x''
            \<and> f_value2 (sample_between\<lparr>f_value := Some ''x''\<rparr>) = Some ''5''
            \<and> f_type (sample_between\<lparr>f_value := Some ''x''\<rparr>) \<notin> {T_SS, T_NS, T_BOOL, T_NULL}
            \<and> (parseValueByType sample_runtime (f_type (sample_between\<lparr>f_value := Some ''x''\<rparr>)) ''x''
                 = Inl (Error (''Invalid numeric value '' @ quoted ''x'' @ '' for type N''))
               \<or> (\<exists>x. parseValueByType sample_runtime
                         (f_type (sample_between\<lparr>f_value := Some ''x''\<rparr>)) ''x'' = Inr x)
                  \<and> parseValueByType sample_runtime
                         (f_type (sample_between\<lparr>f_value := Some ''x''\<rparr>)) ''5''
                    = Inl (Error (''Invalid numeric value '' @ quoted ''x'' @ '' for type N'')))"
    using px by (simp add: sample_between_def)
  have e: "generateDynamoFilterAttributes sample_runtime
        ([sample_greater] @ sample_between\<lparr>f_value := Some ''x''\<rparr> # [sample_contains])
       = Inl (Error (''Invalid numeric value '' @ quoted ''x'' @ '' for type N''))"
    using C5_between [OF c(4) pre, where post = "[sample_contains]",
      THEN conjunct2, THEN conjunct2, THEN conjunct2, THEN spec, THEN spec, THEN spec,
      THEN mp, OF hx] .
  show ?thesis using pre c(1) a b p1 p5 d1 d2 px e by (intro conjI)
qed

theorem C6_comparison_witness:
  "f_condition sample_greater \<in> set comparison_conditions
   \<and> filters_loop sample_runtime 0 [sample_between] initial_state
       = Inr \<lparr> st_names = [(''#f0'', ''age'')],
               st_values = [('':f0v'', JNum (Finite 1)), ('':f0v2'', JNum (Finite 5))],
               st_parts = [''(#f0 BETWEEN :f0v AND :f0v2)''] \<rparr>
   \<and> generateDynamoFilterAttributes sample_runtime
        ([sample_between] @ sample_greater\<lparr>f_type := T_NS\<rparr> # [sample_contains])
       = Inl (Error (''Comparator '' @ quoted ''GREATER_THAN''
                     @ '' is not supported for NS; use CONTAINS/NOT_CONTAINS''))
   \<and> generateDynamoFilterAttributes sample_runtime
        ([sample_between] @ sample_greater\<lparr>f_value := None\<rparr> # [sample_contains])
       = Inl (Error ''GREATER_THAN requires value for filter[1]'')
   \<and> parseValueByType sample_runtime T_N ''18'' = Inr (JNum (Finite 18))
   \<and> generateDynamoFilterAttributes sample_runtime ([sample_between] @ [sample_greater])
       = Inr (Some \<lparr> filterExpression = ''(#f0 BETWEEN :f0v AND :f0v2) AND (#f1 > :f1v)'',
                     expressionAttributeNames = [(''#f0'', ''age''), (''#f1'', ''age'')],
                     expressionAttributeValues
                       = [('':f0v'', JNum (Finite 1)), ('':f0v2'', JNum (Finite 5)),
                          ('':f1v'', JNum (Finite 18))] \<rparr>)
   \<and> (\<exists>r. generateDynamoFilterAttributes sample_runtime
              ([sample_between] @ sample_greater # [sample_contains]) = Inr (Some r)
         \<and> (\<exists>rest. length rest = 1
               \<and> filterExpression r
                   = join '' AND '' ([''(#f0 BETWEEN :f0v AND :f0v2)'', ''(#f1 > :f1v)''] @ rest))
         \<and> map_of (expressionAttributeValues r) '':f1v'' = Some (JNum (Finite 18)))
   \<and> parseValueByType sample_runtime T_N ''x''
       = Inl (Error (''Invalid numeric value '' @ quoted ''x'' @ '' for type N''))
   \<and> generateDynamoFilterAttributes sample_runtime
        ([sample_between] @ sample_greater\<lparr>f_value := Some ''x''\<rparr> # [sample_contains])
       = Inl (Error (''Invalid numeric value '' @ quoted ''x'' @ '' for type N''))"
proof -
  note pre = sample_prefix_state_between
  have c: "f_condition sample_greater \<in> set comparison_conditions"
    "f_condition (sample_greater\<lparr>f_type := T_NS\<rparr>) \<in> set comparison_conditions"
    "f_condition (sample_greater\<lparr>f_value := None\<rparr>) \<in> set comparison_conditions"
    "f_condition (sample_greater\<lparr>f_value := Some ''x''\<rparr>) \<in> set comparison_conditions"
    by (simp_all add: sample_greater_def comparison_conditions_def)
  have p: "parseValueByType sample_runtime T_N ''18'' = Inr (JNum (Finite 18))"
    and px: "parseValueByType sample_runtime T_N ''x''
             = Inl (Error (''Invalid numeric value '' @ quoted ''x'' @ '' for type N''))"
    by (simp_all add: parseValueByType_def sample_runtime_def sample_Number_def isFinite_def)
  have a: "generateDynamoFilterAttributes sample_runtime
             ([sample_between] @ sample_greater\<lparr>f_type := T_NS\<rparr> # [sample_contains])
           = Inl (Error (''Comparator '' @ quoted ''GREATER_THAN''
                     @ '' is not supported for NS; use CONTAINS/NOT_CONTAINS''))"
    using C6_comparison [OF c(2) pre, where post = "[sample_contains]", THEN conjunct1]
    by (simp add: sample_greater_def)
  have b: "generateDynamoFilterAttributes sample_runtime
             ([sample_between] @ sample_greater\<lparr>f_value := None\<rparr> # [sample_contains])
           = Inl (Error ''GREATER_THAN requires value for filter[1]'')"
    using C6_comparison [OF c(3) pre, where post = "[sample_contains]",
        THEN conjunct2, THEN conjunct1]
    by (simp add: sample_greater_def show_nat_1)
  have g: "generateDynamoFilterAttributes sample_runtime
             ([sample_between] @ sample_greater # [sample_contains])
           = Inr (Some \<lparr> filterExpression
                   = ''(#f0 BETWEEN :f0v AND :f0v2) AND (#f1 > :f1v) AND (contains(#f2, :f2vs0))'',
                 expressionAttributeNames
                   = [(''#f0'', ''age''), (''#f1'', ''age''), (''#f2'', ''tags'')],
                 expressionAttributeValues
                   = [('':f0v'', JNum (Finite 1)), ('':f0v2'', JNum (Finite 5)),
                      ('':f1v'', JNum (Finite 18)), ('':f2vs0'', JStr ''a'')] \<rparr>)"
    using sample_three_comparisons by simp
  have h: "f_type sample_greater \<noteq> T_SS \<and> f_type sample_greater \<noteq> T_NS
           \<and> f_value sample_greater = Some ''18''
           \<and> parseValueByType sample_runtime (f_type sample_greater) ''18''
               = Inr (JNum (Finite 18))"
    using p by (simp add: sample_greater_def)
  note d = C6_comparison [OF c(1) pre, where post = "[sample_contains]",
      THEN conjunct2, THEN conjunct2, THEN conjunct1, THEN spec, THEN spec, THEN mp, OF h]
  have d1: "generateDynamoFilterAttributes sample_runtime ([sample_between] @ [sample_greater])
       = Inr (Some \<lparr> filterExpression = ''(#f0 BETWEEN :f0v AND :f0v2) AND (#f1 > :f1v)'',
                     expressionAttributeNames = [(''#f0'', ''age''), (''#f1'', ''age'')],
                     expressionAttributeValues
                       = [('':f0v'', JNum (Finite 1)), ('':f0v2'', JNum (Finite 5)),
                          ('':f1v'', JNum (Finite 18))] \<rparr>)"
    using d [THEN conjunct1]
    by (simp add: sample_greater_def show_nat_1 spec_operator_def)
  have d2: "\<exists>r. generateDynamoFilterAttributes sample_runtime
              ([sample_between] @ sample_greater # [sample_contains]) = Inr (Some r)
         \<and> (\<exists>rest. length rest = 1
               \<and> filterExpression r
                   = join '' AND '' ([''(#f0 BETWEEN :f0v AND :f0v2)'', ''(#f1 > :f1v)''] @ rest))
         \<and> map_of (expressionAttributeValues r) '':f1v'' = Some (JNum (Finite 18))"
    using d [THEN conjunct2, THEN spec, THEN mp, OF g] g
    by (simp add: show_nat_1 sample_greater_def spec_operator_def)
  have hx: "f_type (sample_greater\<lparr>f_value := Some ''x''\<rparr>) \<noteq> T_SS
            \<and> f_type (sample_greater\<lparr>f_value := Some ''x''\<rparr>) \<noteq> T_NS
            \<and> f_value (sample_greater\<lparr>f_value := Some ''x''\<rparr>) = Some ''x''
            \<and> parseValueByType sample_runtime (f_type (sample_greater\<lparr>f_value := Some ''x''\<rparr>)) ''x''
                 = Inl (Error (''Invalid numeric value '' @ quoted ''x'' @ '' for type N''))"
    using px by (simp add: sample_greater_def)
  have e: "generateDynamoFilterAttributes sample_runtime
        ([sample_between] @ sample_greater\<lparr>f_value := Some ''x''\<rparr> # [sample_contains])
       = Inl (Error (''Invalid numeric value '' @ quoted ''x'' @ '' for type N''))"
    using C6_comparison [OF c(4) pre, where post = "[sample_contains]",
      THEN conjunct2, THEN conjunct2, THEN conjunct2, THEN conjunct1, THEN spec, THEN spec,
      THEN mp, OF hx] .
  show ?thesis using pre c(1) a b p d1 d2 px e by (intro conjI)
qed

theorem C4_contains_rendering_witness:
  "parseSetElement sample_runtime T_SS ''a'' = Inr (JStr ''a'')
   \<and> generateDynamoFilterAttributes sample_runtime [sample_contains]
       = Inr (Some \<lparr> filterExpression = ''(contains(#f0, :f0vs0))'',
                     expressionAttributeNames = [(''#f0'', ''tags'')],
                     expressionAttributeValues = [('':f0vs0'', JStr ''a'')] \<rparr>)
   \<and> parseSetElement sample_runtime T_NS ''1'' = Inr (JNum (Finite 1))
   \<and> parseSetElement sample_runtime T_NS ''5'' = Inr (JNum (Finite 5))
   \<and> generateDynamoFilterAttributes sample_runtime
        [sample_contains\<lparr>f_type := T_NS, f_values := Some [''1'', ''5'']\<rparr>]
       = Inr (Some \<lparr> filterExpression = ''((contains(#f0, :f0vs0) OR contains(#f0, :f0vs1)))'',
                     expressionAttributeNames = [(''#f0'', ''tags'')],
                     expressionAttributeValues =
                       [('':f0vs0'', JNum (Finite 1)), ('':f0vs1'', JNum (Finite 5))] \<rparr>)
   \<and> parseValueByType sample_runtime T_S ''x'' = Inr (JStr ''x'')
   \<and> generateDynamoFilterAttributes sample_runtime
        [sample_contains\<lparr>f_type := T_S, f_condition := NOT_CONTAINS, f_value := Some ''x'',
                         f_values := None\<rparr>]
       = Inr (Some \<lparr> filterExpression = ''NOT contains(#f0, :f0v)'',
                     expressionAttributeNames = [(''#f0'', ''tags'')],
                     expressionAttributeValues = [('':f0v'', JStr ''x'')] \<rparr>)
   \<and> (\<exists>vals'. generateDynamoFilterAttributes sample_runtime
        [sample_contains\<lparr>f_condition := NOT_CONTAINS, f_values := Some [''a'', ''b'']\<rparr>]
       = Inr (Some \<lparr> filterExpression = ''(NOT (contains(#f0, :f0vs0) OR contains(#f0, :f0vs1)))'',
                     expressionAttributeNames = [(''#f0'', ''tags'')],
                     expressionAttributeValues = vals' \<rparr>))"
proof -
  have pa: "parseSetElement sample_runtime T_SS ''a'' = Inr (JStr ''a'')"
    and pb: "parseSetElement sample_runtime T_SS ''b'' = Inr (JStr ''b'')"
    and p1: "parseSetElement sample_runtime T_NS ''1'' = Inr (JNum (Finite 1))"
    and p5: "parseSetElement sample_runtime T_NS ''5'' = Inr (JNum (Finite 5))"
    and px: "parseValueByType sample_runtime T_S ''x'' = Inr (JStr ''x'')"
    by (simp_all add: eval_filter)
  have a: "generateDynamoFilterAttributes sample_runtime [sample_contains]
       = Inr (Some \<lparr> filterExpression = ''(contains(#f0, :f0vs0))'',
                     expressionAttributeNames = [(''#f0'', ''tags'')],
                     expressionAttributeValues = [('':f0vs0'', JStr ''a'')] \<rparr>)"
    using C4_contains_rendering
            [where f = sample_contains and a = "''a''" and rt = sample_runtime
               and x = "JStr ''a''"] pa
    by (simp add: sample_contains_def)
  have b: "generateDynamoFilterAttributes sample_runtime
        [sample_contains\<lparr>f_type := T_NS, f_values := Some [''1'', ''5'']\<rparr>]
       = Inr (Some \<lparr> filterExpression = ''((contains(#f0, :f0vs0) OR contains(#f0, :f0vs1)))'',
                     expressionAttributeNames = [(''#f0'', ''tags'')],
                     expressionAttributeValues =
                       [('':f0vs0'', JNum (Finite 1)), ('':f0vs1'', JNum (Finite 5))] \<rparr>)"
    using C4_contains_rendering
            [where f = "sample_contains\<lparr>f_type := T_NS, f_values := Some [''1'', ''5'']\<rparr>"
               and rt = sample_runtime and a = "''1''" and b = "''5''"
               and x = "JNum (Finite 1)" and y = "JNum (Finite 5)"] p1 p5
    by (simp add: sample_contains_def)
  have c: "generateDynamoFilterAttributes sample_runtime
        [sample_contains\<lparr>f_type := T_S, f_condition := NOT_CONTAINS, f_value := Some ''x'',
                         f_values := None\<rparr>]
       = Inr (Some \<lparr> filterExpression = ''NOT contains(#f0, :f0v)'',
                     expressionAttributeNames = [(''#f0'', ''tags'')],
                     expressionAttributeValues = [('':f0v'', JStr ''x'')] \<rparr>)"
    using C4_contains_rendering
            [where f = "sample_contains\<lparr>f_type := T_S, f_condition := NOT_CONTAINS,
                                  f_value := Some ''x'', f_values := None\<rparr>"
               and rt = sample_runtime and x = "JStr ''x''" and v = "''x''"] px
    by (simp add: sample_contains_def)
  have all: "\<forall>e\<in>set [''a'', ''b'']. \<exists>x. parseSetElement sample_runtime T_SS e = Inr x"
    using pa pb by simp
  have d: "\<exists>vals'. generateDynamoFilterAttributes sample_runtime
        [sample_contains\<lparr>f_condition := NOT_CONTAINS, f_values := Some [''a'', ''b'']\<rparr>]
       = Inr (Some \<lparr> filterExpression = ''(NOT (contains(#f0, :f0vs0) OR contains(#f0, :f0vs1)))'',
                     expressionAttributeNames = [(''#f0'', ''tags'')],
                     expressionAttributeValues = vals' \<rparr>)"
    using C4_contains_rendering
            [where f = "sample_contains\<lparr>f_condition := NOT_CONTAINS,
                                  f_values := Some [''a'', ''b'']\<rparr>"
               and rt = sample_runtime and vs = "[''a'', ''b'']"] all
    by (simp add: sample_contains_def show_nat.simps digit_char_def upt_rec) blast
  show ?thesis using pa p1 p5 px a b c d by blast
qed

theorem C9_number_set_coercions_witness:
  "parseDynamoKeyValue sample_runtime ''1, abc,5'' ''NS''
     = Inr (JArr [JNum (Finite 1), JNum (Finite 5)])
   \<and> isNaN (Number sample_runtime ''abc'')
   \<and> parseSetElement sample_runtime T_NS ''abc''
       = Inl (Error (''Invalid numeric value '' @ quoted ''abc'' @ '' for type NS element''))
   \<and> filters_loop sample_runtime 0 [] initial_state = Inr initial_state
   \<and> generateDynamoFilterAttributes sample_runtime
        ([] @ sample_contains\<lparr>f_type := T_NS, f_values := Some [''1'', ''abc'']\<rparr> # [])
       = Inl (Error (''Invalid numeric value '' @ quoted ''abc'' @ '' for type NS element''))"
proof -
  let ?f = "sample_contains\<lparr>f_type := T_NS, f_values := Some [''1'', ''abc'']\<rparr>"
  have pre: "filters_loop sample_runtime 0 [] initial_state = Inr initial_state" by simp
  have nan: "isNaN (Number sample_runtime ''abc'')"
    by (simp add: isNaN_def sample_runtime_def sample_Number_def)
  have sp: "split_on CHR '','' ''1, abc,5'' = [''1'', '' abc'', ''5'']" by simp
  have tr: "trim ''1'' = ''1''" "trim '' abc'' = ''abc''" "trim ''5'' = ''5''"
    by (simp_all add: trim_def skip_white_space_def white_space_def)
  have k: "parseDynamoKeyValue sample_runtime ''1, abc,5'' ''NS''
     = Inr (JArr [JNum (Finite 1), JNum (Finite 5)])"
    using C9_number_set_coercions [where rt = sample_runtime and key = "''1, abc,5''"]
    by (simp add: sp tr isNaN_def sample_runtime_def sample_Number_def)
  have e: "parseSetElement sample_runtime T_NS ''abc''
       = Inl (Error (''Invalid numeric value '' @ quoted ''abc'' @ '' for type NS element''))"
    using C9_number_set_coercions [where rt = sample_runtime and raw = "''abc''"] nan by blast
  have bad: "\<exists>v\<in>set [''1'', ''abc'']. \<not> isFinite (Number sample_runtime v)"
    by (simp add: isFinite_def sample_runtime_def sample_Number_def)
  have hdw: "hd (dropWhile (\<lambda>v. isFinite (Number sample_runtime v)) [''1'', ''abc'']) = ''abc''"
    by (simp add: isFinite_def sample_runtime_def sample_Number_def)
  have g: "generateDynamoFilterAttributes sample_runtime ([] @ ?f # [])
       = Inl (Error (''Invalid numeric value '' @ quoted ''abc'' @ '' for type NS element''))"
    using C9_number_set_coercions
            [where rt = sample_runtime and f = ?f and vs = "[''1'', ''abc'']"
               and pre = "[]" and st = initial_state and post = "[]"]
      bad pre hdw
    by (simp add: sample_contains_def)
  show ?thesis using k nan e pre g by blast
qed

section \<open>Properties of update-expression aliasing\<close>

lemmas eval_scan = is_word_char_def reserved_match_def followed_by_equals_def startsWith_def
  skip_white_space_def white_space_def canonicalize_def toUpperCase_char_def sample_reserved_def

lemma scan_word:
  assumes "w \<noteq> []" and "\<forall>c\<in>set w. is_word_char c"
    and "rest = [] \<or> \<not> is_word_char (hd rest)"
  shows "replaceReservedKeywordsFromUpdateExp R (w @ rest)
         = (if reserved_match R w \<and> followed_by_equals rest then ''#'' @ w else w)
           @ replaceReservedKeywordsFromUpdateExp R rest"
proof -
  obtain c w' where w: "w = c # w'" using assms(1) by (cases w) auto
  have c: "is_word_char c" and w': "\<forall>c\<in>set w'. is_word_char c"
    using assms(2) w by auto
  have r: "takeWhile is_word_char rest = []" "dropWhile is_word_char rest = rest"
    using assms(3) by (cases rest; auto)+
  have t: "takeWhile is_word_char (w' @ rest) = w'"
    using w' r by (simp add: takeWhile_append2)
  have d: "dropWhile is_word_char (w' @ rest) = rest"
    using w' r by (simp add: dropWhile_append2)
  show ?thesis
    by (simp add: w c t d)
qed

lemma filter_takeWhile_dropWhile:
  "filter P (takeWhile Q cs) @ filter P (dropWhile Q cs) = filter P cs"
  by (metis filter_append takeWhile_dropWhile_id)

lemma take_append_foreign:
  assumes "c \<notin> set k"
  shows "(take (length k) (d @ c # t) = k) = (take (length k) d = k)"
proof (cases "length k \<le> length d")
  case True
  then show ?thesis by simp
next
  case False
  then obtain n where n: "length k - length d = Suc n"
    by (cases "length k - length d") auto
  have eq: "take (length k) (d @ c # t) = d @ c # take n t"
    using False n by simp
  have "c \<in> set (d @ c # take n t)" by simp
  with eq assms have l: "take (length k) (d @ c # t) \<noteq> k" by metis
  have "length (take (length k) d) < length k" using False by simp
  then have r: "take (length k) d \<noteq> k" by (metis less_irrefl)
  from l r show ?thesis by (simp only:)
qed

lemma prefix_len_le: "prefix_len ks s \<le> length s"
proof (induction ks)
  case Nil
  show ?case by simp
next
  case (Cons k ks)
  have "length k \<le> length s" if a: "take (length k) s = k"
  proof -
    have "length (take (length k) s) \<le> length s" by simp
    with a show ?thesis by metis
  qed
  with Cons show ?case by (simp only: prefix_len.simps split: if_splits) blast
qed

lemma prefix_len_append_foreign:
  assumes "\<forall>k\<in>set ks. c \<notin> set k"
  shows "prefix_len ks (d @ c # t) = prefix_len ks d"
  using assms
proof (induction ks)
  case Nil
  show ?case by simp
next
  case (Cons k ks)
  then have ih: "prefix_len ks (d @ c # t) = prefix_len ks d" and ck: "c \<notin> set k"
    by simp_all
  show ?case
    unfolding prefix_len.simps ih take_append_foreign [OF ck] by (rule refl)
qed

lemma drop_seqs_append_foreign:
  assumes "\<forall>k\<in>set ks. c \<notin> set k"
  shows "drop_seqs ks (d @ c # t) = drop_seqs ks d @ c # t"
  using assms
proof (induction ks d rule: drop_seqs.induct)
  case (1 ks)
  have "prefix_len ks ([] @ c # t) = prefix_len ks []"
    by (rule prefix_len_append_foreign [OF "1.prems"])
  moreover have "prefix_len ks [] = 0"
    using prefix_len_le [of ks "[]"] by simp
  ultimately show ?case by simp
next
  case (2 ks x xs)
  have p: "prefix_len ks ((x # xs) @ c # t) = prefix_len ks (x # xs)"
    by (rule prefix_len_append_foreign [OF "2.prems"])
  show ?case
  proof (cases "prefix_len ks (x # xs) = 0")
    case True
    with p show ?thesis by simp
  next
    case False
    have "prefix_len ks (x # xs) - 1 \<le> length xs"
      using prefix_len_le [of ks "x # xs"] by simp
    then have "drop (prefix_len ks (x # xs) - 1) (xs @ c # t)
               = drop (prefix_len ks (x # xs) - 1) xs @ c # t"
      by simp
    with False p "2.IH" [OF False "2.prems"] show ?thesis by simp
  qed
qed

lemma white_space_no_word_char:
  assumes "is_word_char c"
  shows "\<forall>k\<in>set white_space. c \<notin> set k"
  using assms by (auto simp: white_space_def is_word_char_def)

lemma followed_by_equals_before_word:
  assumes "s = [] \<or> is_word_char (hd s)"
  shows "followed_by_equals (d @ s) = followed_by_equals d"
proof (cases s)
  case Nil
  then show ?thesis by simp
next
  case (Cons c t)
  with assms have w: "is_word_char c" by simp
  then have ne: "c \<noteq> CHR ''=''" by (auto simp: is_word_char_def)
  have "skip_white_space (d @ c # t) = skip_white_space d @ c # t"
    unfolding skip_white_space_def
    by (rule drop_seqs_append_foreign [OF white_space_no_word_char [OF w]])
  then show ?thesis
    using ne Cons by (cases "skip_white_space d") (simp_all add: followed_by_equals_def startsWith_def)
qed

lemma scan_prefix:
  assumes "pre = [] \<or> \<not> is_word_char (last pre)" and "s = [] \<or> is_word_char (hd s)"
  shows "replaceReservedKeywordsFromUpdateExp R (pre @ s)
         = replaceReservedKeywordsFromUpdateExp R pre @ replaceReservedKeywordsFromUpdateExp R s"
  using assms(1)
proof (induction R pre rule: replaceReservedKeywordsFromUpdateExp.induct)
  case (1 R)
  show ?case by simp
next
  case (2 R c cs)
  show ?case
  proof (cases "is_word_char c")
    case False
    have "cs = [] \<or> \<not> is_word_char (last cs)"
      using "2.prems" by (cases cs) auto
    from "2.IH"(2) [OF False this] False show ?thesis by simp
  next
    case True
    let ?t = "takeWhile is_word_char cs" and ?d = "dropWhile is_word_char cs"
    have cs: "cs \<noteq> []" and l: "\<not> is_word_char (last cs)"
      using "2.prems" True by (cases cs; auto)+
    then have ex: "last cs \<in> set cs" by simp
    have t: "takeWhile is_word_char (cs @ s) = ?t"
      using ex l by (rule takeWhile_append1)
    have d: "dropWhile is_word_char (cs @ s) = ?d @ s"
      using ex l by (rule dropWhile_append1)
    have dne: "?d \<noteq> []"
      using ex l by (metis dropWhile_eq_Nil_conv)
    have "last ?d = last cs"
      using dne by (metis last_appendR takeWhile_dropWhile_id)
    then have "?d = [] \<or> \<not> is_word_char (last ?d)" using l by simp
    note ih = "2.IH"(1) [OF True this]
    have f: "followed_by_equals (?d @ s) = followed_by_equals ?d"
      by (rule followed_by_equals_before_word [OF assms(2)])
    show ?thesis
      using True by (simp add: t d ih f)
  qed
qed

lemma scan_gap:
  assumes "\<forall>c\<in>set s. \<not> is_word_char c"
  shows "replaceReservedKeywordsFromUpdateExp R s = s"
  using assms by (induction s) simp_all

lemma scan_only_inserts:
  "filter (\<lambda>c. c \<noteq> CHR ''#'') (replaceReservedKeywordsFromUpdateExp R s)
   = filter (\<lambda>c. c \<noteq> CHR ''#'') s"
proof (induction R s rule: replaceReservedKeywordsFromUpdateExp.induct)
  case (1 R)
  show ?case by simp
next
  case (2 R c cs)
  show ?case
  proof (cases "is_word_char c")
    case False
    then show ?thesis using "2.IH"(2) by simp
  next
    case True
    show ?thesis
      using True "2.IH"(1)
        filter_takeWhile_dropWhile [of "\<lambda>c. c \<noteq> CHR ''#''" is_word_char cs]
      by simp
  qed
qed

lemma scan_subseq: "subseq s (replaceReservedKeywordsFromUpdateExp R s)"
proof (induction R s rule: replaceReservedKeywordsFromUpdateExp.induct)
  case (1 R)
  show ?case by simp
next
  case (2 R c cs)
  show ?case
  proof (cases "is_word_char c")
    case False
    then show ?thesis using "2.IH"(2) by simp
  next
    case True
    let ?t = "takeWhile is_word_char cs" and ?d = "dropWhile is_word_char cs"
    let ?flag = "if reserved_match R (c # ?t) \<and> followed_by_equals ?d then ''#'' else []"
    have "subseq ?d (replaceReservedKeywordsFromUpdateExp R ?d)"
      using "2.IH"(1) [OF True] .
    then have "subseq ((c # ?t) @ ?d) ((c # ?t) @ replaceReservedKeywordsFromUpdateExp R ?d)"
      by (intro list_emb_append_mono) simp_all
    then have "subseq (c # cs) (c # ?t @ replaceReservedKeywordsFromUpdateExp R ?d)"
      by simp
    then have "subseq (c # cs) (?flag @ c # ?t @ replaceReservedKeywordsFromUpdateExp R ?d)"
      by (rule list_emb_append2)
    then show ?thesis using True by simp
  qed
qed

text \<open>
  Claim C8, amended. Let \<open>w\<close> be a whole word of the expression \<open>pre @ w @ rest\<close>: a
  non-empty run of word characters with no word character directly before or after it.
  The result is the result for \<open>pre\<close>, then \<open>w\<close>, with \<^verbatim>\<open>#\<close> before it exactly when \<open>w\<close> is
  a reserved keyword (compared without regard to letter case) and \<open>rest\<close> is optional
  white space followed by \<^verbatim>\<open>=\<close>, then the result for \<open>rest\<close>. A string without word
  characters is returned as it is. For every expression \<open>s\<close>, \<open>s\<close> is a subsequence of
  the result and the two agree once every \<^verbatim>\<open>#\<close> is removed, so the result is \<open>s\<close> with
  \<^verbatim>\<open>#\<close> characters inserted and nothing else changed. (No guarantee is given for a
  keyword that already has a \<^verbatim>\<open>#\<close> before it.)
\<close>

theorem C8_update_aliasing:
  assumes "w \<noteq> []" and "\<forall>c\<in>set w. is_word_char c"
    and "pre = [] \<or> \<not> is_word_char (last pre)"
    and "rest = [] \<or> \<not> is_word_char (hd rest)"
  shows "replaceReservedKeywordsFromUpdateExp R (pre @ w @ rest)
           = replaceReservedKeywordsFromUpdateExp R pre
             @ (if reserved_match R w \<and> followed_by_equals rest then ''#'' @ w else w)
             @ replaceReservedKeywordsFromUpdateExp R rest
       \<and> ((\<forall>c\<in>set s. \<not> is_word_char c) \<longrightarrow> replaceReservedKeywordsFromUpdateExp R s = s)
       \<and> subseq s (replaceReservedKeywordsFromUpdateExp R s)
       \<and> filter (\<lambda>c. c \<noteq> CHR ''#'') (replaceReservedKeywordsFromUpdateExp R s)
           = filter (\<lambda>c. c \<noteq> CHR ''#'') s"
proof (intro conjI impI)
  have "w @ rest = [] \<or> is_word_char (hd (w @ rest))"
    using assms(1,2) by (cases w) simp_all
  from scan_prefix [OF assms(3) this]
  show "replaceReservedKeywordsFromUpdateExp R (pre @ w @ rest)
           = replaceReservedKeywordsFromUpdateExp R pre
             @ (if reserved_match R w \<and> followed_by_equals rest then ''#'' @ w else w)
             @ replaceReservedKeywordsFromUpdateExp R rest"
    unfolding scan_word [OF assms(1,2,4)] by simp
next
  assume "\<forall>c\<in>set s. \<not> is_word_char c"
  then show "replaceReservedKeywordsFromUpdateExp R s = s" by (rule scan_gap)
next
  show "subseq s (replaceReservedKeywordsFromUpdateExp R s)" by (rule scan_subseq)
next
  show "filter (\<lambda>c. c \<noteq> CHR ''#'') (replaceReservedKeywordsFromUpdateExp R s)
           = filter (\<lambda>c. c \<noteq> CHR ''#'') s"
    by (rule scan_only_inserts)
qed

lemma double_prefix_general:
  assumes "reserved_match R ''size''"
  shows "replaceReservedKeywordsFromUpdateExp R ''#size = :size'' = ''##size = :size''"
  using assms
  by (simp add: is_word_char_def followed_by_equals_def startsWith_def skip_white_space_def
      white_space_def)

text \<open>
  The look-ahead \<^verbatim>\<open>\s*\<close> skips a no-break space (U+00A0). The long s (U+017F) is not a
  word character and the \<^verbatim>\<open>i\<close> flag does not identify it with \<^verbatim>\<open>s\<close>, so the long s
  followed by \<^verbatim>\<open>ize\<close> is not the keyword \<^verbatim>\<open>size\<close>.
\<close>

lemma aliasing_no_break_space:
  "replaceReservedKeywordsFromUpdateExp sample_reserved
     (''SET size'' @ [CHR 0xC2, CHR 0xA0] @ ''= :s'')
   = ''SET #size'' @ [CHR 0xC2, CHR 0xA0] @ ''= :s''"
  by (simp add: eval_scan)

lemma aliasing_long_s:
  "replaceReservedKeywordsFromUpdateExp sample_reserved
     ([CHR 0xC5, CHR 0xBF] @ ''ize = :s'')
   = [CHR 0xC5, CHR 0xBF] @ ''ize = :s''"
  by (simp add: eval_scan)

text \<open>
  Claim C8, as stated, says that the update form never prefixes a name that is already
  prefixed, so that \<^verbatim>\<open>#size =\<close> stays \<^verbatim>\<open>#size =\<close>. In the code \<^verbatim>\<open>#\<close> is not a word
  character, so the keyword after it starts at a word boundary and is prefixed again.
\<close>

theorem C8_counterexample:
  "replaceReservedKeywordsFromUpdateExp sample_reserved ''#size = :size'' = ''##size = :size''
   \<and> replaceReservedKeywordsFromUpdateExp sample_reserved ''#size = :size'' \<noteq> ''#size = :size''"
  by (simp add: eval_scan)

theorem C8_update_aliasing_witness:
  "replaceReservedKeywordsFromUpdateExp sample_reserved
      (''SET '' @ ''size'' @ '' = :size, name = :name'')
     = ''SET #size = :size, #name = :name''
   \<and> replaceReservedKeywordsFromUpdateExp sample_reserved
        (''SET '' @ ''size'' @ '' = :size, name = :name'')
      = replaceReservedKeywordsFromUpdateExp sample_reserved ''SET '' @ ''#size''
        @ replaceReservedKeywordsFromUpdateExp sample_reserved '' = :size, name = :name''
   \<and> replaceReservedKeywordsFromUpdateExp sample_reserved ''SET '' = ''SET ''
   \<and> replaceReservedKeywordsFromUpdateExp sample_reserved '' = :'' = '' = :''
   \<and> subseq '' = :'' (replaceReservedKeywordsFromUpdateExp sample_reserved '' = :'')"
proof -
  have h1: "''size'' \<noteq> []" by simp
  have h2: "\<forall>c\<in>set ''size''. is_word_char c" by (simp add: is_word_char_def)
  have h3: "''SET '' = [] \<or> \<not> is_word_char (last ''SET '')" by (simp add: is_word_char_def)
  have h4: "'' = :size, name = :name'' = [] \<or> \<not> is_word_char (hd '' = :size, name = :name'')"
    by (simp add: is_word_char_def)
  have h5: "\<forall>c\<in>set '' = :''. \<not> is_word_char c" by (simp add: is_word_char_def)
  have m: "reserved_match sample_reserved ''size'' \<and> followed_by_equals '' = :size, name = :name''"
    by (simp add: eval_scan)
  have e: "replaceReservedKeywordsFromUpdateExp sample_reserved
             (''SET '' @ ''size'' @ '' = :size, name = :name'')
           = ''SET #size = :size, #name = :name''"
    by (simp add: eval_scan)
  have p: "replaceReservedKeywordsFromUpdateExp sample_reserved ''SET '' = ''SET ''"
    by (simp add: eval_scan)
  note inst = C8_update_aliasing [OF h1 h2 h3 h4, where R = sample_reserved and s = "'' = :''"]
  have a: "replaceReservedKeywordsFromUpdateExp sample_reserved
        (''SET '' @ ''size'' @ '' = :size, name = :name'')
      = replaceReservedKeywordsFromUpdateExp sample_reserved ''SET '' @ ''#size''
        @ replaceReservedKeywordsFromUpdateExp sample_reserved '' = :size, name = :name''"
    using inst [THEN conjunct1] m by simp
  have b: "replaceReservedKeywordsFromUpdateExp sample_reserved '' = :'' = '' = :''"
    using inst [THEN conjunct2, THEN conjunct1, THEN mp, OF h5] .
  have c: "subseq '' = :'' (replaceReservedKeywordsFromUpdateExp sample_reserved '' = :'')"
    using inst [THEN conjunct2, THEN conjunct2, THEN conjunct1] .
  show ?thesis using e a p b c by (intro conjI)
qed

section \<open>Properties of the update command builder\<close>

lemma sample_choose:
  "choose_valueKey [('':name'', JStr ''existing'')] ''name'' = '':name_update_1''"
  by (simp add: choose_valueKey_def probe_candidate.simps update_candidate_def js_defined_def
      obj_get_def show_nat.simps digit_char_def)

lemma sample_loop:
  "update_fields_loop [(''name'', JStr ''John'')] [('':name'', JStr ''existing'')] []
   = ([('':name'', JStr ''existing''), ('':name_update_1'', JStr ''John'')],
      [''name = :name_update_1''])"
  by (simp add: sample_choose Let_def)

lemma sample_alias:
  "replaceReservedKeywordsFromUpdateExp sample_reserved ''SET name = :name_update_1''
   = ''SET #name = :name_update_1''"
  by (simp add: is_word_char_def reserved_match_def followed_by_equals_def startsWith_def
      skip_white_space_def white_space_def canonicalize_def toUpperCase_char_def
      sample_reserved_def)

lemma sample_extract:
  "extractExpAttributeNamesFromUpdateExp ''SET #name = :name_update_1'' = [(''#name'', ''name'')]"
  by (simp add: extractExpAttributeNamesFromUpdateExp_def strip_SET_def trim_def
      skip_white_space_def starts_with_white_space_def white_space_def startsWith_def
      canonicalize_def toUpperCase_char_def)

lemma sample_update_eval:
  "buildUpdateCommandInput sample_reserved sample_update_input = Inr
     \<lparr> uc_TableName = ''Users'', uc_Key = [(''userId'', JStr ''123'')],
       uc_ConditionExpression = None, uc_ReturnValues = ''NONE'',
       uc_ReturnConsumedCapacity = None, uc_ReturnItemCollectionMetrics = None,
       uc_ExpressionAttributeNames = Some [(''#name'', ''name'')],
       uc_ExpressionAttributeValues =
         Some [('':name'', JStr ''existing''), ('':name_update_1'', JStr ''John'')],
       uc_UpdateExpression = ''SET #name = :name_update_1'' \<rparr>"
proof -
  have cv: "caller_values sample_update_input = [('':name'', JStr ''existing'')]"
    and cn: "caller_names sample_update_input = []"
    by (simp_all add: caller_values_def caller_names_def sample_update_input_def obj_assign_def
        or_empty_def)
  have it: "ui_item sample_update_input = Some [(''name'', JStr ''John'')]"
    and ue: "\<not> truthy (ui_updateExpression sample_update_input)"
    by (simp_all add: sample_update_input_def truthy_def)
  show ?thesis
    unfolding buildUpdateCommandInput_def Let_def cv cn it
    using ue
    by (simp add: sample_loop sample_alias sample_extract non_empty_def sample_update_input_def
          del: update_fields_loop.simps replaceReservedKeywordsFromUpdateExp.simps)
qed


lemma probe_candidate_spec:
  "\<exists>n\<ge>counter. probe_candidate vals field counter = update_candidate field n
      \<and> \<not> js_defined (obj_get vals (update_candidate field n))
      \<and> (\<forall>m. counter \<le> m \<and> m < n \<longrightarrow> js_defined (obj_get vals (update_candidate field m)))"
proof (induction vals field counter rule: probe_candidate.induct)
  case (1 vals field counter)
  show ?case
  proof (cases "js_defined (obj_get vals (update_candidate field counter))")
    case False
    then have "probe_candidate vals field counter = update_candidate field counter"
      by (subst probe_candidate.simps) simp
    with False show ?thesis by (intro exI [of _ counter]) auto
  next
    case True
    from "1.IH" [OF refl True] obtain n where n: "Suc counter \<le> n"
      and p: "probe_candidate vals field (Suc counter) = update_candidate field n"
      and u: "\<not> js_defined (obj_get vals (update_candidate field n))"
      and b: "\<forall>m. Suc counter \<le> m \<and> m < n
                \<longrightarrow> js_defined (obj_get vals (update_candidate field m))"
      by blast
    have e: "probe_candidate vals field counter = update_candidate field n"
      using True p by (subst probe_candidate.simps) simp
    have "\<forall>m. counter \<le> m \<and> m < n \<longrightarrow> js_defined (obj_get vals (update_candidate field m))"
    proof (intro allI impI)
      fix m assume m: "counter \<le> m \<and> m < n"
      show "js_defined (obj_get vals (update_candidate field m))"
      proof (cases "m = counter")
        case True
        with \<open>js_defined (obj_get vals (update_candidate field counter))\<close> show ?thesis by simp
      next
        case False
        with m have "Suc counter \<le> m \<and> m < n" by simp
        with b show ?thesis by blast
      qed
    qed
    with n e u show ?thesis by (intro exI [of _ n]) auto
  qed
qed

lemma choose_valueKey_undefined:
  "\<not> js_defined (obj_get vals (choose_valueKey vals field))"
  using probe_candidate_spec [of 1 vals field]
  by (auto simp: choose_valueKey_def Let_def)

lemma obj_get_update_other:
  "k' \<noteq> k \<Longrightarrow> obj_get (AList.update k v vals) k' = obj_get vals k'"
  by (simp add: obj_get_def update_conv')

lemma update_fields_loop_preserves:
  assumes "js_defined (obj_get vals k)"
  shows "obj_get (fst (update_fields_loop item vals parts)) k = obj_get vals k"
  using assms
proof (induction item arbitrary: vals parts)
  case Nil
  show ?case by simp
next
  case (Cons fv item)
  obtain field v where fv: "fv = (field, v)" by (cases fv)
  let ?c = "choose_valueKey vals field"
  have ne: "k \<noteq> ?c"
    using choose_valueKey_undefined [of vals field] Cons.prems by auto
  have keep: "obj_get (AList.update ?c v vals) k = obj_get vals k"
    using ne by (rule obj_get_update_other)
  then have "js_defined (obj_get (AList.update ?c v vals) k)" using Cons.prems by simp
  from Cons.IH [OF this] keep show ?case
    by (simp add: fv Let_def)
qed

lemma or_empty_non_empty: "or_empty (non_empty obj) = obj"
  by (simp add: or_empty_def non_empty_def)

lemma buildUpdate_values:
  assumes "buildUpdateCommandInput R input = Inr cmd"
  shows "or_empty (uc_ExpressionAttributeValues cmd) = caller_values input
       \<or> (\<exists>item. ui_item input = Some item
            \<and> or_empty (uc_ExpressionAttributeValues cmd)
                = fst (update_fields_loop item (caller_values input) []))"
  using assms unfolding buildUpdateCommandInput_def Let_def
  by (auto simp: or_empty_non_empty split: if_splits option.splits prod.splits)

text \<open>
  Claim C7. For a field the candidate token is \<^verbatim>\<open>:{field}\<close>. If it is bound in the
  accumulated value map, the token used is the first of \<^verbatim>\<open>:{field}_update_1\<close>,
  \<^verbatim>\<open>:{field}_update_2\<close>, ... that is not bound, so it is \<^verbatim>\<open>:{field}_update_1\<close> when that one
  is free; the chosen token is never a bound one. The loop records \<^verbatim>\<open>field = token\<close>
  and stores the value under the token, every entry that was bound before the loop
  keeps its value, and so does every caller-supplied entry in the command that
  the builder returns.
\<close>

theorem C7_update_token_collision:
  "(\<not> js_defined (obj_get vals ('':'' @ field)) \<longrightarrow> choose_valueKey vals field = '':'' @ field)
 \<and> (js_defined (obj_get vals ('':'' @ field)) \<longrightarrow>
      (\<exists>n\<ge>1. choose_valueKey vals field = '':'' @ field @ ''_update_'' @ show_nat n
         \<and> (\<forall>m. 1 \<le> m \<and> m < n \<longrightarrow>
               js_defined (obj_get vals ('':'' @ field @ ''_update_'' @ show_nat m)))))
 \<and> \<not> js_defined (obj_get vals (choose_valueKey vals field))
 \<and> (js_defined (obj_get vals ('':'' @ field))
      \<and> \<not> js_defined (obj_get vals ('':'' @ field @ ''_update_1''))
     \<longrightarrow> choose_valueKey vals field = '':'' @ field @ ''_update_1'')
 \<and> update_fields_loop ((field, v) # rest) vals parts
     = update_fields_loop rest (AList.update (choose_valueKey vals field) v vals)
         (parts @ [field @ '' = '' @ choose_valueKey vals field])
 \<and> (js_defined (obj_get vals k)
     \<longrightarrow> obj_get (fst (update_fields_loop item vals parts)) k = obj_get vals k)
 \<and> (buildUpdateCommandInput R input = Inr cmd \<and> js_defined (obj_get (caller_values input) k)
     \<longrightarrow> obj_get (or_empty (uc_ExpressionAttributeValues cmd)) k
         = obj_get (caller_values input) k)"
proof (intro conjI impI)
  show "\<not> js_defined (obj_get vals ('':'' @ field)) \<Longrightarrow> choose_valueKey vals field = '':'' @ field"
    by (simp add: choose_valueKey_def)
next
  assume d: "js_defined (obj_get vals ('':'' @ field))"
  from probe_candidate_spec [of 1 vals field] d
  show "\<exists>n\<ge>1. choose_valueKey vals field = '':'' @ field @ ''_update_'' @ show_nat n
         \<and> (\<forall>m. 1 \<le> m \<and> m < n \<longrightarrow>
               js_defined (obj_get vals ('':'' @ field @ ''_update_'' @ show_nat m)))"
    by (auto simp: choose_valueKey_def update_candidate_def)
next
  show "\<not> js_defined (obj_get vals (choose_valueKey vals field))"
    by (rule choose_valueKey_undefined)
next
  assume h: "js_defined (obj_get vals ('':'' @ field))
      \<and> \<not> js_defined (obj_get vals ('':'' @ field @ ''_update_1''))"
  have c1: "update_candidate field (Suc 0) = '':'' @ field @ ''_update_1''"
    by (simp add: update_candidate_def show_nat.simps digit_char_def)
  have "probe_candidate vals field 1 = update_candidate field (Suc 0)"
    using h by (subst probe_candidate.simps) (simp add: c1 Let_def)
  then show "choose_valueKey vals field = '':'' @ field @ ''_update_1''"
    using h by (simp add: choose_valueKey_def c1)
next
  show "update_fields_loop ((field, v) # rest) vals parts
     = update_fields_loop rest (AList.update (choose_valueKey vals field) v vals)
         (parts @ [field @ '' = '' @ choose_valueKey vals field])"
    by (simp add: Let_def)
next
  show "js_defined (obj_get vals k)
     \<Longrightarrow> obj_get (fst (update_fields_loop item vals parts)) k = obj_get vals k"
    by (rule update_fields_loop_preserves)
next
  assume h: "buildUpdateCommandInput R input = Inr cmd
     \<and> js_defined (obj_get (caller_values input) k)"
  with buildUpdate_values [of R input cmd] update_fields_loop_preserves
  show "obj_get (or_empty (uc_ExpressionAttributeValues cmd)) k = obj_get (caller_values input) k"
    by auto
qed

theorem C7_update_token_collision_witness:
  "js_defined (obj_get [('':name'', JStr ''existing'')] '':name'')
   \<and> \<not> js_defined (obj_get [('':name'', JStr ''existing'')] '':name_update_1'')
   \<and> choose_valueKey [('':name'', JStr ''existing'')] ''name'' = '':name_update_1''
   \<and> (\<exists>cmd. buildUpdateCommandInput sample_reserved sample_update_input = Inr cmd
        \<and> js_defined (obj_get (caller_values sample_update_input) '':name'')
        \<and> obj_get (or_empty (uc_ExpressionAttributeValues cmd)) '':name'' = JStr ''existing''
        \<and> uc_ExpressionAttributeValues cmd
            = Some [('':name'', JStr ''existing''), ('':name_update_1'', JStr ''John'')]
        \<and> uc_UpdateExpression cmd = ''SET #name = :name_update_1'')"
proof -
  let ?vals = "[('':name'', JStr ''existing'')]"
  have d: "js_defined (obj_get ?vals '':name'')"
    and u: "\<not> js_defined (obj_get ?vals '':name_update_1'')"
    by (simp_all add: js_defined_def obj_get_def)
  have c: "choose_valueKey ?vals ''name'' = '':name_update_1''"
    using C7_update_token_collision [where vals = ?vals and field = "''name''"] d u by simp
  have cv: "caller_values sample_update_input = ?vals"
    by (simp add: caller_values_def sample_update_input_def obj_assign_def or_empty_def)
  let ?cmd = "\<lparr> uc_TableName = ''Users'', uc_Key = [(''userId'', JStr ''123'')],
               uc_ConditionExpression = None, uc_ReturnValues = ''NONE'',
               uc_ReturnConsumedCapacity = None, uc_ReturnItemCollectionMetrics = None,
               uc_ExpressionAttributeNames = Some [(''#name'', ''name'')],
               uc_ExpressionAttributeValues =
                 Some [('':name'', JStr ''existing''), ('':name_update_1'', JStr ''John'')],
               uc_UpdateExpression = ''SET #name = :name_update_1'' \<rparr>"
  have b: "buildUpdateCommandInput sample_reserved sample_update_input = Inr ?cmd"
    by (rule sample_update_eval)
  note keep = C7_update_token_collision
      [where R = sample_reserved and input = sample_update_input and k = "'':name''"
         and cmd = ?cmd,
       THEN conjunct2, THEN conjunct2, THEN conjunct2, THEN conjunct2, THEN conjunct2,
       THEN conjunct2]
  have k: "obj_get (or_empty (uc_ExpressionAttributeValues ?cmd)) '':name''
           = obj_get (caller_values sample_update_input) '':name''"
    using keep b d cv by simp
  show ?thesis
    using d u c b k cv by (simp add: obj_get_def or_empty_def)
qed

section \<open>Properties of the scan command builder\<close>

lemma parse_id:
  assumes "customScanCommandInputSch_parse custom = Inr p"
  shows "p = custom"
  using assms by (auto simp: customScanCommandInputSch_parse_def split: if_splits)

lemma buildScan_guard:
  assumes "customScanCommandInputSch_parse custom = Inr p" and "has_filters (si_filtersAttributes p)"
  shows "buildScanCommandInput_with generate custom
         = Inl (QueryParseError
                  ''Provide either filtersAttributes or filterExpression (not both).'' 400)"
  using assms by (simp add: buildScanCommandInput_with_def)

lemma buildScan_independent:
  "buildScanCommandInput_with generate custom = buildScanCommandInput_with generate' custom"
proof (cases "customScanCommandInputSch_parse custom")
  case (Inl e)
  then show ?thesis by (simp add: buildScanCommandInput_with_def)
next
  case (Inr p)
  show ?thesis
  proof (cases "has_filters (si_filtersAttributes p)")
    case True
    then show ?thesis using Inr by (simp add: buildScan_guard)
  next
    case False
    then show ?thesis using Inr by (simp add: buildScanCommandInput_with_def)
  qed
qed

text \<open>
  Claim C10. For every input that the schema accepts and whose \<^verbatim>\<open>filtersAttributes\<close> is a
  non-empty array, \<^verbatim>\<open>buildScanCommandInput\<close> throws the QueryParseError with status 400
  and message \<^verbatim>\<open>Provide either filtersAttributes or filterExpression (not both).\<close>,
  whatever \<^verbatim>\<open>filterExpression\<close> is, also when it is absent. An input with non-empty
  \<^verbatim>\<open>filtersAttributes\<close> never yields a command (one that the schema rejects fails in
  \<^verbatim>\<open>parse\<close>), and the result of the builder is the same for every function put in the
  place of \<^verbatim>\<open>generateDynamoFilterAttributes\<close>: the branch that calls it is unreachable.
\<close>

theorem C10_scan_rejects_filtersAttributes:
  "(customScanCommandInputSch_parse custom = Inr p \<and> si_filtersAttributes p = Some fs \<and> fs \<noteq> []
     \<longrightarrow> buildScanCommandInput rt custom
         = Inl (QueryParseError
                  ''Provide either filtersAttributes or filterExpression (not both).'' 400))
 \<and> (si_filtersAttributes custom = Some fs \<and> fs \<noteq> []
     \<longrightarrow> buildScanCommandInput rt custom = Inl ZodError
       \<or> buildScanCommandInput rt custom
           = Inl (QueryParseError
                    ''Provide either filtersAttributes or filterExpression (not both).'' 400))
 \<and> buildScanCommandInput rt custom = buildScanCommandInput_with generate custom"
proof (intro conjI impI)
  assume h: "customScanCommandInputSch_parse custom = Inr p \<and> si_filtersAttributes p = Some fs
             \<and> fs \<noteq> []"
  then have "has_filters (si_filtersAttributes p)" by (simp add: has_filters_def)
  with h show "buildScanCommandInput rt custom
         = Inl (QueryParseError
                  ''Provide either filtersAttributes or filterExpression (not both).'' 400)"
    by (simp add: buildScanCommandInput_def buildScan_guard)
next
  assume h: "si_filtersAttributes custom = Some fs \<and> fs \<noteq> []"
  show "buildScanCommandInput rt custom = Inl ZodError
       \<or> buildScanCommandInput rt custom
           = Inl (QueryParseError
                    ''Provide either filtersAttributes or filterExpression (not both).'' 400)"
  proof (cases "customScanCommandInputSch_accepts custom")
    case False
    then show ?thesis
      by (simp add: buildScanCommandInput_def buildScanCommandInput_with_def
          customScanCommandInputSch_parse_def)
  next
    case True
    then have p: "customScanCommandInputSch_parse custom = Inr custom"
      by (simp add: customScanCommandInputSch_parse_def)
    have "has_filters (si_filtersAttributes custom)" using h by (simp add: has_filters_def)
    with p show ?thesis by (simp add: buildScanCommandInput_def buildScan_guard)
  qed
next
  show "buildScanCommandInput rt custom = buildScanCommandInput_with generate custom"
    unfolding buildScanCommandInput_def by (rule buildScan_independent)
qed

theorem C10_scan_rejects_filtersAttributes_witness:
  "customScanCommandInputSch_parse sample_scan_input = Inr sample_scan_input
   \<and> si_filterExpression sample_scan_input = None
   \<and> (\<exists>f. si_filtersAttributes sample_scan_input = Some [f])
   \<and> buildScanCommandInput sample_runtime sample_scan_input
       = Inl (QueryParseError
                ''Provide either filtersAttributes or filterExpression (not both).'' 400)
   \<and> (\<exists>g. generateDynamoFilterAttributes sample_runtime
              (case si_filtersAttributes sample_scan_input of None \<Rightarrow> [] | Some fs \<Rightarrow> fs)
            = Inr (Some g) \<and> filterExpression g = ''(#f0 = :f0v)'')"
proof -
  have a: "customScanCommandInputSch_parse sample_scan_input = Inr sample_scan_input"
    by (simp add: customScanCommandInputSch_parse_def customScanCommandInputSch_accepts_def
        sample_scan_input_def dynamoFiltersInputSch_accepts_def dynamoFilterSch_accepts_def
        opt_in_def truthy_def)
  have f: "si_filtersAttributes sample_scan_input
           = Some [\<lparr> f_name = ''status'', f_type = T_S, f_condition = EQUAL_TO,
                     f_value = Some ''active'', f_value2 = None, f_values = None \<rparr>]"
    by (simp add: sample_scan_input_def)
  have b: "buildScanCommandInput sample_runtime sample_scan_input
       = Inl (QueryParseError
                ''Provide either filtersAttributes or filterExpression (not both).'' 400)"
    using C10_scan_rejects_filtersAttributes
            [where custom = sample_scan_input and p = sample_scan_input and rt = sample_runtime
               and fs = "[\<lparr> f_name = ''status'', f_type = T_S, f_condition = EQUAL_TO,
                     f_value = Some ''active'', f_value2 = None, f_values = None \<rparr>]",
             THEN conjunct1] a f
    by simp
  have g: "generateDynamoFilterAttributes sample_runtime
              (case si_filtersAttributes sample_scan_input of None \<Rightarrow> [] | Some fs \<Rightarrow> fs)
            = Inr (Some \<lparr> filterExpression = ''(#f0 = :f0v)'',
                          expressionAttributeNames = [(''#f0'', ''status'')],
                          expressionAttributeValues = [('':f0v'', JStr ''active'')] \<rparr>)"
    by (simp add: f generateDynamoFilterAttributes_def initial_state_def filter_step_def
        requireValue_def parseValueByType_def makeNameToken_def makeValueToken_def
        show_nat.simps digit_char_def comparison_op_def)
  show ?thesis using a b f g by (simp add: sample_scan_input_def)
qed

end
